(* ===== verification/Prelude.thy ===== *)
theory Prelude
  imports Complex_Main "HOL-Library.Word"
begin

text \<open>
  Shared vocabulary of the development: the types that name the program's values
  (node ids, IPv4 addresses as 32-bit words, ports as 16-bit words, times as seconds),
  the error values that model the program's aborts (\<open>NS_ABORT_MSG_IF\<close>,
  \<open>NS_FATAL_ERROR\<close>, \<open>NS_ASSERT\<close> in ns-3), the error monad \<open>rbind\<close> that threads
  an abort through a sequence of calls, and generic lemmas on lists and words that the
  component theories share.
\<close>

section \<open>Names of the model's types\<close>

type_synonym node_id = nat
type_synonym ipv4addr = "32 word"
type_synonym port = "16 word"
type_synonym seconds = real
type_synonym inet_addr = "ipv4addr \<times> port"

text \<open>
  Every abort of the program is a value of \<open>abort\<close>; a computation that may abort
  returns the abort on the left of a sum, as an exception would (see \<open>rbind\<close>).
\<close>

datatype abort =
    UnknownTcpType string          \<comment> \<open>\<open>NS_ABORT_MSG_IF (!ok, ...)\<close> in \<open>ConfigureTcp\<close>\<close>
  | UnsupportedScenario string     \<comment> \<open>\<open>NS_FATAL_ERROR\<close> in \<open>main\<close>\<close>
  | DirectoryNotCreated string     \<comment> \<open>\<open>SystemPath::MakeDirectories\<close> fails\<close>
  | FileNotOpened string           \<comment> \<open>\<open>AsciiTraceHelper::CreateFileStream\<close> fails\<close>
  | StackExists node_id            \<comment> \<open>\<open>InternetStackHelper::Install\<close> on a node with IPv4\<close>
  | NoIpv4Stack node_id            \<comment> \<open>\<open>Ipv4AddressHelper::Assign\<close> on a node without IPv4\<close>
  | AddressOverflow                \<comment> \<open>\<open>Ipv4AddressHelper::NewAddress\<close> past the host range\<close>
  | AddressCollision ipv4addr      \<comment> \<open>\<open>Ipv4AddressGenerator::AddAllocated\<close> collision\<close>
  | NegativeDelay                  \<comment> \<open>\<open>Simulator::Schedule\<close> with a negative delay\<close>

named_theorems frame_simps "field is not changed by an operation"
named_theorems model_defs "definitions unfolded when an operation is evaluated"

section \<open>The error monad\<close>

text \<open>
  \<open>rbind\<close> runs the second computation on the result of the first, and passes an
  abort on unchanged. The abort value is left generic: the engine theory pairs it with
  the state at the abort, since what was written to disk before the process died stays.
\<close>

definition rbind :: "'e + 'a \<Rightarrow> ('a \<Rightarrow> 'e + 'b) \<Rightarrow> 'e + 'b" where
  "rbind m f = (case m of Inl e \<Rightarrow> Inl e | Inr x \<Rightarrow> f x)"

lemma rbind_Inl [simp]: "rbind (Inl e) f = Inl e"
  by (simp add: rbind_def)

lemma rbind_Inr [simp]: "rbind (Inr x) f = f x"
  by (simp add: rbind_def)

lemma rbind_eq_Inr:
  "rbind m f = Inr y \<longleftrightarrow> (\<exists>x. m = Inr x \<and> f x = Inr y)"
  by (cases m) (simp_all add: rbind_def)

lemma rbind_eq_Inl:
  "rbind m f = Inl e \<longleftrightarrow> (m = Inl e \<or> (\<exists>x. m = Inr x \<and> f x = Inl e))"
  by (cases m) (simp_all add: rbind_def)

section \<open>IPv4 addresses in dotted-quad notation\<close>

definition ip4 :: "nat \<Rightarrow> nat \<Rightarrow> nat \<Rightarrow> nat \<Rightarrow> ipv4addr" where
  "ip4 a b c d = of_nat (a * 16777216 + b * 65536 + c * 256 + d)"

text \<open>\<open>Ipv4Address::GetAny ()\<close>, the wildcard bind address \<open>0.0.0.0\<close>.\<close>

definition ipv4_any :: ipv4addr where
  "ipv4_any = 0"

section \<open>Generic lemmas\<close>

lemma find_const_False [simp]: "find (\<lambda>_. False) xs = None"
  by (induction xs) auto

lemma find_Some_in: "find P xs = Some x \<Longrightarrow> x \<in> set xs \<and> P x"
  by (auto simp: find_Some_iff)

lemma set_upt_shift:
  "set (map (\<lambda>i. i + k) [0..<n]) = {k..<k + n}"
  by (auto simp: image_iff)

lemma nth_upt_plus:
  "i < n \<Longrightarrow> [k..<k + n] ! i = k + i"
  by simp

lemma sorted_wrt_map_fst_sort_key:
  "sorted (map fst (sort_key fst xs))"
  by (metis sorted_sort_key)

end
