(* ===== verification/Ns3World.thy ===== *)
theory Ns3World
  imports Prelude
begin

text \<open>
  The state of the ns-3 engine that \<open>src/ns3/tcp_compare.cc\<close> builds up: the node list,
  point-to-point devices and channels, installed IPv4 stacks, interface addresses and the
  global address allocator, applications, scheduled events, global attribute defaults,
  and the file system the artifacts go to. ns-3 itself is not part of the repository: its
  primitives are modelled here from the interface the spec (section 6) names and ns-3's
  documented behaviour, only as far as the composer observes them.
\<close>

section \<open>Devices, channels, applications\<close>

text \<open>The socket factory a helper is created with (\<open>"ns3::TcpSocketFactory"\<close> or \<open>"ns3::UdpSocketFactory"\<close>).\<close>

datatype proto = Tcp | Udp

record device =
  dev_node :: node_id
  dev_rate :: string            \<comment> \<open>\<open>DataRate\<close> device attribute\<close>
  dev_queue :: "string option"  \<comment> \<open>\<open>MaxSize\<close> of the \<open>DropTailQueue\<close>, when set by \<open>SetQueue\<close>\<close>
  dev_rx_error :: "real option" \<comment> \<open>\<open>ReceiveErrorModel\<close>: packet error rate\<close>

record channel =
  ch_delay :: string
  ch_ends :: "nat \<times> nat"        \<comment> \<open>the two device indices\<close>

record onoff_cfg =
  oo_on_time :: string
  oo_off_time :: string
  oo_pkt_size :: nat
  oo_rate :: string

datatype app_kind =
    PacketSink proto inet_addr            \<comment> \<open>\<open>PacketSinkHelper\<close>: protocol, local address\<close>
  | BulkSend proto inet_addr nat          \<comment> \<open>\<open>BulkSendHelper\<close>: protocol, remote, \<open>MaxBytes\<close>\<close>
  | OnOff proto inet_addr onoff_cfg       \<comment> \<open>\<open>OnOffHelper\<close>: protocol, remote, attributes\<close>

record app =
  app_node :: node_id
  app_kind :: app_kind
  app_start :: seconds
  app_stop :: seconds

text \<open>Events the composer schedules with \<open>Simulator::Schedule\<close>.\<close>

datatype sim_event =
    EvInstallCwndTracer node_id string    \<comment> \<open>\<open>InstallCwndTracer (node, stream)\<close>\<close>
  | EvSetOnOffRate "nat option" string    \<comment> \<open>\<open>SetOnOffRate (app, rate)\<close>; \<open>None\<close> a null pointer\<close>
  | EvStop                                \<comment> \<open>\<open>Simulator::Stop\<close>\<close>

text \<open>Global attribute values written by \<open>Config::SetDefault\<close>.\<close>

datatype cfg_value = TypeIdVal string | UintVal nat | BoolVal bool

text \<open>Artifacts: the congestion-window trace (\<open>time, old, new\<close> rows) and the flow-monitor summary.\<close>

datatype file_data =
    CwndCsv "(seconds \<times> 32 word \<times> 32 word) list"
  | FlowmonXml "node_id list"

datatype route = NetworkRoute ipv4addr ipv4addr nat | DefaultRoute ipv4addr nat

section \<open>The engine state\<close>

record world =
  w_nodes :: nat                          \<comment> \<open>\<open>NodeList\<close>: nodes \<open>0 ..< w_nodes\<close>\<close>
  w_stack :: "node_id list"               \<comment> \<open>nodes with an IPv4 stack, in install order\<close>
  w_devs :: "device list"
  w_chans :: "channel list"
  w_ifaces :: "(nat \<times> ipv4addr \<times> ipv4addr) list" \<comment> \<open>device, address, mask\<close>
  w_alloc :: "ipv4addr list"              \<comment> \<open>\<open>Ipv4AddressGenerator\<close>'s allocated addresses\<close>
  w_global_routes :: bool                 \<comment> \<open>\<open>PopulateRoutingTables\<close> was called\<close>
  w_routes :: "(node_id \<times> route) list"   \<comment> \<open>static routes\<close>
  w_defaults :: "string \<Rightarrow> cfg_value option"
  w_apps :: "app list"
  w_events :: "(seconds \<times> sim_event) list" \<comment> \<open>in scheduling order\<close>
  w_now :: seconds
  w_dirs :: "string set"
  w_denied :: "string set"                \<comment> \<open>directories the process may not create\<close>
  w_files :: "string \<Rightarrow> file_data option"
  w_flowmon :: "node_id list option"      \<comment> \<open>\<open>FlowMonitorHelper::InstallAll\<close>: monitored nodes\<close>
  w_cwnd_conns :: "(nat \<times> string) list" \<comment> \<open>traced sockets (application index) and their stream\<close>
  w_positions :: "(node_id \<times> real \<times> real) list" \<comment> \<open>constant-position mobility\<close>
  w_attached :: "(nat \<times> nat) list"       \<comment> \<open>LTE attachments: UE device, eNB device\<close>
  w_rng :: "nat \<times> nat"                   \<comment> \<open>\<open>RngSeedManager\<close>: seed, run\<close>
  w_destroyed :: bool

text \<open>
  The outcome of a step: the new state, or an abort together with the state at the
  moment the process died (directories and files written so far stay on disk).
\<close>

type_synonym 'a outcome = "(abort \<times> world) + 'a"

definition world0 :: "string set \<Rightarrow> string set \<Rightarrow> world" where
  "world0 dirs denied = \<lparr>w_nodes = 0, w_stack = [], w_devs = [], w_chans = [], w_ifaces = [],
     w_alloc = [], w_global_routes = False, w_routes = [], w_defaults = Map.empty,
     w_apps = [], w_events = [], w_now = 0, w_dirs = dirs, w_denied = denied,
     w_files = Map.empty, w_flowmon = None, w_cwnd_conns = [], w_positions = [], w_attached = [], w_rng = (1, 1), w_destroyed = False\<rparr>"

section \<open>Nodes and IPv4 stacks\<close>

text \<open>\<open>NodeContainer::Create (n)\<close>: the next \<open>n\<close> ids of the node list.\<close>

definition create_nodes :: "nat \<Rightarrow> world \<Rightarrow> node_id list \<times> world" where
  "create_nodes n w = ([w_nodes w ..< w_nodes w + n], w\<lparr>w_nodes := w_nodes w + n\<rparr>)"

text \<open>
  \<open>InternetStackHelper::Install\<close> on a container: one node after the other, a fatal
  error on a node that already has IPv4.
\<close>

definition install_stack_node :: "node_id \<Rightarrow> world \<Rightarrow> world outcome" where
  "install_stack_node n w =
     (if n \<in> set (w_stack w) then Inl (StackExists n, w) else Inr (w\<lparr>w_stack := w_stack w @ [n]\<rparr>))"

fun install_stack :: "node_id list \<Rightarrow> world \<Rightarrow> world outcome" where
  "install_stack [] w = Inr w"
| "install_stack (n # ns) w = rbind (install_stack_node n w) (install_stack ns)"

section \<open>Point-to-point links\<close>

text \<open>
  \<open>PointToPointHelper\<close> with the attributes the composer sets:
  \<open>SetDeviceAttribute ("DataRate")\<close>, \<open>SetChannelAttribute ("Delay")\<close> and
  \<open>SetQueue ("ns3::DropTailQueue<Packet>", "MaxSize", ...)\<close>.
\<close>

record p2p_helper =
  p2p_rate :: string
  p2p_delay :: string
  p2p_queue :: "string option"

definition p2p_default :: p2p_helper where
  "p2p_default = \<lparr>p2p_rate = ''32768bps'', p2p_delay = ''0ms'', p2p_queue = None\<rparr>"

definition p2p :: "string \<Rightarrow> string \<Rightarrow> p2p_helper" where
  "p2p rate delay = p2p_default\<lparr>p2p_rate := rate, p2p_delay := delay\<rparr>"

text \<open>\<open>PointToPointHelper::Install (a, b)\<close>: two devices and the channel between them.\<close>

definition p2p_dev :: "node_id \<Rightarrow> string \<Rightarrow> string option \<Rightarrow> device" where
  "p2p_dev n rate queue = \<lparr>dev_node = n, dev_rate = rate, dev_queue = queue, dev_rx_error = None\<rparr>"

definition p2p_install :: "p2p_helper \<Rightarrow> node_id \<Rightarrow> node_id \<Rightarrow> world \<Rightarrow> nat list \<times> world" where
  "p2p_install h a b w =
     (let d = length (w_devs w);
          mk = (\<lambda>n. p2p_dev n (p2p_rate h) (p2p_queue h))
      in ([d, Suc d],
          w\<lparr>w_devs := w_devs w @ [mk a, mk b],
            w_chans := w_chans w @ [\<lparr>ch_delay = p2p_delay h, ch_ends = (d, Suc d)\<rparr>]\<rparr>))"

text \<open>The endpoints of channel \<open>c\<close>, as node ids.\<close>

definition chan_nodes :: "world \<Rightarrow> channel \<Rightarrow> node_id \<times> node_id" where
  "chan_nodes w c = (dev_node (w_devs w ! fst (ch_ends c)), dev_node (w_devs w ! snd (ch_ends c)))"

definition links :: "world \<Rightarrow> (node_id \<times> node_id) list" where
  "links w = map (chan_nodes w) (w_chans w)"

section \<open>Well-formed engine states\<close>

text \<open>
  Every index the engine stores points at something that exists: channel ends at devices,
  devices, stacks and applications at nodes, interfaces at devices. Every primitive keeps
  this; the scenario builders rely on it to read the topology back as links between nodes.
\<close>

definition wf_world :: "world \<Rightarrow> bool" where
  "wf_world w \<longleftrightarrow>
     (\<forall>c \<in> set (w_chans w). fst (ch_ends c) < length (w_devs w) \<and> snd (ch_ends c) < length (w_devs w))
   \<and> (\<forall>d \<in> set (w_devs w). dev_node d < w_nodes w)
   \<and> (\<forall>n \<in> set (w_stack w). n < w_nodes w) \<and> distinct (w_stack w)
   \<and> (\<forall>i \<in> set (w_ifaces w). fst i < length (w_devs w))
   \<and> (\<forall>a \<in> set (w_apps w). app_node a < w_nodes w)"

text \<open>The state a scenario builder starts from: \<open>main\<close> has created no node, device or address yet.\<close>

definition no_topology :: "world \<Rightarrow> bool" where
  "no_topology w \<longleftrightarrow> w_nodes w = 0 \<and> w_stack w = [] \<and> w_devs w = [] \<and> w_chans w = []
     \<and> w_ifaces w = [] \<and> w_alloc w = [] \<and> w_apps w = [] \<and> w_events w = [] \<and> w_now w = 0
     \<and> w_cwnd_conns w = [] \<and> \<not> w_global_routes w \<and> w_routes w = [] \<and> w_positions w = []
     \<and> w_attached w = []"

text \<open>
  The same state with the topology part cleared and the rest (attribute defaults, file
  system, random number generator) kept: a record literal, so that builders evaluate on
  it by rewriting.
\<close>

definition fresh_world :: "world \<Rightarrow> world" where
  "fresh_world w = \<lparr>w_nodes = 0, w_stack = [], w_devs = [], w_chans = [], w_ifaces = [], w_alloc = [],
     w_global_routes = False, w_routes = [], w_defaults = w_defaults w, w_apps = [],
     w_events = [], w_now = 0, w_dirs = w_dirs w, w_denied = w_denied w, w_files = w_files w,
     w_flowmon = w_flowmon w, w_cwnd_conns = [], w_positions = [], w_attached = [],
     w_rng = w_rng w, w_destroyed = w_destroyed w\<rparr>"

section \<open>Lemmas on the primitives\<close>

lemma no_topology_world0: "no_topology (world0 dirs denied)"
  by (simp add: no_topology_def world0_def)

lemma no_topology_fresh [simp]: "no_topology w \<Longrightarrow> fresh_world w = w"
  by (simp add: no_topology_def fresh_world_def)


lemma create_nodes_fst [simp]: "fst (create_nodes n w) = [w_nodes w ..< w_nodes w + n]"
  by (simp add: create_nodes_def)

lemma create_nodes_snd [simp]: "snd (create_nodes n w) = w\<lparr>w_nodes := w_nodes w + n\<rparr>"
  by (simp add: create_nodes_def)

lemma install_stack_Inr_iff:
  "install_stack ns w = Inr w' \<longleftrightarrow>
     distinct ns \<and> set ns \<inter> set (w_stack w) = {} \<and> w' = w\<lparr>w_stack := w_stack w @ ns\<rparr>"
proof (induction ns arbitrary: w)
  case Nil
  then show ?case by auto
next
  case (Cons n ns)
  show ?case
    by (auto simp: install_stack_node_def Cons.IH)
qed

lemma install_stack_Inl:
  "install_stack ns w = Inl (e, we) \<Longrightarrow> \<exists>n \<in> set ns. e = StackExists n \<and> (n \<in> set (w_stack w) \<or> \<not> distinct ns)"
proof (induction ns arbitrary: w)
  case Nil
  then show ?case by simp
next
  case (Cons n ns)
  show ?case
  proof (cases "n \<in> set (w_stack w)")
    case True
    with Cons.prems show ?thesis by (simp add: install_stack_node_def)
  next
    case False
    with Cons.prems have "install_stack ns (w\<lparr>w_stack := w_stack w @ [n]\<rparr>) = Inl (e, we)"
      by (simp add: install_stack_node_def)
    from Cons.IH [OF this] show ?thesis by auto
  qed
qed

lemma p2p_install_fst [simp]: "fst (p2p_install h a b w) = [length (w_devs w), Suc (length (w_devs w))]"
  by (simp add: p2p_install_def Let_def)

lemma wf_world0: "wf_world (world0 dirs denied)"
  by (simp add: wf_world_def world0_def)

lemma wf_create_nodes: "wf_world w \<Longrightarrow> wf_world (snd (create_nodes n w))"
  by (fastforce simp: wf_world_def)

lemma wf_install_stack:
  assumes "wf_world w" "install_stack ns w = Inr w'" "\<forall>n \<in> set ns. n < w_nodes w"
  shows "wf_world w'"
  using assms by (auto simp: wf_world_def install_stack_Inr_iff)

lemma wf_p2p_install:
  "wf_world w \<Longrightarrow> a < w_nodes w \<Longrightarrow> b < w_nodes w \<Longrightarrow> wf_world (snd (p2p_install h a b w))"
  by (fastforce simp: wf_world_def p2p_install_def Let_def p2p_dev_def)

lemma chan_nodes_append_devs:
  "fst (ch_ends c) < length ds \<Longrightarrow> snd (ch_ends c) < length ds \<Longrightarrow>
   chan_nodes (w\<lparr>w_devs := ds @ ds', w_chans := cs\<rparr>) c = chan_nodes (w\<lparr>w_devs := ds\<rparr>) c"
  by (simp add: chan_nodes_def nth_append)

lemma p2p_install_links:
  assumes "wf_world w"
  shows "links (snd (p2p_install h a b w)) = links w @ [(a, b)]"
proof -
  let ?w' = "snd (p2p_install h a b w)"
  have old: "chan_nodes ?w' c = chan_nodes w c" if "c \<in> set (w_chans w)" for c
    using assms that by (auto simp: wf_world_def chan_nodes_def p2p_install_def Let_def nth_append)
  have new: "chan_nodes ?w' \<lparr>ch_delay = p2p_delay h, ch_ends = (length (w_devs w), Suc (length (w_devs w)))\<rparr> = (a, b)"
    by (simp add: chan_nodes_def p2p_install_def Let_def nth_append p2p_dev_def)
  show ?thesis
    using old new by (simp add: links_def p2p_install_def Let_def)
qed

end
