(* ===== verification/Simulator.thy ===== *)
theory Simulator
  imports Ns3World
begin

text \<open>
  The discrete-event engine at the interface the composer uses: \<open>Simulator::Schedule\<close>
  puts a callback on the event list at \<open>Now () + delay\<close> (a negative delay fails ns-3's
  assertion), \<open>Simulator::Stop (t)\<close> schedules the stop event, \<open>Simulator::Run\<close>
  executes events in time order, ties in scheduling order, up to the stop event, and
  \<open>Simulator::Destroy\<close> discards what is left. Besides the composer's callbacks, the
  run delivers congestion-window changes of TCP sockets; their times and values come from
  the transport models, which are out of scope, so they are an input of the run.
  The run loop is written against an interface: \<open>exec\<close> executes a scheduled callback
  and \<open>notify\<close> a window change; the instrumentation theory supplies both.
\<close>

text \<open>A window change: time, the socket's application, old and new window.\<close>

type_synonym cwnd_change = "seconds \<times> nat \<times> 32 word \<times> 32 word"

datatype item = Sched sim_event | CwndChange nat "32 word" "32 word"

definition Schedule :: "seconds \<Rightarrow> sim_event \<Rightarrow> world \<Rightarrow> world outcome" where
  "Schedule delay e w =
     (if delay < 0 then Inl (NegativeDelay, w) else Inr (w\<lparr>w_events := w_events w @ [(w_now w + delay, e)]\<rparr>))"

definition Simulator_Stop :: "seconds \<Rightarrow> world \<Rightarrow> world outcome" where
  "Simulator_Stop delay w = Schedule delay EvStop w"

text \<open>The run's timeline: scheduled events first, so that a tie goes to them (smaller ids).\<close>

definition timeline :: "(seconds \<times> sim_event) list \<Rightarrow> cwnd_change list \<Rightarrow> (seconds \<times> item) list" where
  "timeline evs env =
     sort_key fst (map (\<lambda>(t, e). (t, Sched e)) evs @ map (\<lambda>(t, i, o', n). (t, CwndChange i o' n)) env)"

fun run_items ::
  "(sim_event \<Rightarrow> world \<Rightarrow> world) \<Rightarrow> (nat \<Rightarrow> 32 word \<Rightarrow> 32 word \<Rightarrow> world \<Rightarrow> world) \<Rightarrow>
   (seconds \<times> item) list \<Rightarrow> world \<Rightarrow> world" where
  "run_items exec notify [] w = w"
| "run_items exec notify ((t, Sched EvStop) # xs) w = w\<lparr>w_now := t\<rparr>"
| "run_items exec notify ((t, Sched e) # xs) w = run_items exec notify xs (exec e (w\<lparr>w_now := t\<rparr>))"
| "run_items exec notify ((t, CwndChange i o' n) # xs) w = run_items exec notify xs (notify i o' n (w\<lparr>w_now := t\<rparr>))"

definition Simulator_Run ::
  "(sim_event \<Rightarrow> world \<Rightarrow> world) \<Rightarrow> (nat \<Rightarrow> 32 word \<Rightarrow> 32 word \<Rightarrow> world \<Rightarrow> world) \<Rightarrow>
   cwnd_change list \<Rightarrow> world \<Rightarrow> world" where
  "Simulator_Run exec notify env w = run_items exec notify (timeline (w_events w) env) w"

definition Simulator_Destroy :: "world \<Rightarrow> world" where
  "Simulator_Destroy w = w\<lparr>w_events := [], w_destroyed := True\<rparr>"

section \<open>Facts about the engine\<close>

lemma sorted_timeline: "sorted (map fst (timeline evs env))"
  by (simp add: timeline_def sorted_wrt_map_fst_sort_key)

lemma Schedule_Inr:
  "Schedule d e w = Inr w' \<longleftrightarrow> 0 \<le> d \<and> w' = w\<lparr>w_events := w_events w @ [(w_now w + d, e)]\<rparr>"
  by (auto simp: Schedule_def)

text \<open>
  The run executes items in the order of the timeline: the state after the run is the
  state after its longest prefix that ends before the first stop event, with the clock
  at the stop time. Callbacks that keep a field keep it through the whole run.
\<close>

lemma run_items_append_nostop:
  "\<forall>x \<in> set xs. snd x \<noteq> Sched EvStop \<Longrightarrow>
   run_items exec notify (xs @ ys) w = run_items exec notify ys (run_items exec notify xs w)"
proof (induction exec notify xs w rule: run_items.induct)
qed auto

lemma run_items_field:
  assumes "\<And>e w. f (exec e w) = f w" and "\<And>i o' n w. f (notify i o' n w) = f w"
    and "\<And>t w. f (w\<lparr>w_now := t\<rparr>) = f w"
  shows "f (run_items exec notify xs w) = f w"
  using assms by (induction exec notify xs w rule: run_items.induct) auto

end
