(* ===== verification/RuntimeOptions.thy ===== *)
theory RuntimeOptions
  imports Prelude
begin

text \<open>
  \<open>struct RuntimeOptions\<close> of \<open>src/ns3/tcp_compare.cc\<close> (lines 29--55) and the
  command-line bindings of \<open>main\<close> (lines 580--592). The C++ doubles are modelled as
  exact reals, the \<open>uint32_t\<close> seed as a 32-bit word. \<open>CommandLine::Parse\<close> converts
  each \<open>--name=value\<close> to the bound field's type (not modelled: the values arrive
  typed, as \<open>cli_arg\<close>) and assigns them left to right, so a later flag overrides an
  earlier one.
\<close>

record runtime_options =
  scenario :: string
  tcpType :: string
  queueSize :: string
  simulationTime :: seconds
  warmupTime :: seconds
  seed :: "32 word"
  lossRate :: real
  blockageDuration :: seconds
  enableFlowMonitor :: bool

definition default_options :: runtime_options where
  "default_options =
     \<lparr>scenario = ''S1'', tcpType = ''TcpCubic'', queueSize = ''150p'',
      simulationTime = 120.0, warmupTime = 20.0, seed = 1, lossRate = 0.0,
      blockageDuration = 0.2, enableFlowMonitor = True\<rparr>"

text \<open>One recognised flag with its parsed value, one constructor per \<open>cmd.AddValue\<close>.\<close>

datatype cli_arg =
    ArgScenario string | ArgTcp string | ArgQueue string | ArgTime seconds
  | ArgWarmup seconds | ArgRun "32 word" | ArgLoss real | ArgBlockage seconds
  | ArgFlowMonitor bool

fun apply_arg :: "runtime_options \<Rightarrow> cli_arg \<Rightarrow> runtime_options" where
  "apply_arg o' (ArgScenario v) = o'\<lparr>scenario := v\<rparr>"
| "apply_arg o' (ArgTcp v) = o'\<lparr>tcpType := v\<rparr>"
| "apply_arg o' (ArgQueue v) = o'\<lparr>queueSize := v\<rparr>"
| "apply_arg o' (ArgTime v) = o'\<lparr>simulationTime := v\<rparr>"
| "apply_arg o' (ArgWarmup v) = o'\<lparr>warmupTime := v\<rparr>"
| "apply_arg o' (ArgRun v) = o'\<lparr>seed := v\<rparr>"
| "apply_arg o' (ArgLoss v) = o'\<lparr>lossRate := v\<rparr>"
| "apply_arg o' (ArgBlockage v) = o'\<lparr>blockageDuration := v\<rparr>"
| "apply_arg o' (ArgFlowMonitor v) = o'\<lparr>enableFlowMonitor := v\<rparr>"

definition parse_cli :: "cli_arg list \<Rightarrow> runtime_options" where
  "parse_cli args = foldl apply_arg default_options args"

text \<open>
  The spec's invariant on a parameter bundle (section 3). The program never checks it:
  \<open>main\<close> passes whatever \<open>CommandLine\<close> produced.
\<close>

definition options_valid :: "runtime_options \<Rightarrow> bool" where
  "options_valid o' \<longleftrightarrow>
     0 \<le> simulationTime o' \<and> 0 \<le> warmupTime o' \<and> 0 \<le> blockageDuration o'
     \<and> 0 \<le> lossRate o' \<and> lossRate o' \<le> 1
     \<and> scenario o' \<in> {''S1'', ''S2'', ''S3'', ''S4'', ''S5''}"

lemma parse_cli_append:
  "parse_cli (args @ [a]) = apply_arg (parse_cli args) a"
  by (simp add: parse_cli_def)

end
