(* ===== verification/OutputPath.thy ===== *)
theory OutputPath
  imports RuntimeOptions Ns3World
begin

text \<open>
  The Output Path Resolver: \<open>CreateOutputDir\<close> (\<open>src/ns3/tcp_compare.cc\<close> lines 57--64)
  builds \<open>results/<scenario>/<tcpType>/run-<seed>\<close> with \<open>std::to_string\<close> and creates
  it with \<open>SystemPath::MakeDirectories\<close>; the scenario builders then open
  \<open><dir>/cwnd.csv\<close> with \<open>AsciiTraceHelper::CreateFileStream\<close>. Here: decimal printing
  and its parser, path splitting, the directory creation on the world's file system, and
  the file-stream creation, with the round trip from a path back to its parameters,
  injectivity of the naming, what the creation leaves, and its error branch.
\<close>

section \<open>Decimal printing: \<open>std::to_string\<close>\<close>

definition digit_char :: "nat \<Rightarrow> char" where
  "digit_char d = char_of (48 + d)"

fun to_string :: "nat \<Rightarrow> string" where
  "to_string n = (if n < 10 then [digit_char n] else to_string (n div 10) @ [digit_char (n mod 10)])"

declare to_string.simps [simp del]

definition char_digit :: "char \<Rightarrow> nat option" where
  "char_digit c = (let k = of_char c in if 48 \<le> k \<and> k < 58 then Some (k - 48) else None)"

fun parse_digits :: "nat \<Rightarrow> string \<Rightarrow> nat option" where
  "parse_digits acc [] = Some acc"
| "parse_digits acc (c # cs) =
     (case char_digit c of None \<Rightarrow> None | Some d \<Rightarrow> parse_digits (10 * acc + d) cs)"

definition parse_decimal :: "string \<Rightarrow> nat option" where
  "parse_decimal s = (if s = [] then None else parse_digits 0 s)"

section \<open>Paths\<close>

fun split_slash :: "string \<Rightarrow> string list" where
  "split_slash [] = [[]]"
| "split_slash (c # cs) =
     (if c = CHR ''/'' then [] # split_slash cs
      else (case split_slash cs of [] \<Rightarrow> [[c]] | p # ps \<Rightarrow> (c # p) # ps))"

fun join_slash :: "string list \<Rightarrow> string" where
  "join_slash [] = []"
| "join_slash [p] = p"
| "join_slash (p # ps) = p @ CHR ''/'' # join_slash ps"

text \<open>The directories \<open>MakeDirectories\<close> creates: every prefix of the path at a separator.\<close>

definition path_prefixes :: "string \<Rightarrow> string list" where
  "path_prefixes p = (let cs = split_slash p in map (\<lambda>k. join_slash (take k cs)) [1..<Suc (length cs)])"

section \<open>\<open>SystemPath::MakeDirectories\<close> and \<open>CreateOutputDir\<close>\<close>

text \<open>
  Each missing prefix is created in turn; creating one the process may not create is
  fatal. Existing directories are left alone, so the call succeeds on an existing path.
\<close>

definition make_directories :: "string \<Rightarrow> world \<Rightarrow> world outcome" where
  "make_directories p w =
     (case find (\<lambda>d. d \<notin> w_dirs w \<and> d \<in> w_denied w) (path_prefixes p) of
        Some d \<Rightarrow> Inl (DirectoryNotCreated d, w)
      | None \<Rightarrow> Inr (w\<lparr>w_dirs := w_dirs w \<union> set (path_prefixes p)\<rparr>))"

definition output_dir_name :: "runtime_options \<Rightarrow> string" where
  "output_dir_name opts =
     ''results/'' @ scenario opts @ ''/'' @ tcpType opts @ ''/run-'' @ to_string (unat (seed opts))"

definition CreateOutputDir :: "runtime_options \<Rightarrow> world \<Rightarrow> (string \<times> world) outcome" where
  "CreateOutputDir opts w =
     (let dir = output_dir_name opts
      in rbind (make_directories dir w) (\<lambda>w'. Inr (dir, w')))"

text \<open>
  \<open>AsciiTraceHelper::CreateFileStream\<close>: opens (and truncates) the file; opening a file
  whose directory does not exist aborts.
\<close>

definition parent_dir :: "string \<Rightarrow> string" where
  "parent_dir p = join_slash (butlast (split_slash p))"

definition create_file_stream :: "string \<Rightarrow> world \<Rightarrow> world outcome" where
  "create_file_stream p w =
     (if parent_dir p \<in> w_dirs w then Inr (w\<lparr>w_files := (w_files w)(p \<mapsto> CwndCsv [])\<rparr>)
      else Inl (FileNotOpened p, w))"

section \<open>Reading a path back\<close>

definition parse_output_dir :: "string \<Rightarrow> (string \<times> string \<times> nat) option" where
  "parse_output_dir p =
     (case split_slash p of
        [r, s, t, run] \<Rightarrow>
          (if r = ''results'' \<and> take 4 run = ''run-'' then
             map_option (\<lambda>n. (s, t, n)) (parse_decimal (drop 4 run))
           else None)
      | _ \<Rightarrow> None)"

section \<open>Properties of the resolver\<close>

lemma of_char_digit_char: "d < 10 \<Longrightarrow> of_char (digit_char d) = (48 + d :: nat)"
  unfolding digit_char_def by (simp add: of_char_of)

lemma char_digit_digit_char [simp]: "d < 10 \<Longrightarrow> char_digit (digit_char d) = Some d"
  by (simp add: char_digit_def of_char_digit_char)

lemma digit_char_not_slash [simp]: "d < 10 \<Longrightarrow> CHR ''/'' \<noteq> digit_char d"
proof
  assume d: "d < 10" and eq: "CHR ''/'' = digit_char d"
  have "(of_char (CHR ''/'') :: nat) = of_char (digit_char d)"
    by (simp only: eq)
  with d show False
    by (simp add: of_char_digit_char)
qed

lemma parse_digits_append:
  "parse_digits acc (xs @ ys) = (case parse_digits acc xs of None \<Rightarrow> None | Some a \<Rightarrow> parse_digits a ys)"
  by (induction xs arbitrary: acc) (auto split: option.splits)

lemma to_string_nonempty [simp]: "to_string n \<noteq> []"
  by (subst to_string.simps) simp

lemma to_string_no_slash: "CHR ''/'' \<notin> set (to_string n)"
proof (induction n rule: to_string.induct)
  case (1 n)
  then show ?case by (subst to_string.simps) auto
qed

lemma parse_digits_to_string: "parse_digits acc (to_string n) = Some (acc * 10 ^ length (to_string n) + n)"
proof (induction n arbitrary: acc rule: to_string.induct)
  case (1 n)
  show ?case
  proof (cases "n < 10")
    case True
    then show ?thesis by (subst (1 2) to_string.simps) simp
  next
    case False
    then have eq: "to_string n = to_string (n div 10) @ [digit_char (n mod 10)]"
      by (subst to_string.simps) simp
    have "10 * (acc * 10 ^ length (to_string (n div 10)) + n div 10) + n mod 10
          = acc * 10 ^ Suc (length (to_string (n div 10))) + n"
      by (simp add: algebra_simps)
    with "1.IH" [OF False] show ?thesis
      by (simp add: eq parse_digits_append)
  qed
qed

lemma split_slash_nonempty [simp]: "split_slash s \<noteq> []"
  by (induction s) (auto split: list.splits)

lemma split_slash_length [simp]: "Suc 0 \<le> length (split_slash s)"
  using split_slash_nonempty [of s] by (cases "split_slash s") auto

lemma split_slash_append_slash:
  "CHR ''/'' \<notin> set p \<Longrightarrow> split_slash (p @ CHR ''/'' # s) = p # split_slash s"
  by (induction p) auto

lemma split_slash_no_slash: "CHR ''/'' \<notin> set p \<Longrightarrow> split_slash p = [p]"
  by (induction p) auto

lemma split_join_slash:
  "ps \<noteq> [] \<Longrightarrow> \<forall>p \<in> set ps. CHR ''/'' \<notin> set p \<Longrightarrow> split_slash (join_slash ps) = ps"
proof (induction ps rule: join_slash.induct)
  case (3 p q ps)
  then show ?case by (simp add: split_slash_append_slash)
qed (simp_all add: split_slash_no_slash)

lemma last_path_prefix: "last (path_prefixes p) = join_slash (split_slash p)"
  by (simp add: path_prefixes_def Let_def)

lemma join_split_slash: "join_slash (split_slash s) = s"
proof (induction s)
  case Nil
  then show ?case by simp
next
  case (Cons c cs)
  then show ?case
    by (cases "split_slash cs" rule: join_slash.cases) (auto split: list.splits)
qed

lemma path_in_prefixes: "p \<in> set (path_prefixes p)"
proof -
  have "path_prefixes p \<noteq> []" by (simp add: path_prefixes_def Let_def)
  then have "last (path_prefixes p) \<in> set (path_prefixes p)" by (rule last_in_set)
  then show ?thesis by (simp add: last_path_prefix join_split_slash)
qed

lemma parse_decimal_to_string [simp]: "parse_decimal (to_string n) = Some n"
  by (simp add: parse_decimal_def parse_digits_to_string)

lemma split_slash_append_sep:
  "split_slash (p @ CHR ''/'' # q) = split_slash p @ split_slash q"
proof (induction p)
  case Nil
  then show ?case by simp
next
  case (Cons c cs)
  then show ?case by (cases "split_slash cs") (auto split: list.splits)
qed

lemma output_dir_name_join:
  "output_dir_name opts =
     join_slash [''results'', scenario opts, tcpType opts, ''run-'' @ to_string (unat (seed opts))]"
  by (simp add: output_dir_name_def)

lemma split_output_dir_name:
  assumes "CHR ''/'' \<notin> set (scenario opts)" and "CHR ''/'' \<notin> set (tcpType opts)"
  shows "split_slash (output_dir_name opts) = [''results'', scenario opts, tcpType opts, ''run-'' @ to_string (unat (seed opts))]"
  unfolding output_dir_name_join using assms
  by (intro split_join_slash) (auto simp: to_string_no_slash)

text \<open>
  C19. The artifact directory names its parameters: from the path \<open>CreateOutputDir\<close>
  builds, the scenario, the TCP variant and the run number can be read back, provided the
  scenario and variant names contain no path separator.
\<close>

theorem parse_output_dir_roundtrip:
  assumes "CHR ''/'' \<notin> set (scenario opts)" and "CHR ''/'' \<notin> set (tcpType opts)"
  shows "parse_output_dir (output_dir_name opts) = Some (scenario opts, tcpType opts, unat (seed opts))"
  by (simp add: parse_output_dir_def split_output_dir_name [OF assms])

lemma output_dir_name_inj:
  assumes "CHR ''/'' \<notin> set (scenario o1)" "CHR ''/'' \<notin> set (tcpType o1)"
    and "CHR ''/'' \<notin> set (scenario o2)" "CHR ''/'' \<notin> set (tcpType o2)"
    and "output_dir_name o1 = output_dir_name o2"
  shows "scenario o1 = scenario o2 \<and> tcpType o1 = tcpType o2 \<and> seed o1 = seed o2"
proof -
  have "[''results'', scenario o1, tcpType o1, ''run-'' @ to_string (unat (seed o1))]
      = [''results'', scenario o2, tcpType o2, ''run-'' @ to_string (unat (seed o2))]"
    using split_output_dir_name [OF assms(1,2)] split_output_dir_name [OF assms(3,4)] assms(5)
    by (simp only:)
  then have "scenario o1 = scenario o2" and "tcpType o1 = tcpType o2"
    and t: "to_string (unat (seed o1)) = to_string (unat (seed o2))"
    by (simp_all only: list.inject same_append_eq simp_thms)
  moreover have "Some (unat (seed o1)) = Some (unat (seed o2))"
  proof -
    have "Some (unat (seed o1)) = parse_decimal (to_string (unat (seed o1)))"
      by (rule parse_decimal_to_string [symmetric])
    also have "\<dots> = parse_decimal (to_string (unat (seed o2)))"
      by (simp only: t)
    also have "\<dots> = Some (unat (seed o2))"
      by (rule parse_decimal_to_string)
    finally show ?thesis .
  qed
  ultimately show ?thesis by (simp add: word_unat_eq_iff)
qed

lemma make_directories_Inr:
  "make_directories p w = Inr w' \<longleftrightarrow>
     (\<forall>d \<in> set (path_prefixes p). d \<in> w_dirs w \<or> d \<notin> w_denied w)
     \<and> w' = w\<lparr>w_dirs := w_dirs w \<union> set (path_prefixes p)\<rparr>"
  by (auto simp: make_directories_def find_None_iff dest: find_Some_in split: option.splits)

lemma make_directories_Inl:
  "(\<exists>e. make_directories p w = Inl e) \<longleftrightarrow>
     (\<exists>d \<in> set (path_prefixes p). d \<notin> w_dirs w \<and> d \<in> w_denied w)"
  by (auto simp: make_directories_def find_None_iff dest: find_Some_in split: option.splits)

lemma CreateOutputDir_Inr:
  "CreateOutputDir opts w = Inr (d, w') \<longleftrightarrow>
     d = output_dir_name opts
     \<and> (\<forall>p \<in> set (path_prefixes d). p \<in> w_dirs w \<or> p \<notin> w_denied w)
     \<and> w' = w\<lparr>w_dirs := w_dirs w \<union> set (path_prefixes d)\<rparr>"
  by (auto simp: CreateOutputDir_def Let_def rbind_eq_Inr make_directories_Inr)

text \<open>
  C20. \<open>CreateOutputDir\<close> returns the deterministic path and leaves every directory on
  it existing; nothing else of the engine state changes.
\<close>

theorem CreateOutputDir_creates:
  assumes "CreateOutputDir opts w = Inr (d, w')"
  shows "d = output_dir_name opts \<and> set (path_prefixes d) \<subseteq> w_dirs w'
         \<and> w' = w\<lparr>w_dirs := w_dirs w \<union> set (path_prefixes d)\<rparr>"
  using assms by (auto simp: CreateOutputDir_Inr)

text \<open>
  C21. Directory creation fails exactly when some directory on the path is missing and
  may not be created; the failure is an abort naming that directory.
\<close>

theorem CreateOutputDir_fails:
  "(\<exists>e. CreateOutputDir opts w = Inl e) \<longleftrightarrow>
     (\<exists>d \<in> set (path_prefixes (output_dir_name opts)). d \<notin> w_dirs w \<and> d \<in> w_denied w)"
  by (auto simp: CreateOutputDir_def Let_def rbind_eq_Inl make_directories_Inl [symmetric]
           split: sum.splits)

lemma parent_dir_append:
  assumes "CHR ''/'' \<notin> set f"
  shows "parent_dir (d @ CHR ''/'' # f) = d"
proof -
  have "butlast (split_slash (d @ CHR ''/'' # f)) = split_slash d"
    using assms by (simp add: split_slash_append_sep split_slash_no_slash)
  then show ?thesis by (simp add: parent_dir_def join_split_slash)
qed

lemma create_file_stream_in_dir:
  assumes "CHR ''/'' \<notin> set f" and "d \<in> w_dirs w"
  shows "create_file_stream (d @ CHR ''/'' # f) w = Inr (w\<lparr>w_files := (w_files w)(d @ CHR ''/'' # f \<mapsto> CwndCsv [])\<rparr>)"
  using assms by (simp add: create_file_stream_def parent_dir_append)

lemma CreateOutputDir_dir_exists:
  "CreateOutputDir opts w = Inr (d, w') \<Longrightarrow> d \<in> w_dirs w'"
  using path_in_prefixes by (auto simp: CreateOutputDir_Inr)

theorem parse_output_dir_roundtrip_witness:
  "parse_output_dir (output_dir_name default_options) = Some (''S1'', ''TcpCubic'', 1)"
  using parse_output_dir_roundtrip [of default_options] by (simp add: default_options_def)

lemma to_string_1: "to_string (Suc 0) = ''1''"
  by code_simp

lemma CreateOutputDir_default:
  "CreateOutputDir default_options (world0 {} {})
   = Inr (''results/S1/TcpCubic/run-1'',
          (world0 {} {})\<lparr>w_dirs := set (path_prefixes ''results/S1/TcpCubic/run-1'')\<rparr>)"
  by (simp add: CreateOutputDir_def output_dir_name_def default_options_def make_directories_def
      world0_def to_string_1 Let_def)

theorem CreateOutputDir_creates_witness:
  "''results/S1/TcpCubic'' \<in> w_dirs ((world0 {} {})\<lparr>w_dirs := set (path_prefixes ''results/S1/TcpCubic/run-1'')\<rparr>)"
proof -
  have "set (path_prefixes ''results/S1/TcpCubic/run-1'') \<subseteq>
        w_dirs ((world0 {} {})\<lparr>w_dirs := set (path_prefixes ''results/S1/TcpCubic/run-1'')\<rparr>)"
    using CreateOutputDir_creates [OF CreateOutputDir_default] by blast
  moreover have "''results/S1/TcpCubic'' \<in> set (path_prefixes ''results/S1/TcpCubic/run-1'')"
    by (simp add: path_prefixes_def)
  ultimately show ?thesis by blast
qed

end
