(* ===== verification/Addressing.thy ===== *)
theory Addressing
  imports Ns3World
begin

unbundle bit_operations_syntax

text \<open>
  Address assignment. The composer assigns addresses per link segment with ns-3's
  \<open>Ipv4AddressHelper\<close> (\<open>SetBase\<close>, \<open>Assign\<close>, \<open>NewNetwork\<close>; lines 113--117, 246--256,
  339--345 and 485--487 of \<open>src/ns3/tcp_compare.cc\<close>); every address handed out is
  registered with the process-wide \<open>Ipv4AddressGenerator\<close>, which aborts on a collision.
  The helper keeps its network number shifted down by the number of host bits, and
  \<open>NewNetwork\<close> increments it in 32-bit arithmetic: a network past \<open>x.y.255.0/24\<close>
  wraps into the next \<open>/16\<close>. The helper's code is ns-3's; it is modelled from the
  documented behaviour of these calls.
\<close>

record addr_helper =
  ah_network :: ipv4addr    \<comment> \<open>network number, shifted right by \<open>ah_shift\<close>\<close>
  ah_mask :: ipv4addr
  ah_address :: ipv4addr    \<comment> \<open>next host number\<close>
  ah_base :: ipv4addr
  ah_shift :: nat
  ah_max :: ipv4addr

text \<open>\<open>NumAddressBits\<close>: the number of host bits, i.e. trailing zero bits of the mask.\<close>

definition num_address_bits :: "ipv4addr \<Rightarrow> nat" where
  "num_address_bits m = (case find (\<lambda>i. bit m i) [0..<32] of Some i \<Rightarrow> i | None \<Rightarrow> 0)"

definition SetBase :: "ipv4addr \<Rightarrow> ipv4addr \<Rightarrow> ipv4addr \<Rightarrow> addr_helper" where
  "SetBase network netmask base =
     (let shift = num_address_bits netmask
      in \<lparr>ah_network = drop_bit shift network, ah_mask = netmask, ah_address = base,
          ah_base = base, ah_shift = shift, ah_max = push_bit shift 1 - 2\<rparr>)"

text \<open>\<open>Ipv4AddressHelper (network, mask)\<close>: \<open>SetBase\<close> with the default base \<open>0.0.0.1\<close>.\<close>

definition addr_helper_of :: "ipv4addr \<Rightarrow> ipv4addr \<Rightarrow> addr_helper" where
  "addr_helper_of network netmask = SetBase network netmask 1"

text \<open>\<open>Ipv4AddressGenerator::AddAllocated\<close>.\<close>

definition add_allocated :: "ipv4addr \<Rightarrow> world \<Rightarrow> world outcome" where
  "add_allocated a w =
     (if a \<in> set (w_alloc w) then Inl (AddressCollision a, w) else Inr (w\<lparr>w_alloc := w_alloc w @ [a]\<rparr>))"

definition helper_addr :: "addr_helper \<Rightarrow> ipv4addr" where
  "helper_addr h = push_bit (ah_shift h) (ah_network h) OR ah_address h"

definition NewAddress :: "addr_helper \<Rightarrow> world \<Rightarrow> (ipv4addr \<times> addr_helper \<times> world) outcome" where
  "NewAddress h w =
     (if ah_address h \<le> ah_max h then
        (let a = helper_addr h
         in rbind (add_allocated a w) (\<lambda>w'. Inr (a, h\<lparr>ah_address := ah_address h + 1\<rparr>, w')))
      else Inl (AddressOverflow, w))"

definition NewNetwork :: "addr_helper \<Rightarrow> addr_helper" where
  "NewNetwork h = h\<lparr>ah_network := ah_network h + 1, ah_address := ah_base h\<rparr>"

text \<open>
  \<open>Ipv4AddressHelper::Assign\<close>: for each device of the container, in order, the node
  must have IPv4, the next address is taken and recorded on the device's interface. The
  result is the interface container's addresses, the advanced helper and the state.
\<close>

fun Assign :: "addr_helper \<Rightarrow> nat list \<Rightarrow> world \<Rightarrow> (ipv4addr list \<times> addr_helper \<times> world) outcome" where
  "Assign h [] w = Inr ([], h, w)"
| "Assign h (d # ds) w =
     (let n = dev_node (w_devs w ! d)
      in if n \<notin> set (w_stack w) then Inl (NoIpv4Stack n, w)
         else rbind (NewAddress h w) (\<lambda>(a, h', w').
                rbind (Assign h' ds (w'\<lparr>w_ifaces := w_ifaces w' @ [(d, a, ah_mask h)]\<rparr>))
                  (\<lambda>(as, h'', w''). Inr (a # as, h'', w''))))"

section \<open>Addresses within one network\<close>

definition mask24 :: ipv4addr where
  "mask24 = ip4 255 255 255 0"

definition mask8 :: ipv4addr where
  "mask8 = ip4 255 0 0 0"

text \<open>
  The addresses an \<open>Assign\<close> of \<open>n\<close> devices hands out, in order, when nothing goes
  wrong; the condition under which none of them collides; and the whole result.
\<close>

definition assign_plan :: "addr_helper \<Rightarrow> nat \<Rightarrow> ipv4addr list" where
  "assign_plan h n = map (\<lambda>k. helper_addr (h\<lparr>ah_address := ah_address h + of_nat k\<rparr>)) [0..<n]"

definition fresh_for :: "ipv4addr list \<Rightarrow> ipv4addr list \<Rightarrow> bool" where
  "fresh_for A P \<longleftrightarrow> distinct P \<and> set P \<inter> set A = {}"

definition assign_result :: "addr_helper \<Rightarrow> nat list \<Rightarrow> world \<Rightarrow> ipv4addr list \<times> addr_helper \<times> world" where
  "assign_result h ds w =
     (assign_plan h (length ds), h\<lparr>ah_address := ah_address h + of_nat (length ds)\<rparr>,
      w\<lparr>w_ifaces := w_ifaces w @ map2 (\<lambda>d a. (d, a, ah_mask h)) ds (assign_plan h (length ds)),
        w_alloc := w_alloc w @ assign_plan h (length ds)\<rparr>)"

lemma num_address_bits_mask24 [simp]: "num_address_bits mask24 = 8"
  by (simp add: num_address_bits_def mask24_def ip4_def upt_rec)

lemma num_address_bits_mask8 [simp]: "num_address_bits mask8 = 24"
  by (simp add: num_address_bits_def mask8_def ip4_def upt_rec)

lemma NewAddress_Inr:
  "NewAddress h w = Inr (a, h', w') \<longleftrightarrow>
     ah_address h \<le> ah_max h \<and> helper_addr h \<notin> set (w_alloc w)
     \<and> a = helper_addr h \<and> h' = h\<lparr>ah_address := ah_address h + 1\<rparr>
     \<and> w' = w\<lparr>w_alloc := w_alloc w @ [helper_addr h]\<rparr>"
  by (auto simp: NewAddress_def add_allocated_def Let_def)

lemma NewAddress_frame:
  "NewAddress h w = Inr (a, h', w') \<Longrightarrow> w'\<lparr>w_alloc := w_alloc w\<rparr> = w \<and> ah_network h' = ah_network h
   \<and> ah_shift h' = ah_shift h \<and> ah_mask h' = ah_mask h \<and> ah_base h' = ah_base h \<and> ah_max h' = ah_max h"
  by (auto simp: NewAddress_Inr)


section \<open>Assignment without overflow\<close>

lemma fresh_for_Nil [simp]: "fresh_for A []"
  by (simp add: fresh_for_def)

lemma fresh_for_Cons [simp]: "fresh_for A (a # P) \<longleftrightarrow> a \<notin> set A \<and> fresh_for (A @ [a]) P"
  by (auto simp: fresh_for_def)

lemma fresh_for_append: "fresh_for A (P @ Q) \<longleftrightarrow> fresh_for A P \<and> fresh_for (A @ P) Q"
  by (auto simp: fresh_for_def)

lemma assign_plan_Suc:
  "assign_plan h (Suc n) = helper_addr h # assign_plan (h\<lparr>ah_address := ah_address h + 1\<rparr>) n"
  by (simp add: assign_plan_def map_upt_Suc del: upt_Suc) (simp add: ac_simps)

lemma assign_result_Cons:
  "assign_result h (d # ds) w =
     (let a = helper_addr h;
          (as, h'', w'') = assign_result (h\<lparr>ah_address := ah_address h + 1\<rparr>) ds
                             (w\<lparr>w_alloc := w_alloc w @ [a], w_ifaces := w_ifaces w @ [(d, a, ah_mask h)]\<rparr>)
      in (a # as, h'', w''))"
  by (simp add: assign_result_def assign_plan_Suc Let_def ac_simps)

lemma Assign_step:
  assumes "dev_node (w_devs w ! d) \<in> set (w_stack w)" and "ah_address h \<le> ah_max h"
  shows "Assign h (d # ds) w =
           (if helper_addr h \<in> set (w_alloc w) then Inl (AddressCollision (helper_addr h), w)
            else rbind (Assign (h\<lparr>ah_address := ah_address h + 1\<rparr>) ds
                          (w\<lparr>w_alloc := w_alloc w @ [helper_addr h], w_ifaces := w_ifaces w @ [(d, helper_addr h, ah_mask h)]\<rparr>))
                   (\<lambda>(as, h'', w''). Inr (helper_addr h # as, h'', w'')))"
  using assms by (simp add: Let_def NewAddress_def add_allocated_def)

lemma room_Suc:
  assumes "\<forall>k < Suc n. ah_address h + of_nat k \<le> ah_max h"
  shows "ah_address h \<le> ah_max h" and "\<forall>k < n. ah_address (h\<lparr>ah_address := ah_address h + 1\<rparr>) + of_nat k \<le> ah_max (h\<lparr>ah_address := ah_address h + 1\<rparr>)"
proof -
  show "ah_address h \<le> ah_max h" using assms [rule_format, of 0] by simp
  show "\<forall>k < n. ah_address (h\<lparr>ah_address := ah_address h + 1\<rparr>) + of_nat k \<le> ah_max (h\<lparr>ah_address := ah_address h + 1\<rparr>)"
    using assms by (auto simp: ac_simps)
qed

lemma Assign_fresh:
  assumes "\<forall>d \<in> set ds. dev_node (w_devs w ! d) \<in> set (w_stack w)"
    and "\<forall>k < length ds. ah_address h + of_nat k \<le> ah_max h"
    and "fresh_for (w_alloc w) (assign_plan h (length ds))"
  shows "Assign h ds w = Inr (assign_result h ds w)"
  using assms
proof (induction ds arbitrary: h w)
  case Nil
  then show ?case by (simp add: assign_result_def assign_plan_def)
next
  case (Cons d ds)
  note room = room_Suc [OF Cons.prems(2) [simplified]]
  from Cons.prems(3) have a: "helper_addr h \<notin> set (w_alloc w)"
    and f: "fresh_for (w_alloc w @ [helper_addr h]) (assign_plan (h\<lparr>ah_address := ah_address h + 1\<rparr>) (length ds))"
    by (simp_all add: assign_plan_Suc)
  have "Assign (h\<lparr>ah_address := ah_address h + 1\<rparr>) ds
          (w\<lparr>w_alloc := w_alloc w @ [helper_addr h], w_ifaces := w_ifaces w @ [(d, helper_addr h, ah_mask h)]\<rparr>)
        = Inr (assign_result (h\<lparr>ah_address := ah_address h + 1\<rparr>) ds
          (w\<lparr>w_alloc := w_alloc w @ [helper_addr h], w_ifaces := w_ifaces w @ [(d, helper_addr h, ah_mask h)]\<rparr>))"
    using Cons.prems(1) room(2) f by (intro Cons.IH) simp_all
  moreover have "dev_node (w_devs w ! d) \<in> set (w_stack w)" using Cons.prems(1) by simp
  ultimately show ?case
    using room(1) a by (simp only: Assign_step) (simp add: assign_result_Cons Let_def split: prod.split)
qed

lemma Assign_clash:
  assumes "\<forall>d \<in> set ds. dev_node (w_devs w ! d) \<in> set (w_stack w)"
    and "\<forall>k < length ds. ah_address h + of_nat k \<le> ah_max h"
    and "\<not> fresh_for (w_alloc w) (assign_plan h (length ds))"
  shows "\<exists>e. Assign h ds w = Inl e"
  using assms
proof (induction ds arbitrary: h w)
  case Nil
  then show ?case by (simp add: assign_plan_def)
next
  case (Cons d ds)
  note room = room_Suc [OF Cons.prems(2) [simplified]]
  show ?case
  proof (cases "helper_addr h \<in> set (w_alloc w)")
    case True
    moreover have "dev_node (w_devs w ! d) \<in> set (w_stack w)" using Cons.prems(1) by simp
    ultimately show ?thesis using room(1) by (simp only: Assign_step) simp
  next
    case False
    with Cons.prems(3) have "\<not> fresh_for (w_alloc w @ [helper_addr h]) (assign_plan (h\<lparr>ah_address := ah_address h + 1\<rparr>) (length ds))"
      by (simp add: assign_plan_Suc)
    then have "\<exists>e. Assign (h\<lparr>ah_address := ah_address h + 1\<rparr>) ds
          (w\<lparr>w_alloc := w_alloc w @ [helper_addr h], w_ifaces := w_ifaces w @ [(d, helper_addr h, ah_mask h)]\<rparr>) = Inl e"
      using Cons.prems(1) room(2) by (intro Cons.IH) simp_all
    then obtain e where "Assign (h\<lparr>ah_address := ah_address h + 1\<rparr>) ds
          (w\<lparr>w_alloc := w_alloc w @ [helper_addr h], w_ifaces := w_ifaces w @ [(d, helper_addr h, ah_mask h)]\<rparr>) = Inl e" ..
    moreover have "dev_node (w_devs w ! d) \<in> set (w_stack w)" using Cons.prems(1) by simp
    ultimately show ?thesis using room(1) False by (simp only: Assign_step) simp
  qed
qed

section \<open>Host addresses of a /24 network\<close>

text \<open>
  With 8 host bits, \<open>helper_addr\<close> puts the network number above a host number below
  256: the address is \<open>256 * network + host\<close>, the network taken modulo \<open>2^24\<close>.
\<close>

lemma push_bit_or_low:
  fixes x a :: "32 word"
  assumes "unat a < 256"
  shows "push_bit 8 x OR a = push_bit 8 x + a"
proof -
  have "unat (take_bit 8 a) = unat a"
    using assms by (simp add: unsigned_take_bit_eq take_bit_nat_eq_self_iff)
  then have a: "take_bit 8 a = a"
    by (simp add: word_unat_eq_iff)
  have "\<not> bit (push_bit 8 x) n \<or> \<not> bit a n" for n
    by (subst a [symmetric]) (auto simp: bit_push_bit_iff bit_take_bit_iff)
  then show ?thesis by (simp add: disjunctive_add)
qed

lemma unat_push_bit_or_low:
  fixes x a :: "32 word"
  assumes "unat a < 256"
  shows "unat (push_bit 8 x OR a) = 256 * (unat x mod 2^24) + unat a"
proof -
  have e: "unat x * 256 mod 2^32 = (unat x mod 2^24) * 256"
    using mod_mult_mult2 [of "unat x" 256 "2^24"] by simp
  have b: "(unat x mod 2^24) * 256 + unat a < 2^32"
    using assms pos_mod_bound [of "2^24" "int (unat x)"] by (simp add: nat_mod_distrib)
  have "unat (push_bit 8 x + a) = (unat x * 256 + unat a) mod 2^32"
    by (simp add: push_bit_eq_mult unat_word_ariths mod_add_left_eq)
  also have "\<dots> = ((unat x * 256 mod 2^32) + unat a) mod 2^32"
    by (rule mod_add_left_eq [symmetric])
  also have "\<dots> = 256 * (unat x mod 2^24) + unat a"
    using b by (simp only: e mod_less)
  finally show ?thesis using push_bit_or_low [OF assms] by simp
qed

lemma Assign_Inr_conds:
  assumes "Assign h ds w = Inr r"
  shows "(\<forall>d \<in> set ds. dev_node (w_devs w ! d) \<in> set (w_stack w))
         \<and> (\<forall>k < length ds. ah_address h + of_nat k \<le> ah_max h)
         \<and> fresh_for (w_alloc w) (assign_plan h (length ds)) \<and> r = assign_result h ds w"
  using assms
proof (induction ds arbitrary: h w r)
  case Nil
  then show ?case by (simp add: assign_result_def assign_plan_def)
next
  case (Cons d ds)
  let ?h' = "h\<lparr>ah_address := ah_address h + 1\<rparr>"
  let ?w' = "w\<lparr>w_alloc := w_alloc w @ [helper_addr h], w_ifaces := w_ifaces w @ [(d, helper_addr h, ah_mask h)]\<rparr>"
  have st: "dev_node (w_devs w ! d) \<in> set (w_stack w)"
    using Cons.prems by (auto simp: Let_def split: if_splits)
  have room0: "ah_address h \<le> ah_max h"
    using Cons.prems st by (auto simp: Let_def NewAddress_def split: if_splits)
  from Cons.prems have a: "helper_addr h \<notin> set (w_alloc w)"
    and "rbind (Assign ?h' ds ?w') (\<lambda>(as, h'', w''). Inr (helper_addr h # as, h'', w'')) = Inr r"
    by (simp_all only: Assign_step [OF st room0] split: if_splits) simp_all
  then obtain as h'' w'' where rec: "Assign ?h' ds ?w' = Inr (as, h'', w'')" and r: "r = (helper_addr h # as, h'', w'')"
    by (auto simp: rbind_eq_Inr)
  note IH = Cons.IH [OF rec]
  have "\<forall>d \<in> set (d # ds). dev_node (w_devs w ! d) \<in> set (w_stack w)"
    using IH st by simp
  moreover have "\<forall>k < length (d # ds). ah_address h + of_nat k \<le> ah_max h"
  proof (intro allI impI)
    fix k assume "k < length (d # ds)"
    then show "ah_address h + of_nat k \<le> ah_max h"
      using IH room0 by (cases k) (simp_all add: ac_simps)
  qed
  moreover have "fresh_for (w_alloc w) (assign_plan h (length (d # ds)))"
    using IH a by (simp add: assign_plan_Suc)
  moreover have "assign_result ?h' ds ?w' = (as, h'', w'')"
    using IH by simp
  then have "r = assign_result h (d # ds) w"
    using r by (simp add: assign_result_Cons Let_def)
  ultimately show ?case
    by blast
qed

section \<open>The closed form of \<open>Assign\<close>\<close>

text \<open>
  ns-3's \<open>Ipv4AddressHelper::Assign\<close> is equivalent to its closed form: it
  succeeds exactly when every device's node has IPv4, the host numbers it needs stay
  within the network's maximum (in 32-bit arithmetic, as the helper counts), and the
  addresses it would hand out are distinct and not yet allocated; its result is then the
  planned addresses, the helper advanced past them, and the interfaces and allocations
  appended in device order.
\<close>

lemma Assign_closed_form:
  "Assign h ds w = Inr r \<longleftrightarrow>
     (\<forall>d \<in> set ds. dev_node (w_devs w ! d) \<in> set (w_stack w))
     \<and> (\<forall>k < length ds. ah_address h + of_nat k \<le> ah_max h)
     \<and> fresh_for (w_alloc w) (assign_plan h (length ds)) \<and> r = assign_result h ds w"
  using Assign_Inr_conds Assign_fresh by blast

end
