(* ===== verification/Topology.thy ===== *)
theory Topology
  imports Addressing
begin

text \<open>
  Topology Builders. S1 and S5 use ns-3's \<open>PointToPointDumbbellHelper\<close> (constructor,
  \<open>InstallStack\<close>, \<open>AssignIpv4Addresses\<close>; ns-3 code, modelled from its documented
  construction order) through the composer's helpers \<open>InstallStacks\<close> and
  \<open>AssignIpv4Addresses\<close> (\<open>src/ns3/tcp_compare.cc\<close> lines 110--125). S2 builds an
  asymmetric dumbbell by hand (lines 210--258), S3 a four-node chain (lines 312--347).
  Each builder returns the handles its traffic and instrumentation code uses afterwards.
\<close>

section \<open>The dumbbell helper\<close>

record dumbbell =
  db_routers :: "node_id list"
  db_left :: "node_id list"
  db_right :: "node_id list"
  db_router_devs :: "nat list"
  db_left_router_devs :: "nat list"
  db_left_leaf_devs :: "nat list"
  db_right_router_devs :: "nat list"
  db_right_leaf_devs :: "nat list"
  db_router_ifs :: "ipv4addr list"
  db_left_leaf_ifs :: "ipv4addr list"
  db_right_leaf_ifs :: "ipv4addr list"

text \<open>One access link per leaf, router side first: \<open>Install (router, leaf)\<close>.\<close>

fun install_leaves :: "p2p_helper \<Rightarrow> node_id \<Rightarrow> node_id list \<Rightarrow> world \<Rightarrow> (nat list \<times> nat list) \<times> world" where
  "install_leaves h r [] w = (([], []), w)"
| "install_leaves h r (l # ls) w =
     (let (c, w1) = p2p_install h r l w;
          ((rds, lds), w2) = install_leaves h r ls w1
      in ((c ! 0 # rds, c ! 1 # lds), w2))"

definition dumbbell_create ::
  "nat \<Rightarrow> p2p_helper \<Rightarrow> nat \<Rightarrow> p2p_helper \<Rightarrow> p2p_helper \<Rightarrow> world \<Rightarrow> dumbbell \<times> world" where
  "dumbbell_create nL leftHelper nR rightHelper bottleneckHelper w =
     (let (routers, w1) = create_nodes 2 w;
          (left, w2) = create_nodes nL w1;
          (right, w3) = create_nodes nR w2;
          (rdevs, w4) = p2p_install bottleneckHelper (routers ! 0) (routers ! 1) w3;
          ((lrd, lld), w5) = install_leaves leftHelper (routers ! 0) left w4;
          ((rrd, rld), w6) = install_leaves rightHelper (routers ! 1) right w5
      in (\<lparr>db_routers = routers, db_left = left, db_right = right, db_router_devs = rdevs,
           db_left_router_devs = lrd, db_left_leaf_devs = lld,
           db_right_router_devs = rrd, db_right_leaf_devs = rld,
           db_router_ifs = [], db_left_leaf_ifs = [], db_right_leaf_ifs = []\<rparr>, w6))"

definition dumbbell_install_stack :: "dumbbell \<Rightarrow> world \<Rightarrow> world outcome" where
  "dumbbell_install_stack db w =
     rbind (install_stack (db_routers db) w) (\<lambda>w1.
     rbind (install_stack (db_left db) w1) (install_stack (db_right db)))"

text \<open>
  The leaf networks: for leaf \<open>i\<close>, the leaf device then the router device get the next
  two addresses of the helper's current network, then the helper moves to the next
  network. The result lists the leaf addresses.
\<close>

fun assign_leaves :: "addr_helper \<Rightarrow> nat list \<Rightarrow> nat list \<Rightarrow> world \<Rightarrow> (ipv4addr list \<times> world) outcome" where
  "assign_leaves h (ld # lds) (rd # rds) w =
     rbind (Assign h [ld, rd] w) (\<lambda>(as, h', w').
     rbind (assign_leaves (NewNetwork h') lds rds w') (\<lambda>(ls, w''). Inr (as ! 0 # ls, w'')))"
| "assign_leaves h _ _ w = Inr ([], w)"

definition dumbbell_assign :: "dumbbell \<Rightarrow> addr_helper \<Rightarrow> addr_helper \<Rightarrow> addr_helper \<Rightarrow> world \<Rightarrow> (dumbbell \<times> world) outcome" where
  "dumbbell_assign db leftIp rightIp routerIp w =
     rbind (Assign routerIp (db_router_devs db) w) (\<lambda>(ras, _, w1).
     rbind (assign_leaves leftIp (db_left_leaf_devs db) (db_left_router_devs db) w1) (\<lambda>(las, w2).
     rbind (assign_leaves rightIp (db_right_leaf_devs db) (db_right_router_devs db) w2) (\<lambda>(rls, w3).
     Inr (db\<lparr>db_router_ifs := ras, db_left_leaf_ifs := las, db_right_leaf_ifs := rls\<rparr>, w3))))"

section \<open>The composer's dumbbell helpers\<close>

definition AssignIpv4Addresses :: "dumbbell \<Rightarrow> world \<Rightarrow> (dumbbell \<times> world) outcome" where
  "AssignIpv4Addresses db w =
     (let leftIp = addr_helper_of (ip4 10 1 1 0) mask24;
          rightIp = addr_helper_of (ip4 10 2 1 0) mask24;
          routerIp = addr_helper_of (ip4 10 3 1 0) mask24
      in dumbbell_assign db leftIp rightIp routerIp w)"

definition InstallStacks :: "dumbbell \<Rightarrow> world \<Rightarrow> world outcome" where
  "InstallStacks db w = dumbbell_install_stack db w"

text \<open>\<open>Ipv4GlobalRoutingHelper::PopulateRoutingTables\<close>: shortest paths over all links.\<close>

definition populate_routing_tables :: "world \<Rightarrow> world" where
  "populate_routing_tables w = w\<lparr>w_global_routes := True\<rparr>"

section \<open>S1 and S5: symmetric dumbbells\<close>

text \<open>
  Lines 169--180 of \<open>BuildScenarioS1\<close> and 403--414 of \<open>BuildScenarioS5\<close>: access and
  bottleneck helpers, the dumbbell with \<open>n\<close> leaves per side, stacks and addresses.
\<close>

definition bottleneck_helper :: "string \<Rightarrow> string \<Rightarrow> string \<Rightarrow> p2p_helper" where
  "bottleneck_helper rate delay queue = (p2p rate delay)\<lparr>p2p_queue := Some queue\<rparr>"

definition S1_topology :: "string \<Rightarrow> world \<Rightarrow> (dumbbell \<times> world) outcome" where
  "S1_topology queue w =
     (let access = p2p ''100Mbps'' ''1ms'';
          bottleneck = bottleneck_helper ''20Mbps'' ''15ms'' queue;
          (db, w1) = dumbbell_create 2 access 2 access bottleneck w
      in rbind (InstallStacks db w1) (AssignIpv4Addresses db))"

definition S5_topology :: "string \<Rightarrow> world \<Rightarrow> (dumbbell \<times> world) outcome" where
  "S5_topology queue w =
     (let access = p2p ''100Mbps'' ''2ms'';
          bottleneck = bottleneck_helper ''100Mbps'' ''20ms'' queue;
          nFlows = 8;
          (db, w1) = dumbbell_create nFlows access nFlows access bottleneck w
      in rbind (InstallStacks db w1) (AssignIpv4Addresses db))"

section \<open>S2: asymmetric dumbbell built by hand\<close>

record s2_topo =
  s2_left :: "node_id list"
  s2_right :: "node_id list"
  s2_routers :: "node_id list"
  s2_left1_if :: "ipv4addr list"
  s2_right0_if :: "ipv4addr list"
  s2_right1_if :: "ipv4addr list"

definition S2_topology :: "string \<Rightarrow> world \<Rightarrow> (s2_topo \<times> world) outcome" where
  "S2_topology queue w =
     (let (leftHosts, w1) = create_nodes 2 w;
          (rightHosts, w2) = create_nodes 2 w1;
          (routers, w3) = create_nodes 2 w2;
          fastAccess = p2p ''100Mbps'' ''1ms'';
          slowAccess = p2p ''100Mbps'' ''60ms'';
          rightAccess = p2p ''100Mbps'' ''1ms'';
          bottleneck = bottleneck_helper ''20Mbps'' ''15ms'' queue;
          (left0Devices, w4) = p2p_install fastAccess (leftHosts ! 0) (routers ! 0) w3;
          (left1Devices, w5) = p2p_install slowAccess (leftHosts ! 1) (routers ! 0) w4;
          (right0Devices, w6) = p2p_install rightAccess (routers ! 1) (rightHosts ! 0) w5;
          (right1Devices, w7) = p2p_install rightAccess (routers ! 1) (rightHosts ! 1) w6;
          (backboneDevices, w8) = p2p_install bottleneck (routers ! 0) (routers ! 1) w7;
          ipv4 = addr_helper_of (ip4 10 1 1 0) mask24
      in rbind (install_stack leftHosts w8) (\<lambda>w9.
         rbind (install_stack rightHosts w9) (\<lambda>w10.
         rbind (install_stack routers w10) (\<lambda>w11.
         rbind (Assign ipv4 left0Devices w11) (\<lambda>(_, h1, w12).
         rbind (Assign (NewNetwork h1) left1Devices w12) (\<lambda>(left1If, h2, w13).
         rbind (Assign (NewNetwork h2) right0Devices w13) (\<lambda>(right0If, h3, w14).
         rbind (Assign (NewNetwork h3) right1Devices w14) (\<lambda>(right1If, h4, w15).
         rbind (Assign (NewNetwork h4) backboneDevices w15) (\<lambda>(_, _, w16).
         Inr (\<lparr>s2_left = leftHosts, s2_right = rightHosts, s2_routers = routers,
               s2_left1_if = left1If, s2_right0_if = right0If, s2_right1_if = right1If\<rparr>,
              populate_routing_tables w16))))))))))"

section \<open>S3: a four-node chain with an optional lossy inner link\<close>

record s3_topo =
  s3_nodes :: "node_id list"
  s3_right_if :: "ipv4addr list"

text \<open>\<open>d12.Get (1)->SetAttribute ("ReceiveErrorModel", ...)\<close>: packet errors at rate \<open>r\<close>.\<close>

definition set_rx_error :: "nat \<Rightarrow> real \<Rightarrow> world \<Rightarrow> world" where
  "set_rx_error d r w = w\<lparr>w_devs := (w_devs w)[d := (w_devs w ! d)\<lparr>dev_rx_error := Some r\<rparr>]\<rparr>"

definition S3_topology :: "string \<Rightarrow> real \<Rightarrow> world \<Rightarrow> (s3_topo \<times> world) outcome" where
  "S3_topology queue lossRate w =
     (let (nodes, w1) = create_nodes 4 w;
          access = p2p ''100Mbps'' ''5ms'';
          bottleneck = bottleneck_helper ''40Mbps'' ''10ms'' queue;
          (d01, w2) = p2p_install access (nodes ! 0) (nodes ! 1) w1;
          (d12, w3) = p2p_install bottleneck (nodes ! 1) (nodes ! 2) w2;
          (d23, w4) = p2p_install access (nodes ! 2) (nodes ! 3) w3;
          w5 = (if 0 < lossRate then set_rx_error (d12 ! 1) lossRate w4 else w4)
      in rbind (install_stack nodes w5) (\<lambda>w6.
         rbind (Assign (addr_helper_of (ip4 10 10 1 0) mask24) d01 w6) (\<lambda>(_, _, w7).
         rbind (Assign (addr_helper_of (ip4 10 10 2 0) mask24) d12 w7) (\<lambda>(_, _, w8).
         rbind (Assign (addr_helper_of (ip4 10 10 3 0) mask24) d23 w8) (\<lambda>(rightIf, _, w9).
         Inr (\<lparr>s3_nodes = nodes, s3_right_if = rightIf\<rparr>, populate_routing_tables w9))))))"

section \<open>Shape of a topology\<close>

text \<open>
  The spec's topology invariant (section 3): every host has exactly one path to every
  other host, i.e. the link graph is a tree (connected, one link fewer than nodes), and
  each link segment has its own address block: both ends of a link are in one network,
  and no two links share a network.
\<close>

fun reach :: "nat \<Rightarrow> (node_id \<times> node_id) list \<Rightarrow> node_id list \<Rightarrow> node_id list" where
  "reach 0 es s = s"
| "reach (Suc k) es s =
     reach k es (remdups (s @ map snd (filter (\<lambda>e. fst e \<in> set s) es) @ map fst (filter (\<lambda>e. snd e \<in> set s) es)))"

definition connected :: "world \<Rightarrow> bool" where
  "connected w = list_all (\<lambda>n. n \<in> set (reach (w_nodes w) (links w) [0])) [0..<w_nodes w]"

definition is_tree :: "world \<Rightarrow> bool" where
  "is_tree w \<longleftrightarrow> connected w \<and> Suc (length (links w)) = w_nodes w"

definition dev_nets :: "world \<Rightarrow> nat \<Rightarrow> ipv4addr list" where
  "dev_nets w d = map (\<lambda>(_, a, m). a AND m) (filter (\<lambda>i. fst i = d) (w_ifaces w))"

definition chan_net :: "world \<Rightarrow> channel \<Rightarrow> ipv4addr option" where
  "chan_net w c =
     (case (dev_nets w (fst (ch_ends c)), dev_nets w (snd (ch_ends c))) of
        ([a], [b]) \<Rightarrow> if a = b then Some a else None
      | _ \<Rightarrow> None)"

definition segments_ok :: "world \<Rightarrow> bool" where
  "segments_ok w \<longleftrightarrow> list_all (\<lambda>c. chan_net w c \<noteq> None) (w_chans w) \<and> distinct (map (chan_net w) (w_chans w))"

text \<open>Every node of the topology has exactly one IPv4 stack.\<close>

definition stacks_once :: "world \<Rightarrow> bool" where
  "stacks_once w \<longleftrightarrow> sort (w_stack w) = [0..<w_nodes w]"

text \<open>
  Reachability at the IP layer: a node can send to address \<open>a\<close> when \<open>a\<close> is in the
  network of one of its own interfaces, when \<open>PopulateRoutingTables\<close> has computed routes
  over a connected link graph and \<open>a\<close> is assigned to an interface, or when one of the
  node's static routes covers \<open>a\<close>.
\<close>

definition on_link :: "world \<Rightarrow> node_id \<Rightarrow> ipv4addr \<Rightarrow> bool" where
  "on_link w n a = list_ex (\<lambda>(d, a', m). dev_node (w_devs w ! d) = n \<and> a AND m = a' AND m) (w_ifaces w)"

fun route_covers :: "route \<Rightarrow> ipv4addr \<Rightarrow> bool" where
  "route_covers (NetworkRoute net m _) a = (a AND m = net)"
| "route_covers (DefaultRoute _ _) a = True"

definition routable :: "world \<Rightarrow> node_id \<Rightarrow> ipv4addr \<Rightarrow> bool" where
  "routable w n a \<longleftrightarrow>
     on_link w n a
   \<or> (w_global_routes w \<and> connected w \<and> list_ex (\<lambda>(_, a', _). a' = a) (w_ifaces w))
   \<or> list_ex (\<lambda>(n', r). n' = n \<and> route_covers r a) (w_routes w)"

text \<open>
  The spec's routing duty: every node with a stack can send to every assigned address.
  Together with the shape invariants this is what the spec asks of every builder.
\<close>

definition all_routable :: "world \<Rightarrow> bool" where
  "all_routable w = list_all (\<lambda>n. list_all (\<lambda>(_, a, _). routable w n a) (w_ifaces w)) (w_stack w)"

definition topology_ok :: "world \<Rightarrow> bool" where
  "topology_ok w \<longleftrightarrow> is_tree w \<and> segments_ok w \<and> stacks_once w \<and> all_routable w"

section \<open>What the builders produce\<close>

text \<open>
  The state each builder leaves when it starts from a state without topology, written
  out from the construction order of the code: node ids, devices with their rate and
  queue, channels with their delay, and interface addresses in assignment order.
\<close>

definition S1_state :: "string \<Rightarrow> world \<Rightarrow> world" where
  "S1_state q w = w\<lparr>w_nodes := 6, w_stack := [0, 1, 2, 3, 4, 5],
     w_devs := [p2p_dev 0 ''20Mbps'' (Some q), p2p_dev 1 ''20Mbps'' (Some q),
                p2p_dev 0 ''100Mbps'' None, p2p_dev 2 ''100Mbps'' None, p2p_dev 0 ''100Mbps'' None,
                p2p_dev 3 ''100Mbps'' None, p2p_dev 1 ''100Mbps'' None, p2p_dev 4 ''100Mbps'' None,
                p2p_dev 1 ''100Mbps'' None, p2p_dev 5 ''100Mbps'' None],
     w_chans := [\<lparr>ch_delay = ''15ms'', ch_ends = (0, 1)\<rparr>, \<lparr>ch_delay = ''1ms'', ch_ends = (2, 3)\<rparr>,
                 \<lparr>ch_delay = ''1ms'', ch_ends = (4, 5)\<rparr>, \<lparr>ch_delay = ''1ms'', ch_ends = (6, 7)\<rparr>,
                 \<lparr>ch_delay = ''1ms'', ch_ends = (8, 9)\<rparr>],
     w_ifaces := [(0, ip4 10 3 1 1, mask24), (1, ip4 10 3 1 2, mask24), (3, ip4 10 1 1 1, mask24),
                  (2, ip4 10 1 1 2, mask24), (5, ip4 10 1 2 1, mask24), (4, ip4 10 1 2 2, mask24),
                  (7, ip4 10 2 1 1, mask24), (6, ip4 10 2 1 2, mask24), (9, ip4 10 2 2 1, mask24),
                  (8, ip4 10 2 2 2, mask24)],
     w_alloc := [ip4 10 3 1 1, ip4 10 3 1 2, ip4 10 1 1 1, ip4 10 1 1 2, ip4 10 1 2 1, ip4 10 1 2 2,
                 ip4 10 2 1 1, ip4 10 2 1 2, ip4 10 2 2 1, ip4 10 2 2 2]\<rparr>"

definition S1_handles :: dumbbell where
  "S1_handles = \<lparr>db_routers = [0, 1], db_left = [2, 3], db_right = [4, 5], db_router_devs = [0, 1],
     db_left_router_devs = [2, 4], db_left_leaf_devs = [3, 5],
     db_right_router_devs = [6, 8], db_right_leaf_devs = [7, 9],
     db_router_ifs = [ip4 10 3 1 1, ip4 10 3 1 2], db_left_leaf_ifs = [ip4 10 1 1 1, ip4 10 1 2 1],
     db_right_leaf_ifs = [ip4 10 2 1 1, ip4 10 2 2 1]\<rparr>"

definition S2_state :: "string \<Rightarrow> world \<Rightarrow> world" where
  "S2_state q w = w\<lparr>w_nodes := 6, w_stack := [0, 1, 2, 3, 4, 5],
     w_devs := [p2p_dev 0 ''100Mbps'' None, p2p_dev 4 ''100Mbps'' None, p2p_dev 1 ''100Mbps'' None,
                p2p_dev 4 ''100Mbps'' None, p2p_dev 5 ''100Mbps'' None, p2p_dev 2 ''100Mbps'' None,
                p2p_dev 5 ''100Mbps'' None, p2p_dev 3 ''100Mbps'' None,
                p2p_dev 4 ''20Mbps'' (Some q), p2p_dev 5 ''20Mbps'' (Some q)],
     w_chans := [\<lparr>ch_delay = ''1ms'', ch_ends = (0, 1)\<rparr>, \<lparr>ch_delay = ''60ms'', ch_ends = (2, 3)\<rparr>,
                 \<lparr>ch_delay = ''1ms'', ch_ends = (4, 5)\<rparr>, \<lparr>ch_delay = ''1ms'', ch_ends = (6, 7)\<rparr>,
                 \<lparr>ch_delay = ''15ms'', ch_ends = (8, 9)\<rparr>],
     w_ifaces := [(0, ip4 10 1 1 1, mask24), (1, ip4 10 1 1 2, mask24), (2, ip4 10 1 2 1, mask24),
                  (3, ip4 10 1 2 2, mask24), (4, ip4 10 1 3 1, mask24), (5, ip4 10 1 3 2, mask24),
                  (6, ip4 10 1 4 1, mask24), (7, ip4 10 1 4 2, mask24), (8, ip4 10 1 5 1, mask24),
                  (9, ip4 10 1 5 2, mask24)],
     w_alloc := [ip4 10 1 1 1, ip4 10 1 1 2, ip4 10 1 2 1, ip4 10 1 2 2, ip4 10 1 3 1, ip4 10 1 3 2,
                 ip4 10 1 4 1, ip4 10 1 4 2, ip4 10 1 5 1, ip4 10 1 5 2],
     w_global_routes := True\<rparr>"

definition S2_handles :: s2_topo where
  "S2_handles = \<lparr>s2_left = [0, 1], s2_right = [2, 3], s2_routers = [4, 5],
     s2_left1_if = [ip4 10 1 2 1, ip4 10 1 2 2], s2_right0_if = [ip4 10 1 3 1, ip4 10 1 3 2],
     s2_right1_if = [ip4 10 1 4 1, ip4 10 1 4 2]\<rparr>"

definition S3_state :: "string \<Rightarrow> real \<Rightarrow> world \<Rightarrow> world" where
  "S3_state q r w = w\<lparr>w_nodes := 4, w_stack := [0, 1, 2, 3],
     w_devs := [p2p_dev 0 ''100Mbps'' None, p2p_dev 1 ''100Mbps'' None, p2p_dev 1 ''40Mbps'' (Some q),
                (p2p_dev 2 ''40Mbps'' (Some q))\<lparr>dev_rx_error := if 0 < r then Some r else None\<rparr>,
                p2p_dev 2 ''100Mbps'' None, p2p_dev 3 ''100Mbps'' None],
     w_chans := [\<lparr>ch_delay = ''5ms'', ch_ends = (0, 1)\<rparr>, \<lparr>ch_delay = ''10ms'', ch_ends = (2, 3)\<rparr>,
                 \<lparr>ch_delay = ''5ms'', ch_ends = (4, 5)\<rparr>],
     w_ifaces := [(0, ip4 10 10 1 1, mask24), (1, ip4 10 10 1 2, mask24), (2, ip4 10 10 2 1, mask24),
                  (3, ip4 10 10 2 2, mask24), (4, ip4 10 10 3 1, mask24), (5, ip4 10 10 3 2, mask24)],
     w_alloc := [ip4 10 10 1 1, ip4 10 10 1 2, ip4 10 10 2 1, ip4 10 10 2 2, ip4 10 10 3 1, ip4 10 10 3 2],
     w_global_routes := True\<rparr>"

definition S3_handles :: s3_topo where
  "S3_handles = \<lparr>s3_nodes = [0, 1, 2, 3], s3_right_if = [ip4 10 10 3 1, ip4 10 10 3 2]\<rparr>"

section \<open>Properties of the builders\<close>

lemmas builder_simps = S1_topology_def S2_topology_def S3_topology_def dumbbell_create_def
  dumbbell_install_stack_def InstallStacks_def AssignIpv4Addresses_def dumbbell_assign_def
  create_nodes_def p2p_install_def install_stack_node_def NewAddress_def add_allocated_def
  helper_addr_def addr_helper_of_def SetBase_def NewNetwork_def populate_routing_tables_def
  bottleneck_helper_def p2p_def p2p_default_def set_rx_error_def Let_def ip4_def upt_rec

lemmas tree_simps = is_tree_def connected_def links_def chan_nodes_def stacks_once_def eval_nat_numeral

lemmas segment_simps = segments_ok_def chan_net_def dev_nets_def ip4_def mask24_def

lemma S1_result:
  assumes "no_topology w"
  shows "S1_topology q w = Inr (S1_handles, S1_state q w)"
proof -
  have "S1_topology q (fresh_world w) = Inr (S1_handles, S1_state q (fresh_world w))"
    by (simp add: builder_simps p2p_dev_def fresh_world_def S1_handles_def S1_state_def)
  with assms show ?thesis by simp
qed

lemma S2_result:
  assumes "no_topology w"
  shows "S2_topology q w = Inr (S2_handles, S2_state q w)"
proof -
  have "S2_topology q (fresh_world w) = Inr (S2_handles, S2_state q (fresh_world w))"
    by (simp add: builder_simps p2p_dev_def fresh_world_def S2_handles_def S2_state_def)
  with assms show ?thesis by simp
qed

lemma S3_result:
  assumes "no_topology w"
  shows "S3_topology q r w = Inr (S3_handles, S3_state q r w)"
proof -
  have "S3_topology q r (fresh_world w) = Inr (S3_handles, S3_state q r (fresh_world w))"
    by (cases "0 < r") (simp_all add: builder_simps p2p_dev_def fresh_world_def S3_handles_def S3_state_def)
  with assms show ?thesis by simp
qed

lemma all_routable_global:
  assumes "w_global_routes w" and "connected w"
  shows "all_routable w"
  using assms by (auto simp: all_routable_def routable_def list_all_iff list_ex_iff)

lemma S2_state_ok: "topology_ok (S2_state q w)"
proof -
  have "is_tree (S2_state q w)" and "stacks_once (S2_state q w)"
    by (simp_all add: S2_state_def tree_simps p2p_dev_def)
  moreover have "segments_ok (S2_state q w)"
    by (simp add: S2_state_def segment_simps)
  moreover have "all_routable (S2_state q w)"
    using \<open>is_tree (S2_state q w)\<close> by (intro all_routable_global) (simp_all add: S2_state_def is_tree_def)
  ultimately show ?thesis by (simp add: topology_ok_def)
qed

lemma S3_state_ok: "topology_ok (S3_state q r w)"
proof -
  have "is_tree (S3_state q r w)" and "stacks_once (S3_state q r w)"
    by (simp_all add: S3_state_def tree_simps p2p_dev_def)
  moreover have "segments_ok (S3_state q r w)"
    by (simp add: S3_state_def segment_simps)
  moreover have "all_routable (S3_state q r w)"
    using \<open>is_tree (S3_state q r w)\<close> by (intro all_routable_global) (simp_all add: S3_state_def is_tree_def)
  ultimately show ?thesis by (simp add: topology_ok_def)
qed

lemma S1_state_shape: "is_tree (S1_state q w) \<and> stacks_once (S1_state q w)"
  by (simp add: S1_state_def tree_simps p2p_dev_def)

lemma S1_state_segments: "segments_ok (S1_state q w)"
  by (simp add: S1_state_def segment_simps)

lemma S1_state_unroutable:
  assumes "\<not> w_global_routes w" and "w_routes w = []"
  shows "\<not> routable (S1_state q w) 2 (ip4 10 2 1 1)"
  using assms by (simp add: S1_state_def routable_def on_link_def p2p_dev_def ip4_def mask24_def)

text \<open>
  C3. S2, the asymmetric dumbbell: from a state without topology the builder succeeds for
  every queue size; it builds six nodes whose links form a tree (hosts 0 and 1 to router
  4, router 5 to hosts 2 and 3, the bottleneck between the routers), the second left host
  behind the 60 ms access link; every link has its own network, every node one stack,
  and every node a route to every interface address.
\<close>

lemma S2_topology_ok:
  assumes "no_topology w"
  shows "\<exists>t w'. S2_topology q w = Inr (t, w') \<and> w_nodes w' = 6
           \<and> links w' = [(0, 4), (1, 4), (5, 2), (5, 3), (4, 5)]
           \<and> map ch_delay (w_chans w') = [''1ms'', ''60ms'', ''1ms'', ''1ms'', ''15ms'']
           \<and> topology_ok w'"
proof -
  have "links (S2_state q w) = [(0, 4), (1, 4), (5, 2), (5, 3), (4, 5)]"
    by (simp add: S2_state_def links_def chan_nodes_def p2p_dev_def)
  with S2_result [OF assms] S2_state_ok show ?thesis by (simp add: S2_state_def)
qed

lemma S2_topology_ok_witness:
  "\<exists>t w'. S2_topology ''100p'' (world0 {} {}) = Inr (t, w') \<and> w_nodes w' = 6
     \<and> links w' = [(0, 4), (1, 4), (5, 2), (5, 3), (4, 5)]
     \<and> map ch_delay (w_chans w') = [''1ms'', ''60ms'', ''1ms'', ''1ms'', ''15ms'']
     \<and> topology_ok w'"
  using S2_topology_ok [OF no_topology_world0] by simp

text \<open>
  C5. S3, the chain: from a state without topology the builder succeeds; its four nodes
  are linked 0-1-2-3, the topology invariant holds, and a receive error model with the
  configured rate sits on the far device of the inner link exactly when the loss rate is
  positive.
\<close>

lemma S3_topology_ok:
  assumes "no_topology w"
  shows "\<exists>t w'. S3_topology q r w = Inr (t, w') \<and> links w' = [(0, 1), (1, 2), (2, 3)]
           \<and> topology_ok w'
           \<and> map dev_rx_error (w_devs w') = [None, None, None, if 0 < r then Some r else None, None, None]"
proof -
  have "links (S3_state q r w) = [(0, 1), (1, 2), (2, 3)]"
    by (simp add: S3_state_def links_def chan_nodes_def p2p_dev_def)
  with S3_result [OF assms] S3_state_ok show ?thesis by (simp add: S3_state_def p2p_dev_def)
qed

lemma S3_topology_ok_witness:
  "\<exists>t w'. S3_topology ''100p'' 0.01 (world0 {} {}) = Inr (t, w') \<and> links w' = [(0, 1), (1, 2), (2, 3)]
     \<and> topology_ok w'
     \<and> map dev_rx_error (w_devs w') = [None, None, None, if 0 < (0.01::real) then Some 0.01 else None, None, None]"
  using S3_topology_ok [OF no_topology_world0, where q = "''100p''" and r = "0.01"] by simp

text \<open>
  C4. S1 never computes routes: \<open>BuildScenarioS1\<close> installs stacks and addresses on the
  dumbbell but, unlike S2 and S3, does not call \<open>PopulateRoutingTables\<close>, and the
  dumbbell helper installs no routes of its own. The shape invariants hold, yet the first
  left leaf has no route to the address of the first right leaf, the sink of its flow.
\<close>

lemma S1_topology_unroutable:
  assumes "no_topology w"
  shows "\<exists>db w'. S1_topology q w = Inr (db, w') \<and> is_tree w' \<and> segments_ok w' \<and> stacks_once w'
           \<and> \<not> routable w' (db_left db ! 0) (db_right_leaf_ifs db ! 0)"
proof -
  have "\<not> w_global_routes w" and "w_routes w = []"
    using assms by (simp_all add: no_topology_def)
  then have "\<not> routable (S1_state q w) 2 (ip4 10 2 1 1)"
    by (rule S1_state_unroutable)
  with S1_result [OF assms] S1_state_shape S1_state_segments show ?thesis
    by (simp add: S1_handles_def)
qed

lemma S1_topology_unroutable_witness:
  "\<exists>db w'. S1_topology ''150p'' (world0 {} {}) = Inr (db, w') \<and> is_tree w' \<and> segments_ok w'
     \<and> stacks_once w' \<and> \<not> routable w' (db_left db ! 0) (db_right_leaf_ifs db ! 0)"
  using S1_topology_unroutable [OF no_topology_world0] by simp

end
