(* ===== verification/Traffic.thy ===== *)
theory Traffic
  imports Topology
begin

text \<open>
  The Traffic Installer: ns-3's application helpers (\<open>PacketSinkHelper\<close>,
  \<open>BulkSendHelper\<close>, \<open>OnOffHelper\<close>, \<open>ApplicationContainer::Start/Stop\<close>), the
  composer's \<open>InstallBulkTransfers\<close> and \<open>InstallShortWebTraffic\<close>
  (\<open>src/ns3/tcp_compare.cc\<close> lines 127--164) and the traffic parts of S2 and S3
  (lines 260--284, 349--375). An application is installed with start and stop time 0
  (ns-3's defaults) and then scheduled by \<open>Start\<close> and \<open>Stop\<close>. Ports are 16-bit:
  \<open>port + i\<close> of \<open>InstallBulkTransfers\<close> is computed in 32 bits and narrowed by
  \<open>InetSocketAddress\<close>, which is addition modulo \<open>2^16\<close>.
\<close>

section \<open>Application helpers\<close>

definition install_app :: "app_kind \<Rightarrow> node_id \<Rightarrow> world \<Rightarrow> nat list \<times> world" where
  "install_app k n w =
     ([length (w_apps w)], w\<lparr>w_apps := w_apps w @ [\<lparr>app_node = n, app_kind = k, app_start = 0, app_stop = 0\<rparr>]\<rparr>)"

definition apps_start :: "nat list \<Rightarrow> seconds \<Rightarrow> world \<Rightarrow> world" where
  "apps_start c t w = w\<lparr>w_apps := fold (\<lambda>i as. as[i := (as ! i)\<lparr>app_start := t\<rparr>]) c (w_apps w)\<rparr>"

definition apps_stop :: "nat list \<Rightarrow> seconds \<Rightarrow> world \<Rightarrow> world" where
  "apps_stop c t w = w\<lparr>w_apps := fold (\<lambda>i as. as[i := (as ! i)\<lparr>app_stop := t\<rparr>]) c (w_apps w)\<rparr>"

text \<open>Install, then \<open>Start\<close> and \<open>Stop\<close> on the returned container.\<close>

definition install_scheduled :: "app_kind \<Rightarrow> node_id \<Rightarrow> seconds \<Rightarrow> seconds \<Rightarrow> world \<Rightarrow> nat list \<times> world" where
  "install_scheduled k n start stop w =
     (let (c, w1) = install_app k n w in (c, apps_stop c stop (apps_start c start w1)))"

text \<open>\<open>OnOffHelper\<close>'s attribute defaults, then the attributes the composer sets.\<close>

definition onoff_default :: onoff_cfg where
  "onoff_default = \<lparr>oo_on_time = ''ns3::ConstantRandomVariable[Constant=1.0]'',
                    oo_off_time = ''ns3::ConstantRandomVariable[Constant=1.0]'',
                    oo_pkt_size = 512, oo_rate = ''500kb/s''\<rparr>"

section \<open>\<open>InstallBulkTransfers\<close>\<close>

text \<open>
  For each left leaf \<open>i\<close>: a TCP sink on right leaf \<open>i\<close> at its address and port
  \<open>5000 + i\<close>, then an unlimited bulk sender on left leaf \<open>i\<close> towards it, both
  scheduled for \<open>[start, stop]\<close>.
\<close>

fun bulk_pairs :: "dumbbell \<Rightarrow> port \<Rightarrow> seconds \<Rightarrow> seconds \<Rightarrow> nat list \<Rightarrow> world \<Rightarrow> world" where
  "bulk_pairs db port start stop [] w = w"
| "bulk_pairs db port start stop (i # is) w =
     (let sinkAddress = (db_right_leaf_ifs db ! i, port + of_nat i);
          (_, w1) = install_scheduled (PacketSink Tcp sinkAddress) (db_right db ! i) start stop w;
          (_, w2) = install_scheduled (BulkSend Tcp sinkAddress 0) (db_left db ! i) start stop w1
      in bulk_pairs db port start stop is w2)"

definition InstallBulkTransfers :: "dumbbell \<Rightarrow> seconds \<Rightarrow> seconds \<Rightarrow> world \<Rightarrow> world" where
  "InstallBulkTransfers db start stop w = bulk_pairs db 5000 start stop [0..<length (db_left db)] w"

section \<open>\<open>InstallShortWebTraffic\<close>\<close>

text \<open>
  A TCP sink on the server at \<open>0.0.0.0:9000\<close> from \<open>start\<close>, and a web-like on/off
  client towards \<open>serverAddress:9000\<close> (on 0.2 s constant, off exponential with mean
  0.8 s, 1200-byte packets at 10 Mb/s) from \<open>start + 1\<close>; both stop at \<open>stop\<close>.
\<close>

definition web_cfg :: onoff_cfg where
  "web_cfg = onoff_default\<lparr>oo_on_time := ''ns3::ConstantRandomVariable[Constant=0.2]'',
                           oo_off_time := ''ns3::ExponentialRandomVariable[Mean=0.8]'',
                           oo_pkt_size := 1200, oo_rate := ''10Mbps''\<rparr>"

definition InstallShortWebTraffic ::
  "node_id \<Rightarrow> node_id \<Rightarrow> ipv4addr \<Rightarrow> seconds \<Rightarrow> seconds \<Rightarrow> world \<Rightarrow> world" where
  "InstallShortWebTraffic client server serverAddress start stop w =
     (let port = 9000;
          (_, w1) = install_scheduled (PacketSink Tcp (ipv4_any, port)) server start stop w;
          (_, w2) = install_scheduled (OnOff Tcp (serverAddress, port) web_cfg) client (start + 1.0) stop w1
      in w2)"

section \<open>Traffic of S2 and S3\<close>

text \<open>S2 (lines 260--284): two bulk flows \<open>leftHosts[i] \<rightarrow> rightHosts[i]\<close>, two web flows between the "wrong" pairs.\<close>

fun s2_bulk :: "s2_topo \<Rightarrow> seconds \<Rightarrow> nat list \<Rightarrow> world \<Rightarrow> world" where
  "s2_bulk t simTime [] w = w"
| "s2_bulk t simTime (i # is) w =
     (let rightHostAddrs = [s2_right0_if t ! 1, s2_right1_if t ! 1];
          portBase = 5000;
          sinkAddress = (rightHostAddrs ! i, portBase + of_nat i);
          (_, w1) = install_scheduled (PacketSink Tcp sinkAddress) (s2_right t ! i) 0.0 simTime w;
          (_, w2) = install_scheduled (BulkSend Tcp sinkAddress 0) (s2_left t ! i) 0.0 simTime w1
      in s2_bulk t simTime is w2)"

definition S2_traffic :: "s2_topo \<Rightarrow> seconds \<Rightarrow> world \<Rightarrow> world" where
  "S2_traffic t simTime w =
     (let w1 = s2_bulk t simTime [0, 1] w;
          w2 = InstallShortWebTraffic (s2_left t ! 0) (s2_right t ! 1) (s2_right1_if t ! 1) 5.0 simTime w1
      in InstallShortWebTraffic (s2_right t ! 0) (s2_left t ! 1) (s2_left1_if t ! 0) 5.0 simTime w2)"

text \<open>S3 (lines 349--375): one bulk flow along the chain and 15 Mb/s of UDP cross-traffic from 5 s.\<close>

definition udp_cross_cfg :: onoff_cfg where
  "udp_cross_cfg = onoff_default\<lparr>oo_on_time := ''ns3::ConstantRandomVariable[Constant=1]'',
                                 oo_off_time := ''ns3::ConstantRandomVariable[Constant=0]'',
                                 oo_pkt_size := 1200, oo_rate := ''15Mbps''\<rparr>"

definition S3_traffic :: "s3_topo \<Rightarrow> seconds \<Rightarrow> world \<Rightarrow> world" where
  "S3_traffic t simTime w =
     (let nodes = s3_nodes t;
          port = 6000;
          sinkAddress = (s3_right_if t ! 1, port);
          (_, w1) = install_scheduled (PacketSink Tcp sinkAddress) (nodes ! 3) 0.0 simTime w;
          (_, w2) = install_scheduled (BulkSend Tcp sinkAddress 0) (nodes ! 0) 0.0 simTime w1;
          (_, w3) = install_scheduled (OnOff Udp (s3_right_if t ! 1, 7000) udp_cross_cfg) (nodes ! 0) 5.0 simTime w2;
          (_, w4) = install_scheduled (PacketSink Udp (ipv4_any, 7000)) (nodes ! 3) 5.0 simTime w3
      in w4)"

section \<open>Reading the installed flows back\<close>

text \<open>The node that owns an interface address.\<close>

definition addr_owner :: "world \<Rightarrow> ipv4addr \<Rightarrow> node_id option" where
  "addr_owner w a = map_option (\<lambda>(d, _, _). dev_node (w_devs w ! d)) (find (\<lambda>(_, a', _). a' = a) (w_ifaces w))"

definition app_proto :: "app \<Rightarrow> proto" where
  "app_proto a = (case app_kind a of PacketSink p _ \<Rightarrow> p | BulkSend p _ _ \<Rightarrow> p | OnOff p _ _ \<Rightarrow> p)"

definition is_sender :: "app \<Rightarrow> bool" where
  "is_sender a = (case app_kind a of PacketSink _ _ \<Rightarrow> False | _ \<Rightarrow> True)"

definition sender_remote :: "app \<Rightarrow> inet_addr" where
  "sender_remote a = (case app_kind a of BulkSend _ r _ \<Rightarrow> r | OnOff _ r _ \<Rightarrow> r | PacketSink _ l \<Rightarrow> l)"

text \<open>
  A sink serves a sender when it runs the sender's protocol on the node owning the
  sender's remote address and listens on its port, bound to that address or to the
  wildcard.
\<close>

definition serves :: "world \<Rightarrow> app \<Rightarrow> app \<Rightarrow> bool" where
  "serves w s a =
     (case app_kind s of
        PacketSink p (ip, pt) \<Rightarrow>
          p = app_proto a \<and> pt = snd (sender_remote a)
          \<and> (ip = fst (sender_remote a) \<or> ip = ipv4_any)
          \<and> addr_owner w (fst (sender_remote a)) = Some (app_node s)
      | _ \<Rightarrow> False)"

text \<open>
  The spec's flow invariant (section 3): every sender has a sink that serves it and
  starts no later than the sender.
\<close>

definition flows_served :: "world \<Rightarrow> bool" where
  "flows_served w =
     list_all (\<lambda>a. \<not> is_sender a \<or> list_ex (\<lambda>s. serves w s a \<and> app_start s \<le> app_start a) (w_apps w)) (w_apps w)"

text \<open>No two sinks of one protocol listen on one port of one node.\<close>

definition sink_key :: "app \<Rightarrow> (node_id \<times> proto \<times> port) option" where
  "sink_key a = (case app_kind a of PacketSink p (_, pt) \<Rightarrow> Some (app_node a, p, pt) | _ \<Rightarrow> None)"

definition sink_ports_distinct :: "world \<Rightarrow> bool" where
  "sink_ports_distinct w = distinct (List.map_filter sink_key (w_apps w))"

definition windows_ordered :: "world \<Rightarrow> bool" where
  "windows_ordered w = list_all (\<lambda>a. app_start a \<le> app_stop a) (w_apps w)"

end
