(* ===== verification/Instrumentation.thy ===== *)
theory Instrumentation
  imports Simulator OutputPath Traffic
begin

text \<open>
  Instrumentation, and the tail every scenario builder shares. The callbacks of
  \<open>src/ns3/tcp_compare.cc\<close>: \<open>CwndTracer\<close> (lines 81--85) appends
  \<open>(Now, old, new)\<close> to the trace file; \<open>InstallCwndTracer\<close> (lines 87--93) connects it
  to the \<open>CongestionWindow\<close> of every TCP socket in the node's socket list at that
  moment (a socket exists once its application has started; ns-3's wildcard connect does
  not reach sockets created later); \<open>SetOnOffRate\<close> (lines 101--108) changes an on/off
  source's rate unless the pointer is null; \<open>SerializeFlowMonitor\<close> (lines 95--99) writes
  the flow summary. Every builder then creates the output directory and \<open>cwnd.csv\<close>,
  schedules the tracer at 0.1 s (lines 184--187), optionally installs the flow monitor,
  stops the engine at the configured time, runs it, writes \<open>flowmon.xml\<close> when a monitor
  was installed, and destroys the engine (lines 189--204).
\<close>

section \<open>Callbacks\<close>

definition CwndTracer :: "string \<Rightarrow> 32 word \<Rightarrow> 32 word \<Rightarrow> world \<Rightarrow> world" where
  "CwndTracer stream oldCwnd newCwnd w =
     (case w_files w stream of
        Some (CwndCsv rows) \<Rightarrow> w\<lparr>w_files := (w_files w)(stream \<mapsto> CwndCsv (rows @ [(w_now w, oldCwnd, newCwnd)]))\<rparr>
      | _ \<Rightarrow> w)"

definition tcp_socket_exists :: "world \<Rightarrow> node_id \<Rightarrow> nat \<Rightarrow> bool" where
  "tcp_socket_exists w n i =
     (i < length (w_apps w) \<and> app_node (w_apps w ! i) = n \<and> app_proto (w_apps w ! i) = Tcp
      \<and> app_start (w_apps w ! i) \<le> w_now w)"

definition InstallCwndTracer :: "node_id \<Rightarrow> string \<Rightarrow> world \<Rightarrow> world" where
  "InstallCwndTracer node stream w =
     w\<lparr>w_cwnd_conns := w_cwnd_conns w @
          map (\<lambda>i. (i, stream)) (filter (tcp_socket_exists w node) [0..<length (w_apps w)])\<rparr>"

definition SetOnOffRate :: "nat option \<Rightarrow> string \<Rightarrow> world \<Rightarrow> world" where
  "SetOnOffRate app rate w =
     (case app of
        None \<Rightarrow> w
      | Some i \<Rightarrow>
          (case app_kind (w_apps w ! i) of
             OnOff p r cfg \<Rightarrow> w\<lparr>w_apps := (w_apps w)[i := (w_apps w ! i)\<lparr>app_kind := OnOff p r (cfg\<lparr>oo_rate := rate\<rparr>)\<rparr>]\<rparr>
           | _ \<Rightarrow> w))"

definition flowmon_install_all :: "world \<Rightarrow> world" where
  "flowmon_install_all w = w\<lparr>w_flowmon := Some (w_stack w)\<rparr>"

definition SerializeFlowMonitor :: "string \<Rightarrow> world \<Rightarrow> world" where
  "SerializeFlowMonitor path w =
     w\<lparr>w_files := (w_files w)(path \<mapsto> FlowmonXml (case w_flowmon w of Some ns \<Rightarrow> ns | None \<Rightarrow> []))\<rparr>"

text \<open>The composer's side of the engine interface.\<close>

fun exec_event :: "sim_event \<Rightarrow> world \<Rightarrow> world" where
  "exec_event (EvInstallCwndTracer n s) w = InstallCwndTracer n s w"
| "exec_event (EvSetOnOffRate a r) w = SetOnOffRate a r w"
| "exec_event EvStop w = w"

definition notify_cwnd :: "nat \<Rightarrow> 32 word \<Rightarrow> 32 word \<Rightarrow> world \<Rightarrow> world" where
  "notify_cwnd i oldCwnd newCwnd w =
     fold (\<lambda>(j, s) w'. if j = i then CwndTracer s oldCwnd newCwnd w' else w') (w_cwnd_conns w) w"

definition run :: "cwnd_change list \<Rightarrow> world \<Rightarrow> world" where
  "run env w = Simulator_Run exec_event notify_cwnd env w"

section \<open>The builders' shared tail\<close>

definition cwnd_file :: "string \<Rightarrow> string" where
  "cwnd_file dir = dir @ ''/cwnd.csv''"

definition flowmon_file :: "string \<Rightarrow> string" where
  "flowmon_file dir = dir @ ''/flowmon.xml''"

definition open_cwnd_trace :: "runtime_options \<Rightarrow> node_id \<Rightarrow> world \<Rightarrow> (string \<times> world) outcome" where
  "open_cwnd_trace opts node w =
     rbind (CreateOutputDir opts w) (\<lambda>(outputDir, w1).
     rbind (create_file_stream (cwnd_file outputDir) w1) (\<lambda>w2.
     rbind (Schedule 0.1 (EvInstallCwndTracer node (cwnd_file outputDir)) w2) (\<lambda>w3.
     Inr (outputDir, w3))))"

definition monitor_and_run :: "runtime_options \<Rightarrow> cwnd_change list \<Rightarrow> string \<Rightarrow> world \<Rightarrow> world outcome" where
  "monitor_and_run opts env outputDir w =
     (let (monitor, w1) = (if enableFlowMonitor opts then (True, flowmon_install_all w) else (False, w))
      in rbind (Simulator_Stop (simulationTime opts) w1) (\<lambda>w2.
         let w3 = run env w2;
             w4 = (if monitor then SerializeFlowMonitor (flowmon_file outputDir) w3 else w3)
         in Inr (Simulator_Destroy w4)))"

text \<open>Every directory on the output path exists already or may be created.\<close>

definition dirs_creatable :: "runtime_options \<Rightarrow> world \<Rightarrow> bool" where
  "dirs_creatable opts w = list_all (\<lambda>d. d \<in> w_dirs w \<or> d \<notin> w_denied w) (path_prefixes (output_dir_name opts))"

text \<open>The scheduled events of a run, as opposed to the window changes the transport models report.\<close>

definition is_sched :: "seconds \<times> item \<Rightarrow> bool" where
  "is_sched x = (case snd x of Sched _ \<Rightarrow> True | _ \<Rightarrow> False)"

section \<open>Properties of the shared tail\<close>

lemma open_cwnd_trace_ok:
  assumes "dirs_creatable opts w"
  shows "open_cwnd_trace opts n w =
           Inr (output_dir_name opts,
                w\<lparr>w_dirs := w_dirs w \<union> set (path_prefixes (output_dir_name opts)),
                  w_files := (w_files w)(cwnd_file (output_dir_name opts) \<mapsto> CwndCsv []),
                  w_events := w_events w @ [(w_now w + 0.1, EvInstallCwndTracer n (cwnd_file (output_dir_name opts)))]\<rparr>)"
proof -
  let ?d = "output_dir_name opts"
  let ?w1 = "w\<lparr>w_dirs := w_dirs w \<union> set (path_prefixes ?d)\<rparr>"
  have c: "CreateOutputDir opts w = Inr (?d, ?w1)"
    using assms by (simp add: CreateOutputDir_Inr dirs_creatable_def list_all_iff)
  have "?d \<in> w_dirs ?w1"
    using path_in_prefixes by simp
  then have f: "create_file_stream (cwnd_file ?d) ?w1 = Inr (?w1\<lparr>w_files := (w_files ?w1)(cwnd_file ?d \<mapsto> CwndCsv [])\<rparr>)"
    unfolding cwnd_file_def by (subst create_file_stream_in_dir [symmetric]) simp_all
  show ?thesis
    by (simp add: open_cwnd_trace_def c f Schedule_def)
qed

lemma monitor_and_run_eq:
  assumes "0 \<le> simulationTime opts"
  shows "monitor_and_run opts env dir w =
           Inr (Simulator_Destroy
                 (let w1 = (if enableFlowMonitor opts then flowmon_install_all w else w);
                      w3 = run env (w1\<lparr>w_events := w_events w1 @ [(w_now w1 + simulationTime opts, EvStop)]\<rparr>)
                  in if enableFlowMonitor opts then SerializeFlowMonitor (flowmon_file dir) w3 else w3))"
  using assms by (simp add: monitor_and_run_def Simulator_Stop_def Schedule_def Let_def)

section \<open>The run seen from the callbacks\<close>

lemma is_sched_Sched [simp]: "is_sched (t, Sched e)"
  by (simp add: is_sched_def)

lemma is_sched_CwndChange [simp]: "\<not> is_sched (t, CwndChange i o' n)"
  by (simp add: is_sched_def)

lemma tcp_socket_exists_cong:
  "w_apps w1 = w_apps w2 \<Longrightarrow> w_now w1 = w_now w2 \<Longrightarrow> tcp_socket_exists w1 = tcp_socket_exists w2"
  by (simp add: fun_eq_iff tcp_socket_exists_def)

lemma run_items_proj:
  fixes P :: "world \<Rightarrow> 'a"
  assumes notify: "\<And>i o' n w. P (notify_cwnd i o' n w) = P w"
    and now: "\<And>t w. P (w\<lparr>w_now := t\<rparr>) = P w"
    and exec: "\<And>e t w1 w2. P w1 = P w2 \<Longrightarrow> P (exec_event e (w1\<lparr>w_now := t\<rparr>)) = P (exec_event e (w2\<lparr>w_now := t\<rparr>))"
    and "P w1 = P w2"
  shows "P (run_items exec_event notify_cwnd xs w1) = P (run_items exec_event notify_cwnd (filter is_sched xs) w2)"
  using assms(4)
proof (induction xs arbitrary: w1 w2)
  case Nil
  then show ?case by simp
next
  case (Cons x xs)
  obtain t it where x: "x = (t, it)" by fastforce
  show ?case
  proof (cases it)
    case (Sched e)
    show ?thesis
    proof (cases "e = EvStop")
      case True
      then show ?thesis using Cons.prems by (simp add: x Sched now)
    next
      case False
      have "P (exec_event e (w1\<lparr>w_now := t\<rparr>)) = P (exec_event e (w2\<lparr>w_now := t\<rparr>))"
        using Cons.prems by (rule exec)
      then have "P (run_items exec_event notify_cwnd xs (exec_event e (w1\<lparr>w_now := t\<rparr>)))
                 = P (run_items exec_event notify_cwnd (filter is_sched xs) (exec_event e (w2\<lparr>w_now := t\<rparr>)))"
        by (rule Cons.IH)
      with False show ?thesis by (cases e) (simp_all add: x Sched)
    qed
  next
    case (CwndChange i o' n)
    have "P (notify_cwnd i o' n (w1\<lparr>w_now := t\<rparr>)) = P w2"
      using Cons.prems by (simp add: notify now)
    then have "P (run_items exec_event notify_cwnd xs (notify_cwnd i o' n (w1\<lparr>w_now := t\<rparr>)))
               = P (run_items exec_event notify_cwnd (filter is_sched xs) w2)"
      by (rule Cons.IH)
    then show ?thesis by (simp add: x CwndChange)
  qed
qed

lemma filter_is_sched_timeline:
  "filter is_sched (timeline evs env) = sort_key fst (map (\<lambda>(t, e). (t, Sched e)) evs)"
proof -
  have "filter is_sched (map (\<lambda>(t, e). (t, Sched e)) evs @ map (\<lambda>(t, i, o', n). (t, CwndChange i o' n)) env)
          = map (\<lambda>(t, e). (t, Sched e)) evs"
    by (induction evs) (auto simp: is_sched_def split: prod.splits)+
  then show ?thesis
    by (simp add: timeline_def filter_sort)
qed

text \<open>The part of the state the callbacks read and the congestion-window changes do not touch.\<close>

lemma conns_apps_notify: "w_apps (notify_cwnd i o' n w) = w_apps w \<and> w_cwnd_conns (notify_cwnd i o' n w) = w_cwnd_conns w"
proof -
  have "w_apps (fold (\<lambda>(j, s) w'. if j = i then CwndTracer s o' n w' else w') cs w) = w_apps w
        \<and> w_cwnd_conns (fold (\<lambda>(j, s) w'. if j = i then CwndTracer s o' n w' else w') cs w) = w_cwnd_conns w" for cs w
    by (induction cs arbitrary: w) (auto simp: CwndTracer_def split: option.splits file_data.splits)
  then show ?thesis by (simp add: notify_cwnd_def)
qed

lemma run_conns_apps:
  "(w_apps (run env w), w_cwnd_conns (run env w))
     = (w_apps (run_items exec_event notify_cwnd (sort_key fst (map (\<lambda>(t, e). (t, Sched e)) (w_events w))) w),
        w_cwnd_conns (run_items exec_event notify_cwnd (sort_key fst (map (\<lambda>(t, e). (t, Sched e)) (w_events w))) w))"
proof -
  let ?P = "\<lambda>w. (w_apps w, w_cwnd_conns w)"
  have "?P (run_items exec_event notify_cwnd (timeline (w_events w) env) w)
        = ?P (run_items exec_event notify_cwnd (filter is_sched (timeline (w_events w) env)) w)"
  proof (rule run_items_proj)
    show "?P (notify_cwnd i o' n w) = ?P w" for i o' n w
      using conns_apps_notify by simp
    show "?P (exec_event e (w1\<lparr>w_now := t\<rparr>)) = ?P (exec_event e (w2\<lparr>w_now := t\<rparr>))" if "?P w1 = ?P w2" for e t w1 w2
      using that tcp_socket_exists_cong [of "w1\<lparr>w_now := t\<rparr>" "w2\<lparr>w_now := t\<rparr>"]
      by (cases e) (auto simp: InstallCwndTracer_def SetOnOffRate_def split: option.splits app_kind.splits)
  qed simp_all
  then show ?thesis by (simp add: run_def Simulator_Run_def filter_is_sched_timeline)
qed

end
