(* ===== verification/Cellular.thy ===== *)
theory Cellular
  imports Instrumentation
begin

text \<open>
  Scenario S4 (\<open>BuildScenarioS4\<close>, \<open>src/ns3/tcp_compare.cc\<close> lines 440--575): one UE
  attached to one eNB, the EPC's packet gateway linked to a remote host, a 50 Mb/s TCP
  on/off video stream from the remote host to the UE, a background bulk upload from the
  UE, and the Perturbation Scheduler: at 30 s the video rate drops to 1 b/s, at
  \<open>30 + blockageDuration\<close> it is restored to 50 Mb/s. The LTE and EPC helpers are ns-3
  code modelled at their interface: creating the EPC helper creates the gateway node with
  its IPv4 stack; UE addresses come from \<open>7.0.0.0/8\<close> after the gateway's \<open>7.0.0.1\<close>.
\<close>

section \<open>LTE and EPC at their interface\<close>

definition epc_create :: "world \<Rightarrow> node_id \<times> world" where
  "epc_create w = (w_nodes w, w\<lparr>w_nodes := Suc (w_nodes w), w_stack := w_stack w @ [w_nodes w]\<rparr>)"

definition install_mobility :: "node_id list \<Rightarrow> real \<Rightarrow> real \<Rightarrow> real \<Rightarrow> world \<Rightarrow> world" where
  "install_mobility ns minX minY deltaX w =
     w\<lparr>w_positions := w_positions w @ map (\<lambda>k. (ns ! k, minX + of_nat k * deltaX, minY)) [0..<length ns]\<rparr>"

definition lte_install :: "string \<Rightarrow> node_id list \<Rightarrow> world \<Rightarrow> nat list \<times> world" where
  "lte_install kind ns w =
     ([length (w_devs w) ..< length (w_devs w) + length ns],
      w\<lparr>w_devs := w_devs w @ map (\<lambda>n. \<lparr>dev_node = n, dev_rate = kind, dev_queue = None, dev_rx_error = None\<rparr>) ns\<rparr>)"

definition assign_ue_ipv4 :: "nat list \<Rightarrow> world \<Rightarrow> (ipv4addr list \<times> world) outcome" where
  "assign_ue_ipv4 ds w =
     rbind (Assign ((addr_helper_of (ip4 7 0 0 0) mask8)\<lparr>ah_address := 2\<rparr>) ds w) (\<lambda>(as, _, w'). Inr (as, w'))"

definition ue_default_gateway :: ipv4addr where
  "ue_default_gateway = ip4 7 0 0 1"

definition add_route :: "node_id \<Rightarrow> route \<Rightarrow> world \<Rightarrow> world" where
  "add_route n r w = w\<lparr>w_routes := w_routes w @ [(n, r)]\<rparr>"

definition lte_attach :: "nat \<Rightarrow> nat \<Rightarrow> world \<Rightarrow> world" where
  "lte_attach ue enb w = w\<lparr>w_attached := w_attached w @ [(ue, enb)]\<rparr>"

section \<open>Topology (lines 443--510)\<close>

record s4_topo =
  s4_pgw :: node_id
  s4_gnbs :: "node_id list"
  s4_ues :: "node_id list"
  s4_remote :: node_id
  s4_internet_ifs :: "ipv4addr list"
  s4_ue_ifs :: "ipv4addr list"

definition S4_topology :: "world \<Rightarrow> (s4_topo \<times> world) outcome" where
  "S4_topology w =
     (let (pgw, w1) = epc_create w;
          (gnbNodes, w2) = create_nodes 1 w1;
          (ueNodes, w3) = create_nodes 1 w2;
          w4 = install_mobility gnbNodes 0.0 0.0 20.0 w3;
          w5 = install_mobility ueNodes 50.0 0.0 0.0 w4;
          (remoteHostContainer, w6) = create_nodes 1 w5;
          remoteHost = remoteHostContainer ! 0
      in rbind (install_stack remoteHostContainer w6) (\<lambda>w7.
         let (internetDevices, w8) = p2p_install (p2p ''10Gbps'' ''2ms'') pgw remoteHost w7
         in rbind (Assign (addr_helper_of (ip4 1 0 0 0) mask8) internetDevices w8) (\<lambda>(internetIfaces, _, w9).
         let w10 = add_route remoteHost (NetworkRoute (ip4 7 0 0 0) mask8 1) w9;
             (enbDevices, w11) = lte_install ''LteEnbNetDevice'' gnbNodes w10;
             (ueDevices, w12) = lte_install ''LteUeNetDevice'' ueNodes w11
         in rbind (install_stack ueNodes w12) (\<lambda>w13.
         rbind (assign_ue_ipv4 ueDevices w13) (\<lambda>(ueIpIfaces, w14).
         let w15 = fold (\<lambda>u. add_route u (DefaultRoute ue_default_gateway 1)) ueNodes w14;
             w16 = fold (\<lambda>d. lte_attach d (enbDevices ! 0)) ueDevices w15
         in Inr (\<lparr>s4_pgw = pgw, s4_gnbs = gnbNodes, s4_ues = ueNodes, s4_remote = remoteHost,
                  s4_internet_ifs = internetIfaces, s4_ue_ifs = ueIpIfaces\<rparr>, w16))))))"

section \<open>Traffic (lines 512--546)\<close>

definition video_cfg :: onoff_cfg where
  "video_cfg = onoff_default\<lparr>oo_rate := ''50Mbps'', oo_pkt_size := 1316,
                             oo_on_time := ''ns3::ConstantRandomVariable[Constant=1]'',
                             oo_off_time := ''ns3::ConstantRandomVariable[Constant=0]''\<rparr>"

text \<open>\<open>DynamicCast<OnOffApplication>\<close>: the index when the application is an on/off source, else null.\<close>

definition cast_onoff :: "world \<Rightarrow> nat \<Rightarrow> nat option" where
  "cast_onoff w i = (if i < length (w_apps w) then (case app_kind (w_apps w ! i) of OnOff _ _ _ \<Rightarrow> Some i | _ \<Rightarrow> None) else None)"

definition S4_traffic :: "s4_topo \<Rightarrow> seconds \<Rightarrow> world \<Rightarrow> nat option \<times> world" where
  "S4_traffic t simTime w =
     (let videoPort = 10000; tcpPort = 10001;
          (_, w1) = install_scheduled (PacketSink Tcp (ipv4_any, videoPort)) (s4_ues t ! 0) 0.0 simTime w;
          (videoSource, w2) = install_scheduled (OnOff Tcp (s4_ue_ifs t ! 0, videoPort) video_cfg) (s4_remote t) 1.0 simTime w1;
          videoApp = cast_onoff w2 (videoSource ! 0);
          (_, w3) = install_scheduled (PacketSink Tcp (ipv4_any, tcpPort)) (s4_remote t) 0.0 simTime w2;
          (_, w4) = install_scheduled (BulkSend Tcp (s4_internet_ifs t ! 1, tcpPort) 0) (s4_ues t ! 0) 5.0 simTime w3
      in (videoApp, w4))"

section \<open>Perturbation (lines 553--557)\<close>

definition blockStart :: seconds where
  "blockStart = 30.0"

definition schedule_blockage :: "nat option \<Rightarrow> seconds \<Rightarrow> world \<Rightarrow> world outcome" where
  "schedule_blockage videoApp blockDuration w =
     rbind (Schedule blockStart (EvSetOnOffRate videoApp ''1bps'') w) (\<lambda>w1.
     Schedule (blockStart + blockDuration) (EvSetOnOffRate videoApp ''50Mbps'') w1)"

section \<open>The whole builder\<close>

definition S4_setup :: "runtime_options \<Rightarrow> world \<Rightarrow> (nat option \<times> string \<times> world) outcome" where
  "S4_setup opts w =
     rbind (S4_topology w) (\<lambda>(t, w1).
     let (videoApp, w2) = S4_traffic t (simulationTime opts) w1
     in rbind (open_cwnd_trace opts (s4_remote t) w2) (\<lambda>(outputDir, w3).
        rbind (schedule_blockage videoApp (blockageDuration opts) w3) (\<lambda>w4.
        Inr (videoApp, outputDir, w4))))"

definition BuildScenarioS4 :: "runtime_options \<Rightarrow> cwnd_change list \<Rightarrow> world \<Rightarrow> world outcome" where
  "BuildScenarioS4 opts env w =
     rbind (S4_setup opts w) (\<lambda>(_, outputDir, w1). monitor_and_run opts env outputDir w1)"

section \<open>What S4 builds\<close>

text \<open>
  The handles, state and applications S4 produces from a state without topology,
  written out from the construction order of the code.
\<close>

definition S4_handles :: s4_topo where
  "S4_handles = \<lparr>s4_pgw = 0, s4_gnbs = [1], s4_ues = [2], s4_remote = 3,
     s4_internet_ifs = [ip4 1 0 0 1, ip4 1 0 0 2], s4_ue_ifs = [ip4 7 0 0 2]\<rparr>"

definition S4_state :: "world \<Rightarrow> world" where
  "S4_state w = w\<lparr>w_nodes := 4, w_stack := [0, 3, 2],
     w_devs := [p2p_dev 0 ''10Gbps'' None, p2p_dev 3 ''10Gbps'' None,
                p2p_dev 1 ''LteEnbNetDevice'' None, p2p_dev 2 ''LteUeNetDevice'' None],
     w_chans := [\<lparr>ch_delay = ''2ms'', ch_ends = (0, 1)\<rparr>],
     w_ifaces := [(0, ip4 1 0 0 1, mask8), (1, ip4 1 0 0 2, mask8), (3, ip4 7 0 0 2, mask8)],
     w_alloc := [ip4 1 0 0 1, ip4 1 0 0 2, ip4 7 0 0 2],
     w_routes := [(3, NetworkRoute (ip4 7 0 0 0) mask8 1), (2, DefaultRoute ue_default_gateway 1)],
     w_positions := [(1, 0, 0), (2, 50, 0)], w_attached := [(3, 2)]\<rparr>"

definition S4_apps :: "seconds \<Rightarrow> app list" where
  "S4_apps T =
     [\<lparr>app_node = 2, app_kind = PacketSink Tcp (ipv4_any, 10000), app_start = 0, app_stop = T\<rparr>,
      \<lparr>app_node = 3, app_kind = OnOff Tcp (ip4 7 0 0 2, 10000) video_cfg, app_start = 1, app_stop = T\<rparr>,
      \<lparr>app_node = 3, app_kind = PacketSink Tcp (ipv4_any, 10001), app_start = 0, app_stop = T\<rparr>,
      \<lparr>app_node = 2, app_kind = BulkSend Tcp (ip4 1 0 0 2, 10001) 0, app_start = 5, app_stop = T\<rparr>]"

section \<open>Properties of S4\<close>

lemma S4_result:
  assumes "no_topology w"
  shows "S4_topology w = Inr (S4_handles, S4_state w)"
proof -
  have "S4_topology (fresh_world w) = Inr (S4_handles, S4_state (fresh_world w))"
    by (simp add: S4_topology_def builder_simps epc_create_def install_mobility_def lte_install_def
        assign_ue_ipv4_def add_route_def lte_attach_def p2p_dev_def fresh_world_def S4_handles_def S4_state_def)
  with assms show ?thesis by simp
qed


lemma S4_traffic_result:
  assumes "w_apps w = []"
  shows "S4_traffic S4_handles T w = (Some 1, w\<lparr>w_apps := S4_apps T\<rparr>)"
  using assms by (simp add: S4_traffic_def S4_handles_def S4_apps_def install_scheduled_def install_app_def
      apps_start_def apps_stop_def cast_onoff_def Let_def)

text \<open>
  C25. S4's addressing and routes: from a state without topology the builder succeeds;
  the gateway and the remote host get 1.0.0.1 and 1.0.0.2, the UE 7.0.0.2 (the first
  UE address after the gateway's 7.0.0.1), and the static routes let the remote host
  reach the UE's address and the UE reach the remote host's address.
\<close>

theorem S4_topology_routes:
  assumes "no_topology w"
  shows "\<exists>t w'. S4_topology w = Inr (t, w') \<and> s4_internet_ifs t = [ip4 1 0 0 1, ip4 1 0 0 2]
           \<and> s4_ue_ifs t = [ip4 7 0 0 2]
           \<and> routable w' (s4_remote t) (s4_ue_ifs t ! 0) \<and> routable w' (s4_ues t ! 0) (s4_internet_ifs t ! 1)"
proof -
  have "routable (S4_state w) 3 (ip4 7 0 0 2)" and "routable (S4_state w) 2 (ip4 1 0 0 2)"
    by (simp_all add: routable_def S4_state_def ip4_def mask8_def)
  with S4_result [OF assms] show ?thesis by (simp add: S4_handles_def)
qed

theorem S4_topology_routes_witness:
  "\<exists>t w'. S4_topology (world0 {} {}) = Inr (t, w') \<and> s4_internet_ifs t = [ip4 1 0 0 1, ip4 1 0 0 2]
     \<and> s4_ue_ifs t = [ip4 7 0 0 2]
     \<and> routable w' (s4_remote t) (s4_ue_ifs t ! 0) \<and> routable w' (s4_ues t ! 0) (s4_internet_ifs t ! 1)"
  using S4_topology_routes [OF no_topology_world0] by simp

end
