(* ===== verification/TcpConfig.thy ===== *)
theory TcpConfig
  imports Ns3World
begin

text \<open>
  The TCP Variant Resolver: \<open>ConfigureTcp\<close> (\<open>src/ns3/tcp_compare.cc\<close> lines 66--79).
  It looks \<open>"ns3::" + tcpType\<close> up in ns-3's \<open>TypeId\<close> registry, aborts when the
  name is not registered, and otherwise writes five process-wide attribute defaults. The
  registry is a list of registered type ids with their parent type; which ids exist is
  decided by the ns-3 build the program links against, so it is a parameter here.
\<close>

record type_id =
  tid_name :: string
  tid_parent :: "string option"

text \<open>\<open>TypeId::LookupByNameFailSafe\<close>.\<close>

definition lookup_type :: "type_id list \<Rightarrow> string \<Rightarrow> type_id option" where
  "lookup_type reg name = find (\<lambda>t. tid_name t = name) reg"

text \<open>\<open>Config::SetDefault\<close>: the value every object created afterwards starts with.\<close>

definition set_default :: "string \<Rightarrow> cfg_value \<Rightarrow> world \<Rightarrow> world" where
  "set_default attr v w = w\<lparr>w_defaults := (w_defaults w)(attr \<mapsto> v)\<rparr>"

definition ConfigureTcp :: "type_id list \<Rightarrow> string \<Rightarrow> world \<Rightarrow> world outcome" where
  "ConfigureTcp reg tcpType w =
     (let fullName = ''ns3::'' @ tcpType
      in case lookup_type reg fullName of
           None \<Rightarrow> Inl (UnknownTcpType tcpType, w)
         | Some tid \<Rightarrow>
             Inr (set_default ''ns3::TcpSocketBase::Timestamp'' (BoolVal True)
                   (set_default ''ns3::TcpSocketBase::WindowScaling'' (BoolVal True)
                   (set_default ''ns3::TcpSocket::RcvBufSize'' (UintVal (4 * 1024 * 1024))
                   (set_default ''ns3::TcpSocket::SndBufSize'' (UintVal (4 * 1024 * 1024))
                   (set_default ''ns3::TcpL4Protocol::SocketType'' (TypeIdVal (tid_name tid)) w))))))"

text \<open>The five defaults \<open>ConfigureTcp\<close> writes, for a resolved type name.\<close>

definition tcp_defaults :: "string \<Rightarrow> (string \<times> cfg_value) list" where
  "tcp_defaults name =
     [(''ns3::TcpL4Protocol::SocketType'', TypeIdVal name),
      (''ns3::TcpSocket::SndBufSize'', UintVal 4194304),
      (''ns3::TcpSocket::RcvBufSize'', UintVal 4194304),
      (''ns3::TcpSocketBase::WindowScaling'', BoolVal True),
      (''ns3::TcpSocketBase::Timestamp'', BoolVal True)]"

text \<open>
  A registry as an ns-3 build has it, reduced to the entries the examples use: the
  congestion-control base class, two variants, and two types that are no congestion
  control at all.
\<close>

definition sample_registry :: "type_id list" where
  "sample_registry =
     [\<lparr>tid_name = ''ns3::Object'', tid_parent = None\<rparr>,
      \<lparr>tid_name = ''ns3::TcpCongestionOps'', tid_parent = Some ''ns3::Object''\<rparr>,
      \<lparr>tid_name = ''ns3::TcpNewReno'', tid_parent = Some ''ns3::TcpCongestionOps''\<rparr>,
      \<lparr>tid_name = ''ns3::TcpCubic'', tid_parent = Some ''ns3::TcpCongestionOps''\<rparr>,
      \<lparr>tid_name = ''ns3::Node'', tid_parent = Some ''ns3::Object''\<rparr>]"

lemma fold_set_default:
  "fold (\<lambda>(a, v). set_default a v) kvs w = w\<lparr>w_defaults := w_defaults w ++ map_of (rev kvs)\<rparr>"
proof (induction kvs arbitrary: w)
  case Nil
  then show ?case by simp
next
  case (Cons kv kvs)
  obtain a b where kv: "kv = (a, b)" by fastforce
  have "fold (\<lambda>(a, v). set_default a v) (kv # kvs) w = fold (\<lambda>(a, v). set_default a v) kvs (set_default a b w)"
    by (simp add: kv)
  also have "\<dots> = (set_default a b w)\<lparr>w_defaults := w_defaults (set_default a b w) ++ map_of (rev kvs)\<rparr>"
    by (rule Cons.IH)
  also have "\<dots> = w\<lparr>w_defaults := w_defaults w ++ map_of (rev (kv # kvs))\<rparr>"
    by (simp add: kv set_default_def map_of_append map_add_assoc)
  finally show ?case .
qed

lemma ConfigureTcp_Some:
  "lookup_type reg (''ns3::'' @ tcp) = Some t \<Longrightarrow>
   ConfigureTcp reg tcp w = Inr (fold (\<lambda>(a, v). set_default a v) (tcp_defaults (tid_name t)) w)"
  unfolding ConfigureTcp_def tcp_defaults_def Let_def by simp

lemma lookup_type_name: "lookup_type reg n = Some t \<Longrightarrow> tid_name t = n"
  by (auto simp: lookup_type_def dest: find_Some_in)

lemma lookup_type_None: "lookup_type reg n = None \<longleftrightarrow> n \<notin> tid_name ` set reg"
  by (auto simp: lookup_type_def find_None_iff)

lemma ConfigureTcp_None: "lookup_type reg (''ns3::'' @ tcp) = None \<Longrightarrow> ConfigureTcp reg tcp w = Inl (UnknownTcpType tcp, w)"
  unfolding ConfigureTcp_def Let_def by (simp only: option.case)
text \<open>\<open>ConfigureTcp\<close> in closed form: abort on an unregistered name, else the five defaults.\<close>

lemma ConfigureTcp_eq:
  "ConfigureTcp reg tcp w =
     (if ''ns3::'' @ tcp \<in> tid_name ` set reg
      then Inr (w\<lparr>w_defaults := w_defaults w ++ map_of (rev (tcp_defaults (''ns3::'' @ tcp)))\<rparr>)
      else Inl (UnknownTcpType tcp, w))"
proof (cases "lookup_type reg (''ns3::'' @ tcp)")
  case None
  then have "''ns3::'' @ tcp \<notin> tid_name ` set reg" using lookup_type_None by blast
  moreover from None have "ConfigureTcp reg tcp w = Inl (UnknownTcpType tcp, w)" by (rule ConfigureTcp_None)
  ultimately show ?thesis by (simp only: if_False)
next
  case (Some t)
  then have name: "tid_name t = ''ns3::'' @ tcp" by (rule lookup_type_name)
  from Some have reg: "''ns3::'' @ tcp \<in> tid_name ` set reg"
    using lookup_type_name lookup_type_None by (metis option.distinct(1) image_iff)
  from Some have "ConfigureTcp reg tcp w = Inr (w\<lparr>w_defaults := w_defaults w ++ map_of (rev (tcp_defaults (''ns3::'' @ tcp)))\<rparr>)"
    by (simp only: ConfigureTcp_Some fold_set_default name)
  with reg show ?thesis by (simp only: if_True)
qed

text \<open>
  C18. \<open>ConfigureTcp\<close> succeeds exactly when \<open>"ns3::" + tcpType\<close> is a registered type;
  then it writes the five defaults of \<open>tcp_defaults\<close> (socket type the resolved name,
  4 MiB buffers, window scaling and timestamps on) and changes nothing else of the state.
\<close>

theorem ConfigureTcp_Inr:
  "ConfigureTcp reg tcp w = Inr w' \<longleftrightarrow>
     ''ns3::'' @ tcp \<in> tid_name ` set reg
     \<and> w' = w\<lparr>w_defaults := w_defaults w ++ map_of (rev (tcp_defaults (''ns3::'' @ tcp)))\<rparr>"
  by (simp only: ConfigureTcp_eq split: if_split) (simp only: sum.inject sum.distinct simp_thms; blast)

text \<open>
  C22. An unregistered variant name aborts with \<open>UnknownTcpType\<close> naming it, and the
  abort happens on the unchanged state: no default has been written.
\<close>

theorem ConfigureTcp_unknown:
  "''ns3::'' @ tcp \<notin> tid_name ` set reg \<Longrightarrow> ConfigureTcp reg tcp w = Inl (UnknownTcpType tcp, w)"
  by (simp only: ConfigureTcp_eq if_False)

theorem ConfigureTcp_unknown_witness:
  "ConfigureTcp sample_registry ''TcpBogus'' (world0 {} {}) = Inl (UnknownTcpType ''TcpBogus'', world0 {} {})"
proof -
  have "''ns3::'' @ ''TcpBogus'' \<notin> tid_name ` set sample_registry"
    by (simp add: sample_registry_def)
  then show ?thesis by (rule ConfigureTcp_unknown)
qed

end
