(* ===== verification/Scenarios.thy ===== *)
theory Scenarios
  imports Cellular TcpConfig
begin

text \<open>
  The Scenario Orchestrator: \<open>BuildScenarioS1\<close>, \<open>S2\<close>, \<open>S3\<close>, \<open>S5\<close>
  (\<open>src/ns3/tcp_compare.cc\<close> lines 166--438; S4 is in the cellular theory) compose
  topology, traffic, instrumentation and the run; \<open>main\<close> (lines 577--624) parses the
  options, seeds the random number generator, resolves the TCP variant, and dispatches on
  the scenario identifier, aborting on an unsupported one. Each builder takes the
  transport models' congestion-window changes as the input of its run.
\<close>

definition BuildScenarioS1 :: "runtime_options \<Rightarrow> cwnd_change list \<Rightarrow> world \<Rightarrow> world outcome" where
  "BuildScenarioS1 opts env w =
     rbind (S1_topology (queueSize opts) w) (\<lambda>(db, w1).
     let w2 = InstallBulkTransfers db 0.0 (simulationTime opts) w1
     in rbind (open_cwnd_trace opts (db_left db ! 0) w2) (\<lambda>(outputDir, w3).
        monitor_and_run opts env outputDir w3))"

definition BuildScenarioS2 :: "runtime_options \<Rightarrow> cwnd_change list \<Rightarrow> world \<Rightarrow> world outcome" where
  "BuildScenarioS2 opts env w =
     rbind (S2_topology (queueSize opts) w) (\<lambda>(t, w1).
     let w2 = S2_traffic t (simulationTime opts) w1
     in rbind (open_cwnd_trace opts (s2_left t ! 0) w2) (\<lambda>(outputDir, w3).
        monitor_and_run opts env outputDir w3))"

definition BuildScenarioS3 :: "runtime_options \<Rightarrow> cwnd_change list \<Rightarrow> world \<Rightarrow> world outcome" where
  "BuildScenarioS3 opts env w =
     rbind (S3_topology (queueSize opts) (lossRate opts) w) (\<lambda>(t, w1).
     let w2 = S3_traffic t (simulationTime opts) w1
     in rbind (open_cwnd_trace opts (s3_nodes t ! 0) w2) (\<lambda>(outputDir, w3).
        monitor_and_run opts env outputDir w3))"

definition BuildScenarioS5 :: "runtime_options \<Rightarrow> cwnd_change list \<Rightarrow> world \<Rightarrow> world outcome" where
  "BuildScenarioS5 opts env w =
     rbind (S5_topology (queueSize opts) w) (\<lambda>(db, w1).
     let w2 = InstallBulkTransfers db 0.0 (simulationTime opts) w1
     in rbind (open_cwnd_trace opts (db_left db ! 0) w2) (\<lambda>(outputDir, w3).
        monitor_and_run opts env outputDir w3))"

text \<open>\<open>RngSeedManager::SetSeed (1); RngSeedManager::SetRun (opts.seed)\<close>.\<close>

definition set_rng :: "runtime_options \<Rightarrow> world \<Rightarrow> world" where
  "set_rng opts w = w\<lparr>w_rng := (1, unat (seed opts))\<rparr>"

definition dispatch :: "runtime_options \<Rightarrow> cwnd_change list \<Rightarrow> world \<Rightarrow> world outcome" where
  "dispatch opts env w =
     (if scenario opts = ''S1'' then BuildScenarioS1 opts env w
      else if scenario opts = ''S2'' then BuildScenarioS2 opts env w
      else if scenario opts = ''S3'' then BuildScenarioS3 opts env w
      else if scenario opts = ''S4'' then BuildScenarioS4 opts env w
      else if scenario opts = ''S5'' then BuildScenarioS5 opts env w
      else Inl (UnsupportedScenario (scenario opts), w))"

definition main :: "cli_arg list \<Rightarrow> type_id list \<Rightarrow> cwnd_change list \<Rightarrow> world \<Rightarrow> world outcome" where
  "main args reg env w =
     (let opts = parse_cli args
      in rbind (ConfigureTcp reg (tcpType opts) (set_rng opts w)) (dispatch opts env))"

end
