(* ===== verification/Dumbbell.thy ===== *)
theory Dumbbell
  imports Topology
begin

text \<open>
  The dumbbell helper for any number of leaves per side, as S1 (two) and S5 (eight)
  use it: the devices, channels, stacks and addresses it produces from a state without
  topology, and the bound on the number of leaves for which the composer's address plan
  (\<open>AssignIpv4Addresses\<close>, lines 110--117) does not collide; and S5's topology in
  closed form, with its shape, link classes and missing routes.
\<close>

section \<open>Definitions\<close>

text \<open>The symmetric dumbbell of S1 and S5 with \<open>n\<close> leaves per side (lines 178--180, 412--414).\<close>

definition dumbbell_topology :: "nat \<Rightarrow> p2p_helper \<Rightarrow> p2p_helper \<Rightarrow> world \<Rightarrow> (dumbbell \<times> world) outcome" where
  "dumbbell_topology n access bottleneck w =
     (let (db, w1) = dumbbell_create n access n access bottleneck w
      in rbind (InstallStacks db w1) (AssignIpv4Addresses db))"

definition leaf_devs :: "p2p_helper \<Rightarrow> node_id \<Rightarrow> node_id list \<Rightarrow> device list" where
  "leaf_devs h r ls = concat (map (\<lambda>l. [p2p_dev r (p2p_rate h) (p2p_queue h), p2p_dev l (p2p_rate h) (p2p_queue h)]) ls)"

definition leaf_chans :: "p2p_helper \<Rightarrow> nat \<Rightarrow> nat \<Rightarrow> channel list" where
  "leaf_chans h d n = map (\<lambda>k. \<lparr>ch_delay = p2p_delay h, ch_ends = (d + 2 * k, Suc (d + 2 * k))\<rparr>) [0..<n]"

text \<open>
  What \<open>assign_leaves\<close> hands out when nothing collides: the address list, the
  interfaces, and the leaf addresses it returns; the helper moves to the next network
  after each leaf.
\<close>

fun leaves_plan :: "addr_helper \<Rightarrow> nat list \<Rightarrow> nat list \<Rightarrow> ipv4addr list" where
  "leaves_plan h (ld # lds) (rd # rds) = assign_plan h 2 @ leaves_plan (NewNetwork h) lds rds"
| "leaves_plan h _ _ = []"

fun leaves_ifaces :: "addr_helper \<Rightarrow> nat list \<Rightarrow> nat list \<Rightarrow> (nat \<times> ipv4addr \<times> ipv4addr) list" where
  "leaves_ifaces h (ld # lds) (rd # rds) =
     map2 (\<lambda>d a. (d, a, ah_mask h)) [ld, rd] (assign_plan h 2) @ leaves_ifaces (NewNetwork h) lds rds"
| "leaves_ifaces h _ _ = []"

fun leaves_addrs :: "addr_helper \<Rightarrow> nat list \<Rightarrow> nat list \<Rightarrow> ipv4addr list" where
  "leaves_addrs h (ld # lds) (rd # rds) = helper_addr h # leaves_addrs (NewNetwork h) lds rds"
| "leaves_addrs h _ _ = []"

text \<open>A helper that hands out at least two host numbers per network, starting afresh.\<close>

definition two_hosts :: "addr_helper \<Rightarrow> bool" where
  "two_hosts h \<longleftrightarrow> ah_address h = ah_base h \<and> ah_base h \<le> ah_max h \<and> ah_base h + 1 \<le> ah_max h"

text \<open>The two host addresses 1 and 2 of the /24 network with number \<open>N\<close>.\<close>

definition pair24 :: "ipv4addr \<Rightarrow> ipv4addr list" where
  "pair24 N = [push_bit 8 N OR 1, push_bit 8 N OR 2]"

text \<open>The position of a network number inside the 24 bits a /24 address keeps of it.\<close>

definition net_key :: "ipv4addr \<Rightarrow> nat" where
  "net_key N = unat N mod 2 ^ 24"

text \<open>
  The state S5's builder leaves, written out from the construction order: 18 nodes, the
  bottleneck devices, then per leaf the router-side and the leaf device, one channel per
  link, and the interfaces in assignment order (routers in 10.3.1.0/24, left leaf \<open>k\<close> in
  10.1.(k+1).0/24, right leaf \<open>k\<close> in 10.2.(k+1).0/24, leaf device first).
\<close>

definition S5_ifaces :: "(nat \<times> ipv4addr \<times> ipv4addr) list" where
  "S5_ifaces = [(0, ip4 10 3 1 1, mask24), (1, ip4 10 3 1 2, mask24)]
     @ concat (map (\<lambda>k. [(3 + 2 * k, ip4 10 1 (Suc k) 1, mask24), (2 + 2 * k, ip4 10 1 (Suc k) 2, mask24)]) [0..<8])
     @ concat (map (\<lambda>k. [(19 + 2 * k, ip4 10 2 (Suc k) 1, mask24), (18 + 2 * k, ip4 10 2 (Suc k) 2, mask24)]) [0..<8])"

definition S5_handles :: dumbbell where
  "S5_handles = \<lparr>db_routers = [0, 1], db_left = [2..<10], db_right = [10..<18], db_router_devs = [0, 1],
     db_left_router_devs = map (\<lambda>k. 2 + 2 * k) [0..<8], db_left_leaf_devs = map (\<lambda>k. 3 + 2 * k) [0..<8],
     db_right_router_devs = map (\<lambda>k. 18 + 2 * k) [0..<8], db_right_leaf_devs = map (\<lambda>k. 19 + 2 * k) [0..<8],
     db_router_ifs = [ip4 10 3 1 1, ip4 10 3 1 2], db_left_leaf_ifs = map (\<lambda>k. ip4 10 1 (Suc k) 1) [0..<8],
     db_right_leaf_ifs = map (\<lambda>k. ip4 10 2 (Suc k) 1) [0..<8]\<rparr>"

definition S5_state :: "string \<Rightarrow> world \<Rightarrow> world" where
  "S5_state q w = w\<lparr>w_nodes := 18, w_stack := [0..<18],
     w_devs := [p2p_dev 0 ''100Mbps'' (Some q), p2p_dev 1 ''100Mbps'' (Some q)]
               @ leaf_devs (p2p ''100Mbps'' ''2ms'') 0 [2..<10] @ leaf_devs (p2p ''100Mbps'' ''2ms'') 1 [10..<18],
     w_chans := [\<lparr>ch_delay = ''20ms'', ch_ends = (0, 1)\<rparr>] @ leaf_chans (p2p ''100Mbps'' ''2ms'') 2 8
               @ leaf_chans (p2p ''100Mbps'' ''2ms'') 18 8,
     w_ifaces := S5_ifaces, w_alloc := map (\<lambda>(_, a, _). a) S5_ifaces\<rparr>"

section \<open>Construction\<close>

lemma install_leaves_eq:
  "install_leaves h r ls w =
     ((map (\<lambda>k. length (w_devs w) + 2 * k) [0..<length ls], map (\<lambda>k. Suc (length (w_devs w) + 2 * k)) [0..<length ls]),
      w\<lparr>w_devs := w_devs w @ leaf_devs h r ls, w_chans := w_chans w @ leaf_chans h (length (w_devs w)) (length ls)\<rparr>)"
proof (induction ls arbitrary: w)
  case Nil
  show ?case by (simp add: leaf_devs_def leaf_chans_def)
next
  case (Cons l ls)
  show ?case
    by (simp add: Cons.IH p2p_install_def Let_def leaf_devs_def leaf_chans_def map_upt_Suc del: upt_Suc)
qed


lemma dumbbell_create_fresh:
  assumes "no_topology w"
  shows "dumbbell_create n a n a b w =
    (\<lparr>db_routers = [0, 1], db_left = [2..<2 + n], db_right = [2 + n..<2 + 2 * n], db_router_devs = [0, 1],
      db_left_router_devs = map (\<lambda>k. 2 + 2 * k) [0..<n], db_left_leaf_devs = map (\<lambda>k. 3 + 2 * k) [0..<n],
      db_right_router_devs = map (\<lambda>k. 2 + 2 * n + 2 * k) [0..<n],
      db_right_leaf_devs = map (\<lambda>k. 3 + 2 * n + 2 * k) [0..<n],
      db_router_ifs = [], db_left_leaf_ifs = [], db_right_leaf_ifs = []\<rparr>,
     w\<lparr>w_nodes := 2 + 2 * n,
       w_devs := [p2p_dev 0 (p2p_rate b) (p2p_queue b), p2p_dev 1 (p2p_rate b) (p2p_queue b)]
                 @ leaf_devs a 0 [2..<2 + n] @ leaf_devs a 1 [2 + n..<2 + 2 * n],
       w_chans := [\<lparr>ch_delay = p2p_delay b, ch_ends = (0, 1)\<rparr>] @ leaf_chans a 2 n @ leaf_chans a (2 + 2 * n) n\<rparr>)"
proof -
  have len: "length (leaf_devs a r ls) = 2 * length ls" for r ls
    by (induction ls) (simp_all add: leaf_devs_def)
  have upt2: "[0..<2] = [0, 1 :: nat]"
    by (simp add: upt_rec)
  show ?thesis
    using assms apply (simp add: no_topology_def dumbbell_create_def Let_def create_nodes_def upt2
         p2p_install_def install_leaves_eq len del: upt_Suc)
    apply (simp only: mult_2)
    apply (simp only: numeral_2_eq_2)
    apply simp
    done
qed


lemma InstallStacks_fresh:
  assumes "w_stack w = []"
    and "db_routers db = [0, 1]" "db_left db = [2..<2 + n]" "db_right db = [2 + n..<2 + 2 * n]"
  shows "InstallStacks db w = Inr (w\<lparr>w_stack := [0, 1] @ [2..<2 + n] @ [2 + n..<2 + 2 * n]\<rparr>)"
proof -
  have r: "install_stack [0, 1] w = Inr (w\<lparr>w_stack := [0, 1]\<rparr>)"
    using assms by (simp only: install_stack_Inr_iff) simp
  have l: "install_stack [2..<2 + n] (w\<lparr>w_stack := [0, 1]\<rparr>) = Inr (w\<lparr>w_stack := [0, 1] @ [2..<2 + n]\<rparr>)"
    by (simp only: install_stack_Inr_iff) auto
  have "install_stack [2 + n..<2 + 2 * n] (w\<lparr>w_stack := [0, 1] @ [2..<2 + n]\<rparr>)
          = Inr (w\<lparr>w_stack := [0, 1] @ [2..<2 + n] @ [2 + n..<2 + 2 * n]\<rparr>)"
    by (simp only: install_stack_Inr_iff) auto
  with r l assms(2-4) show ?thesis
    by (simp add: InstallStacks_def dumbbell_install_stack_def)
qed

lemma NewNetwork_address [simp]: "NewNetwork (h\<lparr>ah_address := a\<rparr>) = NewNetwork h"
  by (simp add: NewNetwork_def)

lemma two_hosts_NewNetwork [simp]: "two_hosts h \<Longrightarrow> two_hosts (NewNetwork h)"
  by (simp add: two_hosts_def NewNetwork_def)

lemma two_hosts_room: "two_hosts h \<Longrightarrow> \<forall>k < length [ld, rd]. ah_address h + of_nat k \<le> ah_max h"
  by (auto simp: two_hosts_def less_Suc_eq)

lemma assign_leaves_fresh:
  assumes "length lds = length rds"
    and "\<forall>d \<in> set lds \<union> set rds. dev_node (w_devs w ! d) \<in> set (w_stack w)"
    and "two_hosts h"
    and "fresh_for (w_alloc w) (leaves_plan h lds rds)"
  shows "assign_leaves h lds rds w =
           Inr (leaves_addrs h lds rds,
                w\<lparr>w_ifaces := w_ifaces w @ leaves_ifaces h lds rds, w_alloc := w_alloc w @ leaves_plan h lds rds\<rparr>)"
  using assms
proof (induction lds arbitrary: rds h w)
  case Nil
  then show ?case by simp
next
  case (Cons ld lds)
  then obtain rd rds' where rds: "rds = rd # rds'" by (cases rds) auto
  let ?w' = "w\<lparr>w_ifaces := w_ifaces w @ map2 (\<lambda>d a. (d, a, ah_mask h)) [ld, rd] (assign_plan h 2),
                w_alloc := w_alloc w @ assign_plan h 2\<rparr>"
  have f: "fresh_for (w_alloc w) (assign_plan h 2)"
    and f': "fresh_for (w_alloc w @ assign_plan h 2) (leaves_plan (NewNetwork h) lds rds')"
    using Cons.prems(4) by (simp_all add: rds fresh_for_append)
  have "Assign h [ld, rd] w = Inr (assign_result h [ld, rd] w)"
    using Cons.prems(2) two_hosts_room [OF Cons.prems(3)] f by (intro Assign_fresh) (simp_all add: rds numeral_2_eq_2)
  then have A: "Assign h [ld, rd] w = Inr (assign_plan h 2, h\<lparr>ah_address := ah_address h + 2\<rparr>, ?w')"
    by (simp add: assign_result_def numeral_2_eq_2 del: Assign.simps)
  have "assign_leaves (NewNetwork h) lds rds' ?w' =
           Inr (leaves_addrs (NewNetwork h) lds rds',
                ?w'\<lparr>w_ifaces := w_ifaces ?w' @ leaves_ifaces (NewNetwork h) lds rds',
                     w_alloc := w_alloc ?w' @ leaves_plan (NewNetwork h) lds rds'\<rparr>)"
    using Cons.prems(1,2,3) f' by (intro Cons.IH) (simp_all add: rds)
  with A show ?case
    by (simp add: rds assign_plan_def)
qed

lemma assign_leaves_clash:
  assumes "length lds = length rds"
    and "\<forall>d \<in> set lds \<union> set rds. dev_node (w_devs w ! d) \<in> set (w_stack w)"
    and "two_hosts h"
    and "\<not> fresh_for (w_alloc w) (leaves_plan h lds rds)"
  shows "\<exists>e. assign_leaves h lds rds w = Inl e"
  using assms
proof (induction lds arbitrary: rds h w)
  case Nil
  then show ?case by simp
next
  case (Cons ld lds)
  then obtain rd rds' where rds: "rds = rd # rds'" by (cases rds) auto
  let ?w' = "w\<lparr>w_ifaces := w_ifaces w @ map2 (\<lambda>d a. (d, a, ah_mask h)) [ld, rd] (assign_plan h 2),
                w_alloc := w_alloc w @ assign_plan h 2\<rparr>"
  have stacks: "\<forall>d\<in>set [ld, rd]. dev_node (w_devs w ! d) \<in> set (w_stack w)"
    using Cons.prems(2) by (simp add: rds)
  show ?case
  proof (cases "fresh_for (w_alloc w) (assign_plan h 2)")
    case False
    then have "\<exists>e. Assign h [ld, rd] w = Inl e"
      using stacks two_hosts_room [OF Cons.prems(3)] by (intro Assign_clash) (simp_all add: numeral_2_eq_2)
    then show ?thesis by (auto simp: rds)
  next
    case True
    then have "Assign h [ld, rd] w = Inr (assign_result h [ld, rd] w)"
      using stacks two_hosts_room [OF Cons.prems(3)] by (intro Assign_fresh) (simp_all add: numeral_2_eq_2)
    then have A: "Assign h [ld, rd] w = Inr (assign_plan h 2, h\<lparr>ah_address := ah_address h + 2\<rparr>, ?w')"
      by (simp add: assign_result_def numeral_2_eq_2 del: Assign.simps)
    from True Cons.prems(4) have "\<not> fresh_for (w_alloc ?w') (leaves_plan (NewNetwork h) lds rds')"
      by (simp add: rds fresh_for_append)
    then have "\<exists>e. assign_leaves (NewNetwork h) lds rds' ?w' = Inl e"
      using Cons.prems(1,2,3) by (intro Cons.IH) (simp_all add: rds)
    with A show ?thesis by (auto simp: rds)
  qed
qed


lemma dumbbell_assign_fresh:
  assumes "length (db_router_devs db) = 2"
    and "length (db_left_leaf_devs db) = length (db_left_router_devs db)"
    and "length (db_right_leaf_devs db) = length (db_right_router_devs db)"
    and "\<forall>d \<in> set (db_router_devs db) \<union> set (db_left_leaf_devs db) \<union> set (db_left_router_devs db)
            \<union> set (db_right_leaf_devs db) \<union> set (db_right_router_devs db). dev_node (w_devs w ! d) \<in> set (w_stack w)"
    and "two_hosts L" "two_hosts R" "two_hosts T"
  shows "(\<exists>r. dumbbell_assign db L R T w = Inr r) \<longleftrightarrow>
           fresh_for (w_alloc w) (assign_plan T 2 @ leaves_plan L (db_left_leaf_devs db) (db_left_router_devs db)
                                  @ leaves_plan R (db_right_leaf_devs db) (db_right_router_devs db))"
proof -
  let ?P = "assign_plan T 2" and ?PL = "leaves_plan L (db_left_leaf_devs db) (db_left_router_devs db)"
    and ?PR = "leaves_plan R (db_right_leaf_devs db) (db_right_router_devs db)"
  have roomT: "\<forall>k < length (db_router_devs db). ah_address T + of_nat k \<le> ah_max T"
    using assms(1,7) by (auto simp: two_hosts_def less_Suc_eq numeral_2_eq_2)
  have stT: "\<forall>d \<in> set (db_router_devs db). dev_node (w_devs w ! d) \<in> set (w_stack w)"
    using assms(4) by blast
  show ?thesis
  proof (cases "fresh_for (w_alloc w) ?P")
    case False
    then have "\<exists>e. Assign T (db_router_devs db) w = Inl e"
      using stT roomT assms(1) by (intro Assign_clash) simp_all
    then show ?thesis using False by (auto simp: dumbbell_assign_def fresh_for_append)
  next
    case fT: True
    let ?w1 = "snd (snd (assign_result T (db_router_devs db) w))"
    have A: "Assign T (db_router_devs db) w = Inr (assign_result T (db_router_devs db) w)"
      using stT roomT assms(1) fT by (intro Assign_fresh) simp_all
    have w1: "w_alloc ?w1 = w_alloc w @ ?P" "w_stack ?w1 = w_stack w" "w_devs ?w1 = w_devs w"
      using assms(1) by (simp_all add: assign_result_def)
    have stL: "\<forall>d \<in> set (db_left_leaf_devs db) \<union> set (db_left_router_devs db). dev_node (w_devs ?w1 ! d) \<in> set (w_stack ?w1)"
      using assms(4) unfolding w1(2,3) by blast
    show ?thesis
    proof (cases "fresh_for (w_alloc ?w1) ?PL")
      case False
      then have "\<exists>e. assign_leaves L (db_left_leaf_devs db) (db_left_router_devs db) ?w1 = Inl e"
        using stL assms(2,5) by (intro assign_leaves_clash) simp_all
      then show ?thesis using A False w1
        by (auto simp: dumbbell_assign_def fresh_for_append assign_result_def split: prod.splits)
    next
      case fL: True
      let ?w2 = "?w1\<lparr>w_ifaces := w_ifaces ?w1 @ leaves_ifaces L (db_left_leaf_devs db) (db_left_router_devs db),
                     w_alloc := w_alloc ?w1 @ ?PL\<rparr>"
      have L: "assign_leaves L (db_left_leaf_devs db) (db_left_router_devs db) ?w1
                 = Inr (leaves_addrs L (db_left_leaf_devs db) (db_left_router_devs db), ?w2)"
        using stL assms(2,5) fL by (intro assign_leaves_fresh) simp_all
      have stR: "\<forall>d \<in> set (db_right_leaf_devs db) \<union> set (db_right_router_devs db). dev_node (w_devs ?w2 ! d) \<in> set (w_stack ?w2)"
        using assms(4) by (simp add: w1(2,3))
      show ?thesis
      proof (cases "fresh_for (w_alloc ?w2) ?PR")
        case False
        then have "\<exists>e. assign_leaves R (db_right_leaf_devs db) (db_right_router_devs db) ?w2 = Inl e"
          using stR assms(3,6) by (intro assign_leaves_clash) simp_all
        then show ?thesis using A L False w1 fT fL
          by (auto simp: dumbbell_assign_def fresh_for_append assign_result_def split: prod.splits)
      next
        case fR: True
        then have "assign_leaves R (db_right_leaf_devs db) (db_right_router_devs db) ?w2
            = Inr (leaves_addrs R (db_right_leaf_devs db) (db_right_router_devs db),
                   ?w2\<lparr>w_ifaces := w_ifaces ?w2 @ leaves_ifaces R (db_right_leaf_devs db) (db_right_router_devs db),
                        w_alloc := w_alloc ?w2 @ ?PR\<rparr>)"
          using stR assms(3,6) by (intro assign_leaves_fresh) simp_all
        then show ?thesis using A L fR w1 fT fL
          by (auto simp: dumbbell_assign_def fresh_for_append assign_result_def split: prod.splits)
      qed
    qed
  qed
qed


section \<open>The address plan of the dumbbell\<close>

lemma assign_plan_pair24:
  assumes "ah_shift h = 8" and "ah_address h = 1"
  shows "assign_plan h 2 = pair24 (ah_network h)"
  using assms by (simp add: assign_plan_def pair24_def helper_addr_def upt_rec)

lemma leaves_plan_pair24:
  assumes "ah_shift h = 8" "ah_address h = 1" "ah_base h = 1" and "length lds = length rds"
  shows "leaves_plan h lds rds = concat (map (\<lambda>i. pair24 (ah_network h + of_nat i)) [0..<length lds])"
  using assms
proof (induction lds arbitrary: rds h)
  case Nil
  then show ?case by simp
next
  case (Cons ld lds)
  then obtain rd rds' where rds: "rds = rd # rds'" by (cases rds) auto
  have "leaves_plan (NewNetwork h) lds rds' = concat (map (\<lambda>i. pair24 (ah_network h + 1 + of_nat i)) [0..<length lds])"
    using Cons.prems by (subst Cons.IH) (simp_all add: rds NewNetwork_def)
  then show ?case
    using Cons.prems by (simp add: rds assign_plan_pair24 map_upt_Suc ac_simps del: upt_Suc)
qed

lemma unat_pair24: "map unat (pair24 N) = [256 * net_key N + 1, 256 * net_key N + 2]"
  by (simp add: pair24_def net_key_def unat_push_bit_or_low)

lemma host_neq [simp]: "256 * a \<noteq> Suc (256 * k :: nat)" "Suc (256 * a) \<noteq> 256 * (k :: nat)"
  by presburger+

lemma distinct_host_pairs:
  "distinct (concat (map (\<lambda>k. [256 * k + 1, 256 * k + (2::nat)]) ks)) \<longleftrightarrow> distinct ks"
  by (induction ks) auto

lemma distinct_pair24: "distinct (concat (map pair24 Ns)) \<longleftrightarrow> distinct (map net_key Ns)"
proof -
  have "distinct (concat (map pair24 Ns)) \<longleftrightarrow> distinct (map unat (concat (map pair24 Ns)))"
    by (simp add: distinct_map inj_on_def word_unat_eq_iff)
  also have "map unat (concat (map pair24 Ns)) = concat (map (\<lambda>k. [256 * k + 1, 256 * k + 2]) (map net_key Ns))"
    by (induction Ns) (simp_all add: unat_pair24)
  finally show ?thesis by (simp only: distinct_host_pairs)
qed

lemma net_key_add: "net_key (N + of_nat i) = (unat N + i) mod 2 ^ 24"
proof -
  have dvd: "(2::nat) ^ 24 dvd 2 ^ 32"
    by (rule le_imp_power_dvd) simp
  have "unat (N + of_nat i) = (unat N + i mod 2 ^ 32) mod 2 ^ 32"
    by (simp only: unat_word_ariths(1) unat_of_nat len_of_numeral_defs) simp
  then have "unat (N + of_nat i) mod 2 ^ 24 = (unat N + i mod 2 ^ 32) mod 2 ^ 24"
    by (simp only: mod_mod_cancel [OF dvd])
  also have "\<dots> = (unat N + i mod 2 ^ 32 mod 2 ^ 24) mod 2 ^ 24"
    by (rule mod_add_right_eq [symmetric])
  also have "\<dots> = (unat N + i) mod 2 ^ 24"
    by (simp only: mod_mod_cancel [OF dvd] mod_add_right_eq)
  finally show ?thesis by (simp only: net_key_def)
qed

lemma dumbbell_keys_distinct:
  "distinct (656129 # map (\<lambda>i. (655617 + i) mod 2 ^ 24) [0..<n] @ map (\<lambda>i. (655873 + i) mod 2 ^ 24) [0..<n])
   \<longleftrightarrow> n \<le> (256::nat)"
proof
  assume d: "distinct (656129 # map (\<lambda>i. (655617 + i) mod 2 ^ 24) [0..<n] @ map (\<lambda>i. (655873 + i) mod 2 ^ 24) [0..<n])"
  show "n \<le> 256"
  proof (rule ccontr)
    assume "\<not> n \<le> 256"
    then have "(655873::nat) \<in> set (map (\<lambda>i. (655617 + i) mod 2 ^ 24) [0..<n])"
      and "(655873::nat) \<in> set (map (\<lambda>i. (655873 + i) mod 2 ^ 24) [0..<n])"
      by (auto simp: image_iff intro: bexI [of _ 256] bexI [of _ 0])
    with d show False by auto
  qed
next
  assume n: "n \<le> 256"
  have "map (\<lambda>i. (655617 + i) mod 2 ^ 24) [0..<n] = map (\<lambda>i. i + 655617) [0..<n]"
    and "map (\<lambda>i. (655873 + i) mod 2 ^ 24) [0..<n] = map (\<lambda>i. i + 655873) [0..<n]"
    using n by (auto intro!: map_cong)
  with n show "distinct (656129 # map (\<lambda>i. (655617 + i) mod 2 ^ 24) [0..<n] @ map (\<lambda>i. (655873 + i) mod 2 ^ 24) [0..<n])"
    by (simp add: map_add_upt)
qed


section \<open>The composer's dumbbell\<close>

lemma leaf_devs_nodes: "\<forall>x \<in> set (leaf_devs h r ls). dev_node x \<in> insert r (set ls)"
  by (induction ls) (auto simp: leaf_devs_def p2p_dev_def)

lemma length_leaf_devs [simp]: "length (leaf_devs h r ls) = 2 * length ls"
  by (induction ls) (simp_all add: leaf_devs_def)

lemma dumbbell_helpers:
  "addr_helper_of (ip4 10 1 1 0) mask24 = \<lparr>ah_network = 655617, ah_mask = mask24, ah_address = 1, ah_base = 1, ah_shift = 8, ah_max = 254\<rparr>"
  "addr_helper_of (ip4 10 2 1 0) mask24 = \<lparr>ah_network = 655873, ah_mask = mask24, ah_address = 1, ah_base = 1, ah_shift = 8, ah_max = 254\<rparr>"
  "addr_helper_of (ip4 10 3 1 0) mask24 = \<lparr>ah_network = 656129, ah_mask = mask24, ah_address = 1, ah_base = 1, ah_shift = 8, ah_max = 254\<rparr>"
  by (simp_all add: addr_helper_of_def SetBase_def Let_def ip4_def)

lemma two_hosts_24: "two_hosts \<lparr>ah_network = N, ah_mask = mask24, ah_address = 1, ah_base = 1, ah_shift = 8, ah_max = 254\<rparr>"
  by (simp add: two_hosts_def)

lemma dumbbell_plan_distinct:
  "distinct (pair24 656129 @ concat (map (\<lambda>i. pair24 (655617 + of_nat i)) [0..<n])
             @ concat (map (\<lambda>i. pair24 (655873 + of_nat i)) [0..<n])) \<longleftrightarrow> n \<le> 256"
proof -
  have "pair24 656129 @ concat (map (\<lambda>i. pair24 (655617 + of_nat i)) [0..<n])
          @ concat (map (\<lambda>i. pair24 (655873 + of_nat i)) [0..<n])
        = concat (map pair24 (656129 # map (\<lambda>i. 655617 + of_nat i) [0..<n] @ map (\<lambda>i. 655873 + of_nat i) [0..<n]))"
    by (simp add: comp_def)
  moreover have "map net_key (656129 # map (\<lambda>i. 655617 + of_nat i) [0..<n] @ map (\<lambda>i. 655873 + of_nat i) [0..<n])
        = 656129 # map (\<lambda>i. (655617 + i) mod 2 ^ 24) [0..<n] @ map (\<lambda>i. (655873 + i) mod 2 ^ 24) [0..<n]"
    by (simp add: net_key_add net_key_def [of 656129])
  ultimately show ?thesis
    by (simp only: distinct_pair24 dumbbell_keys_distinct)
qed

lemma dumbbell_topology_fresh:
  assumes "no_topology w"
  shows "(\<exists>r. dumbbell_topology n a b w = Inr r) \<longleftrightarrow>
           distinct (pair24 656129 @ concat (map (\<lambda>i. pair24 (655617 + of_nat i)) [0..<n])
                     @ concat (map (\<lambda>i. pair24 (655873 + of_nat i)) [0..<n]))"
proof -
  obtain db w1 where c: "dumbbell_create n a n a b w = (db, w1)" by fastforce
  note dc = dumbbell_create_fresh [OF assms, of n a b, unfolded c]
  let ?w2 = "w1\<lparr>w_stack := [0, 1] @ [2..<2 + n] @ [2 + n..<2 + 2 * n]\<rparr>"
  have S: "InstallStacks db w1 = Inr ?w2"
    using dc assms by (intro InstallStacks_fresh) (simp_all add: no_topology_def)
  have nodes: "\<forall>x \<in> set (w_devs ?w2). dev_node x < 2 + 2 * n"
    using dc leaf_devs_nodes [of a 0 "[2..<2 + n]"] leaf_devs_nodes [of a 1 "[2 + n..<2 + 2 * n]"]
    by (fastforce simp: p2p_dev_def)
  have "\<forall>d \<in> set (db_router_devs db) \<union> set (db_left_leaf_devs db) \<union> set (db_left_router_devs db)
          \<union> set (db_right_leaf_devs db) \<union> set (db_right_router_devs db). d < length (w_devs ?w2)"
    using dc by auto
  then have st: "\<forall>d \<in> set (db_router_devs db) \<union> set (db_left_leaf_devs db) \<union> set (db_left_router_devs db)
          \<union> set (db_right_leaf_devs db) \<union> set (db_right_router_devs db). dev_node (w_devs ?w2 ! d) \<in> set (w_stack ?w2)"
    using nodes by (auto simp del: upt_Suc)
  let ?h = "\<lambda>N. \<lparr>ah_network = N, ah_mask = mask24, ah_address = 1, ah_base = 1, ah_shift = 8, ah_max = 254\<rparr>"
  let ?L = "?h 655617" and ?R = "?h 655873" and ?T = "?h 656129"
  have A: "dumbbell_topology n a b w = dumbbell_assign db ?L ?R ?T ?w2"
    by (simp only: dumbbell_topology_def c S AssignIpv4Addresses_def dumbbell_helpers Let_def prod.case rbind_Inr)
  have "(\<exists>r. dumbbell_assign db ?L ?R ?T ?w2 = Inr r) \<longleftrightarrow>
          fresh_for (w_alloc ?w2) (assign_plan ?T 2 @ leaves_plan ?L (db_left_leaf_devs db) (db_left_router_devs db)
                                   @ leaves_plan ?R (db_right_leaf_devs db) (db_right_router_devs db))"
    using dc st by (intro dumbbell_assign_fresh) (simp_all only: two_hosts_24, simp_all)
  moreover have "w_alloc ?w2 = []"
    using dc assms by (simp add: no_topology_def)
  moreover have "assign_plan ?T 2 = pair24 656129"
    by (simp add: assign_plan_pair24)
  moreover have "leaves_plan ?L (db_left_leaf_devs db) (db_left_router_devs db)
                   = concat (map (\<lambda>i. pair24 (655617 + of_nat i)) [0..<n])"
    using dc by (simp add: leaves_plan_pair24)
  moreover have "leaves_plan ?R (db_right_leaf_devs db) (db_right_router_devs db)
                   = concat (map (\<lambda>i. pair24 (655873 + of_nat i)) [0..<n])"
    using dc by (simp add: leaves_plan_pair24)
  ultimately show ?thesis
    using A by (simp add: fresh_for_def)
qed


lemma S5_topology_dumbbell:
  "S5_topology q w = dumbbell_topology 8 (p2p ''100Mbps'' ''2ms'') (bottleneck_helper ''100Mbps'' ''20ms'' q) w"
  by (simp add: S5_topology_def dumbbell_topology_def Let_def)

text \<open>
  C15. The dumbbell of S1 and S5 with \<open>n\<close> leaves per side (\<open>nFlows\<close> in S5): from a
  state without topology, the composer's address plan succeeds exactly when
  \<open>n \<le> 256\<close>. With 257 leaves the left leaf networks, counted up from 10.1.1.0/24,
  reach 10.2.1.0/24, the first right leaf network, and the address generator aborts with a
  collision.
\<close>

theorem dumbbell_topology_bound:
  assumes "no_topology w"
  shows "(\<exists>r. dumbbell_topology n access bottleneck w = Inr r) \<longleftrightarrow> n \<le> 256"
  using dumbbell_topology_fresh [OF assms] dumbbell_plan_distinct by simp

theorem dumbbell_topology_bound_witness:
  "\<not> (\<exists>r. dumbbell_topology 257 (p2p ''100Mbps'' ''2ms'') (bottleneck_helper ''100Mbps'' ''20ms'' ''150p'') (world0 {} {}) = Inr r)
   \<and> (\<exists>r. dumbbell_topology 256 (p2p ''100Mbps'' ''2ms'') (bottleneck_helper ''100Mbps'' ''20ms'' ''150p'') (world0 {} {}) = Inr r)"
  using dumbbell_topology_bound [OF no_topology_world0, of 257] dumbbell_topology_bound [OF no_topology_world0, of 256]
  by simp

lemma S5_result:
  assumes "no_topology w"
  shows "S5_topology q w = Inr (S5_handles, S5_state q w)"
proof -
  have "S5_topology q (fresh_world w) = Inr (S5_handles, S5_state q (fresh_world w))"
    by (simp add: S5_topology_def builder_simps p2p_dev_def fresh_world_def S5_handles_def S5_state_def S5_ifaces_def
                  leaf_devs_def leaf_chans_def p2p_def)
  with assms show ?thesis by simp
qed

lemma upt_0_8: "[0..<8] = [0, 1, 2, 3, 4, 5, 6, 7 :: nat]"
  by (simp add: upt_rec)

lemma S5_state_links: "map ch_delay (w_chans (S5_state q w)) = ''20ms'' # replicate 16 ''2ms''"
  by (simp add: S5_state_def leaf_chans_def p2p_def numeral_eq_Suc)

lemma S5_state_rates: "map dev_rate (w_devs (S5_state q w)) = replicate 34 ''100Mbps''"
  by (simp add: S5_state_def leaf_devs_def p2p_def p2p_default_def p2p_dev_def numeral_eq_Suc)

lemma S5_state_shape: "is_tree (S5_state q w) \<and> stacks_once (S5_state q w)"
  by (simp add: S5_state_def tree_simps p2p_dev_def leaf_devs_def leaf_chans_def)

lemma S5_state_segments: "segments_ok (S5_state q w)"
  by (simp add: S5_state_def S5_ifaces_def segment_simps leaf_chans_def upt_0_8)

lemma S5_state_unroutable:
  assumes "\<not> w_global_routes w" and "w_routes w = []"
  shows "\<not> routable (S5_state q w) 2 (ip4 10 2 1 1)"
  using assms by (simp add: S5_state_def S5_ifaces_def routable_def on_link_def p2p_dev_def leaf_devs_def p2p_def p2p_default_def ip4_def mask24_def upt_0_8)

text \<open>
  C17. S5, the wide dumbbell: from a state without topology its builder succeeds with 18
  nodes whose links form a tree, one network per link and one stack per node. Its
  bottleneck runs at 100Mbps with 20 ms and its access links at 100Mbps with 2 ms, not
  the link classes of S1 (20Mbps and 15 ms, 1 ms) the spec prescribes; and, like S1, it
  computes no routes, so the first left leaf has no route to the address of the first
  right leaf, the sink of its flow.
\<close>

theorem S5_topology_unroutable:
  assumes "no_topology w"
  shows "\<exists>db w'. S5_topology q w = Inr (db, w') \<and> w_nodes w' = 18
           \<and> map ch_delay (w_chans w') = ''20ms'' # replicate 16 ''2ms''
           \<and> map dev_rate (w_devs w') = replicate 34 ''100Mbps''
           \<and> is_tree w' \<and> segments_ok w' \<and> stacks_once w'
           \<and> \<not> routable w' (db_left db ! 0) (db_right_leaf_ifs db ! 0)"
proof -
  have "\<not> w_global_routes w" and "w_routes w = []"
    using assms by (simp_all add: no_topology_def)
  then have "\<not> routable (S5_state q w) 2 (ip4 10 2 1 1)"
    by (rule S5_state_unroutable)
  with S5_result [OF assms] S5_state_links S5_state_rates S5_state_shape S5_state_segments show ?thesis
    by (simp add: S5_handles_def S5_state_def)
qed

theorem S5_topology_unroutable_witness:
  "\<exists>db w'. S5_topology ''150p'' (world0 {} {}) = Inr (db, w') \<and> w_nodes w' = 18
     \<and> map ch_delay (w_chans w') = ''20ms'' # replicate 16 ''2ms''
     \<and> map dev_rate (w_devs w') = replicate 34 ''100Mbps''
     \<and> is_tree w' \<and> segments_ok w' \<and> stacks_once w'
     \<and> \<not> routable w' (db_left db ! 0) (db_right_leaf_ifs db ! 0)"
  using S5_topology_unroutable [OF no_topology_world0] by simp

end
