(* ===== verification/Perturbation.thy ===== *)
theory Perturbation
  imports Scenarios
begin

text \<open>
  The Perturbation Scheduler of S4 (\<open>src/ns3/tcp_compare.cc\<close> lines 553--557): two
  \<open>SetOnOffRate\<close> events on the video source, "1bps" at 30 s and "50Mbps" at
  \<open>30 + blockageDuration\<close>. The spec's intent is a throttled interval
  \<open>[30, 30 + blockageDuration)\<close> with the stream restored afterwards. This theory
  follows the video source's rate through the engine's run and compares it with that
  abstract schedule.
\<close>

section \<open>Definitions\<close>

text \<open>The configured rate of application \<open>i\<close>, when it is an on/off source.\<close>

definition app_rate :: "world \<Rightarrow> nat \<Rightarrow> string option" where
  "app_rate w i =
     (if i < length (w_apps w) then (case app_kind (w_apps w ! i) of OnOff _ _ c \<Rightarrow> Some (oo_rate c) | _ \<Rightarrow> None)
      else None)"

text \<open>The rate an on/off source has after the items of a run up to the first stop event.\<close>

fun last_rate :: "nat \<Rightarrow> string \<Rightarrow> (seconds \<times> item) list \<Rightarrow> string" where
  "last_rate i r [] = r"
| "last_rate i r ((t, Sched EvStop) # xs) = r"
| "last_rate i r ((t, Sched (EvSetOnOffRate (Some j) r')) # xs) = last_rate i (if j = i then r' else r) xs"
| "last_rate i r (x # xs) = last_rate i r xs"

text \<open>
  The abstract schedule: the rate at the end of a run that stops at \<open>T\<close>, for a
  blockage of length \<open>b\<close> from 30 s, when the stream starts at 50 Mb/s.
\<close>

definition blocked_rate :: "seconds \<Rightarrow> seconds \<Rightarrow> string" where
  "blocked_rate b T = (if T < 30 \<or> (0 \<le> b \<and> 30 + b \<le> T) then ''50Mbps'' else ''1bps'')"

text \<open>
  The state S4 has when the engine starts: its topology and applications, the output
  directory and \<open>cwnd.csv\<close>, and the tracer and blockage events.
\<close>

definition S4_ready :: "runtime_options \<Rightarrow> world \<Rightarrow> world" where
  "S4_ready opts w = (S4_state w)\<lparr>w_apps := S4_apps (simulationTime opts),
     w_dirs := w_dirs w \<union> set (path_prefixes (output_dir_name opts)),
     w_files := (w_files w)(cwnd_file (output_dir_name opts) \<mapsto> CwndCsv []),
     w_events := [(0.1, EvInstallCwndTracer 3 (cwnd_file (output_dir_name opts))),
                  (30, EvSetOnOffRate (Some 1) ''1bps''),
                  (30 + blockageDuration opts, EvSetOnOffRate (Some 1) ''50Mbps'')]\<rparr>"

section \<open>The rate through a run\<close>

lemma app_rate_now [simp]: "app_rate (w\<lparr>w_now := t\<rparr>) i = app_rate w i"
  by (simp add: app_rate_def)

lemma app_rate_notify [simp]: "app_rate (notify_cwnd j o' n w) i = app_rate w i"
proof -
  have "w_apps (fold (\<lambda>(j', s) w'. if j' = j then CwndTracer s o' n w' else w') cs w) = w_apps w" for cs w
    by (induction cs arbitrary: w) (auto simp: CwndTracer_def split: option.splits file_data.splits)
  then show ?thesis by (simp add: notify_cwnd_def app_rate_def)
qed

lemma app_rate_SetOnOffRate_Some:
  "app_rate (SetOnOffRate (Some j) r w) i = (if j = i \<and> app_rate w i \<noteq> None then Some r else app_rate w i)"
proof (cases "app_kind (w_apps w ! j)")
  case (OnOff p a c)
  then show ?thesis
    by (cases "i = j") (auto simp: SetOnOffRate_def app_rate_def)
qed (auto simp: SetOnOffRate_def app_rate_def)

lemma app_rate_SetOnOffRate_None [simp]: "app_rate (SetOnOffRate None r w) i = app_rate w i"
  by (simp add: SetOnOffRate_def)

lemma app_rate_InstallCwndTracer [simp]: "app_rate (InstallCwndTracer n s w) i = app_rate w i"
  by (simp add: InstallCwndTracer_def app_rate_def)

lemma run_items_rate:
  "app_rate w i = Some r \<Longrightarrow> app_rate (run_items exec_event notify_cwnd xs w) i = Some (last_rate i r xs)"
proof (induction i r xs arbitrary: w rule: last_rate.induct)
qed (auto simp: app_rate_SetOnOffRate_Some)

lemma last_rate_filter: "last_rate i r (filter is_sched xs) = last_rate i r xs"
  by (induction i r xs rule: last_rate.induct) (simp_all add: is_sched_def)

lemma last_rate_timeline: "last_rate i r (timeline evs env) = last_rate i r (sort_key fst (map (\<lambda>(t, e). (t, Sched e)) evs))"
  by (metis last_rate_filter filter_is_sched_timeline)

lemma blockage_last_rate:
  "last_rate i ''50Mbps'' (sort_key fst [(0.1, Sched (EvInstallCwndTracer n s)),
        (30, Sched (EvSetOnOffRate (Some i) ''1bps'')), (30 + b, Sched (EvSetOnOffRate (Some i) ''50Mbps'')),
        (T, Sched EvStop)]) = blocked_rate b T"
  by (auto simp: blocked_rate_def split: if_splits)


section \<open>S4 from setup to the end of the run\<close>

lemma S4_setup_blockage:
  assumes "no_topology w" and "dirs_creatable opts w"
  shows "S4_setup opts w = rbind (schedule_blockage (Some 1) (blockageDuration opts)
           ((S4_ready opts w)\<lparr>w_events := [(0.1, EvInstallCwndTracer 3 (cwnd_file (output_dir_name opts)))]\<rparr>))
           (\<lambda>w4. Inr (Some 1, output_dir_name opts, w4))"
proof -
  have t: "S4_traffic S4_handles (simulationTime opts) (S4_state w)
             = (Some 1, (S4_state w)\<lparr>w_apps := S4_apps (simulationTime opts)\<rparr>)"
    using assms(1) by (intro S4_traffic_result) (simp add: S4_state_def no_topology_def)
  have "dirs_creatable opts ((S4_state w)\<lparr>w_apps := S4_apps (simulationTime opts)\<rparr>)"
    using assms(2) by (simp add: dirs_creatable_def S4_state_def)
  note o = open_cwnd_trace_ok [OF this, of 3]
  have now: "w_now w = 0" and ev: "w_events w = []"
    using assms(1) by (simp_all add: no_topology_def)
  have r: "s4_remote S4_handles = 3"
    by (simp add: S4_handles_def)
  let ?w3 = "(S4_state w)\<lparr>w_apps := S4_apps (simulationTime opts),
               w_dirs := w_dirs (S4_state w) \<union> set (path_prefixes (output_dir_name opts)),
               w_files := (w_files (S4_state w))(cwnd_file (output_dir_name opts) \<mapsto> CwndCsv []),
               w_events := w_events (S4_state w) @ [(w_now (S4_state w) + 0.1, EvInstallCwndTracer 3 (cwnd_file (output_dir_name opts)))]\<rparr>"
  have "S4_setup opts w = rbind (schedule_blockage (Some 1) (blockageDuration opts) ?w3)
           (\<lambda>w4. Inr (Some 1, output_dir_name opts, w4))"
    by (simp add: S4_setup_def S4_result [OF assms(1)] t o r)
  then show ?thesis
    by (simp add: S4_ready_def S4_state_def now ev)
qed

lemma S4_setup_result:
  assumes "no_topology w" and "dirs_creatable opts w" and "0 \<le> 30 + blockageDuration opts"
  shows "S4_setup opts w = Inr (Some 1, output_dir_name opts, S4_ready opts w)"
proof -
  have "w_now w = 0"
    using assms(1) by (simp add: no_topology_def)
  with assms show ?thesis
    by (simp add: S4_setup_blockage schedule_blockage_def Schedule_def blockStart_def S4_ready_def S4_state_def)
qed

lemma S4_conns_run:
  assumes "w_apps W = S4_apps T'" and "w_cwnd_conns W = []"
  shows "w_cwnd_conns (run_items exec_event notify_cwnd
           (sort_key fst [(0.1, Sched (EvInstallCwndTracer 3 f)), (30, Sched (EvSetOnOffRate (Some 1) ''1bps'')),
                          (30 + b, Sched (EvSetOnOffRate (Some 1) ''50Mbps'')), (T, Sched EvStop)]) W)
         = (if 0.1 \<le> T then [(2, f)] else [])"
  using assms
  by (auto simp: InstallCwndTracer_def SetOnOffRate_def tcp_socket_exists_def S4_apps_def app_proto_def
                 video_cfg_def upt_rec split: if_splits)


lemma destroy_tail:
  "w_apps (Simulator_Destroy (if c then SerializeFlowMonitor p x else x)) = w_apps x"
  "w_cwnd_conns (Simulator_Destroy (if c then SerializeFlowMonitor p x else x)) = w_cwnd_conns x"
  "app_rate (Simulator_Destroy (if c then SerializeFlowMonitor p x else x)) i = app_rate x i"
  by (simp_all add: Simulator_Destroy_def SerializeFlowMonitor_def app_rate_def)

lemma dirs_creatable_world0: "dirs_creatable opts (world0 dirs {})"
  by (simp add: dirs_creatable_def world0_def list_all_iff)

lemma blocked_rate_window:
  "0 \<le> b \<Longrightarrow> blocked_rate b T = (if blockStart \<le> T \<and> T < blockStart + b then ''1bps'' else ''50Mbps'')"
  by (auto simp: blocked_rate_def blockStart_def)

text \<open>
  S4 end to end, for a run that starts from a state without topology, may create its
  output directory, and schedules every event at a time that is not negative: the video
  source's rate and the sockets the tracer is connected to when the process ends.
\<close>

lemma S4_final:
  assumes "no_topology w" and "dirs_creatable opts w"
    and "0 \<le> 30 + blockageDuration opts" and "0 \<le> simulationTime opts"
  shows "\<exists>w'. BuildScenarioS4 opts env w = Inr w'
           \<and> app_rate w' 1 = Some (blocked_rate (blockageDuration opts) (simulationTime opts))
           \<and> w_cwnd_conns w' = (if 0.1 \<le> simulationTime opts then [(2, cwnd_file (output_dir_name opts))] else [])
           \<and> app_kind (w_apps w' ! 2) = PacketSink Tcp (ipv4_any, 10001)"
proof -
  let ?T = "simulationTime opts" and ?b = "blockageDuration opts" and ?f = "cwnd_file (output_dir_name opts)"
  let ?W1 = "if enableFlowMonitor opts then flowmon_install_all (S4_ready opts w) else S4_ready opts w"
  let ?W2 = "?W1\<lparr>w_events := w_events ?W1 @ [(w_now ?W1 + ?T, EvStop)]\<rparr>"
  let ?W3 = "run env ?W2"
  let ?X = "if enableFlowMonitor opts then SerializeFlowMonitor (flowmon_file (output_dir_name opts)) ?W3 else ?W3"
  have B: "BuildScenarioS4 opts env w = Inr (Simulator_Destroy ?X)"
    using assms by (simp add: BuildScenarioS4_def S4_setup_result monitor_and_run_eq Let_def)
  have evs: "map (\<lambda>(t, e). (t, Sched e)) (w_events ?W2) =
      [(0.1, Sched (EvInstallCwndTracer 3 ?f)), (30, Sched (EvSetOnOffRate (Some 1) ''1bps'')),
       (30 + ?b, Sched (EvSetOnOffRate (Some 1) ''50Mbps'')), (?T, Sched EvStop)]"
    using assms(1) by (simp add: S4_ready_def S4_state_def flowmon_install_all_def no_topology_def)
  have apps: "w_apps ?W2 = S4_apps ?T" and conns0: "w_cwnd_conns ?W2 = []"
    using assms(1) by (simp_all add: S4_ready_def S4_state_def flowmon_install_all_def no_topology_def)
  have "app_rate ?W2 1 = Some ''50Mbps''"
    using apps by (simp add: app_rate_def S4_apps_def video_cfg_def onoff_default_def)
  then have "app_rate ?W3 1 = Some (last_rate 1 ''50Mbps'' (timeline (w_events ?W2) env))"
    unfolding run_def Simulator_Run_def by (rule run_items_rate)
  then have rate: "app_rate ?W3 1 = Some (blocked_rate ?b ?T)"
    by (simp only: last_rate_timeline evs blockage_last_rate)
  have "(w_apps ?W3, w_cwnd_conns ?W3) =
        (w_apps (run_items exec_event notify_cwnd (sort_key fst (map (\<lambda>(t, e). (t, Sched e)) (w_events ?W2))) ?W2),
         w_cwnd_conns (run_items exec_event notify_cwnd (sort_key fst (map (\<lambda>(t, e). (t, Sched e)) (w_events ?W2))) ?W2))"
    by (rule run_conns_apps)
  then have conns: "w_cwnd_conns ?W3 = (if 0.1 \<le> ?T then [(2, ?f)] else [])"
    by (simp only: evs prod.inject S4_conns_run [OF apps conns0])
  have "w_apps ?W3 = w_apps (run_items exec_event notify_cwnd (sort_key fst (map (\<lambda>(t, e). (t, Sched e)) (w_events ?W2))) ?W2)"
    using run_conns_apps [of env ?W2] by simp
  then have "app_kind (w_apps ?W3 ! 2) = PacketSink Tcp (ipv4_any, 10001)"
    using apps by (simp only: evs) (auto simp: InstallCwndTracer_def SetOnOffRate_def S4_apps_def split: if_splits)
  then have sink: "app_kind (w_apps (Simulator_Destroy ?X) ! 2) = PacketSink Tcp (ipv4_any, 10001)"
    by (simp only: destroy_tail)
  have "app_rate (Simulator_Destroy ?X) 1 = Some (blocked_rate ?b ?T)"
    using rate by (simp only: destroy_tail)
  moreover have "w_cwnd_conns (Simulator_Destroy ?X) = (if 0.1 \<le> ?T then [(2, ?f)] else [])"
    using conns by (simp only: destroy_tail)
  ultimately show ?thesis
    using B sink by blast
qed

section \<open>Claims\<close>

text \<open>
  C6. The blockage refines its specification: for a non-negative blockage duration
  \<open>b\<close> and any run length \<open>T\<close>, S4 succeeds from a state without topology and the video
  source's rate when the run stops at \<open>T\<close> is the collapse value "1bps" if \<open>T\<close> lies in
  \<open>[blockStart, blockStart + b)\<close> and the steady "50Mbps" otherwise. As \<open>T\<close> is
  arbitrary, this is the rate at every instant of the run.
\<close>

theorem S4_blockage_window:
  assumes "no_topology w" and "dirs_creatable opts w"
    and "0 \<le> blockageDuration opts" and "0 \<le> simulationTime opts"
  shows "\<exists>w'. BuildScenarioS4 opts env w = Inr w'
           \<and> app_rate w' 1 = Some (if blockStart \<le> simulationTime opts \<and> simulationTime opts < blockStart + blockageDuration opts
                                   then ''1bps'' else ''50Mbps'')"
proof -
  have "0 \<le> 30 + blockageDuration opts"
    using assms(3) by simp
  from S4_final [OF assms(1,2) this assms(4)] obtain w' where
    B: "BuildScenarioS4 opts env w = Inr w'" and r: "app_rate w' 1 = Some (blocked_rate (blockageDuration opts) (simulationTime opts))"
    by blast
  from r have "app_rate w' 1 = Some (if blockStart \<le> simulationTime opts \<and> simulationTime opts < blockStart + blockageDuration opts
                                   then ''1bps'' else ''50Mbps'')"
    by (simp only: blocked_rate_window [OF assms(3)])
  with B show ?thesis
    by blast
qed

lemma S4_blockage_window_witness:
  "\<exists>w'. BuildScenarioS4 (default_options\<lparr>scenario := ''S4'', simulationTime := 30.1\<rparr>) [] (world0 {} {}) = Inr w'
     \<and> app_rate w' 1 = Some ''1bps''"
  using S4_blockage_window [OF no_topology_world0 dirs_creatable_world0, of "default_options\<lparr>scenario := ''S4'', simulationTime := 30.1\<rparr>"]
  by (simp add: default_options_def blockStart_def)

text \<open>
  C23. A negative blockage duration is not rejected (the options are never validated,
  although the spec requires durations to be non-negative) and inverts the pair: the
  restore event fires before the collapse, so for \<open>-30 \<le> b < 0\<close> every run that reaches
  \<open>blockStart\<close> ends with the video source collapsed to "1bps", never restored.
\<close>

theorem S4_negative_blockage_stuck:
  assumes "no_topology w" and "dirs_creatable opts w"
    and "-30 \<le> blockageDuration opts" and "blockageDuration opts < 0" and "blockStart \<le> simulationTime opts"
  shows "\<exists>w'. BuildScenarioS4 opts env w = Inr w' \<and> app_rate w' 1 = Some ''1bps''"
proof -
  have "0 \<le> 30 + blockageDuration opts" and T: "0 \<le> simulationTime opts"
    using assms(3,5) by (simp_all add: blockStart_def)
  from S4_final [OF assms(1,2) this] obtain w' where
    B: "BuildScenarioS4 opts env w = Inr w'" and r: "app_rate w' 1 = Some (blocked_rate (blockageDuration opts) (simulationTime opts))"
    by blast
  have "blocked_rate (blockageDuration opts) (simulationTime opts) = ''1bps''"
    using assms(4,5) by (simp add: blocked_rate_def blockStart_def)
  with B r show ?thesis
    by auto
qed

lemma S4_negative_blockage_stuck_witness:
  "\<exists>w'. BuildScenarioS4 (default_options\<lparr>scenario := ''S4'', blockageDuration := -1\<rparr>) [] (world0 {} {}) = Inr w'
     \<and> app_rate w' 1 = Some ''1bps''"
  using S4_negative_blockage_stuck [OF no_topology_world0 dirs_creatable_world0, of "default_options\<lparr>scenario := ''S4'', blockageDuration := -1\<rparr>"]
  by (simp add: default_options_def blockStart_def)

text \<open>
  C24. A blockage duration below \<open>-blockStart\<close> makes the restore delay negative: the
  second \<open>Simulator::Schedule\<close> aborts, after the collapse event has been queued, and
  S4 ends in that abort before the run starts.
\<close>

theorem S4_blockage_negative_abort:
  assumes "no_topology w" and "dirs_creatable opts w" and "blockageDuration opts < - blockStart"
  shows "BuildScenarioS4 opts env w = Inl (NegativeDelay, (S4_ready opts w)\<lparr>w_events :=
           [(0.1, EvInstallCwndTracer 3 (cwnd_file (output_dir_name opts))), (blockStart, EvSetOnOffRate (Some 1) ''1bps'')]\<rparr>)"
proof -
  have "w_now w = 0"
    using assms(1) by (simp add: no_topology_def)
  with assms show ?thesis
    by (simp add: BuildScenarioS4_def S4_setup_blockage schedule_blockage_def Schedule_def blockStart_def
                  S4_ready_def S4_state_def)
qed

lemma S4_blockage_negative_abort_witness:
  "BuildScenarioS4 (default_options\<lparr>scenario := ''S4'', blockageDuration := -31\<rparr>) [] (world0 {} {}) =
     Inl (NegativeDelay, (S4_ready (default_options\<lparr>scenario := ''S4'', blockageDuration := -31\<rparr>) (world0 {} {}))\<lparr>w_events :=
       [(0.1, EvInstallCwndTracer 3 (cwnd_file (output_dir_name (default_options\<lparr>scenario := ''S4'', blockageDuration := -31\<rparr>)))),
        (blockStart, EvSetOnOffRate (Some 1) ''1bps'')]\<rparr>)"
  using S4_blockage_negative_abort [OF no_topology_world0 dirs_creatable_world0, of "default_options\<lparr>scenario := ''S4'', blockageDuration := -31\<rparr>"]
  by (simp add: default_options_def blockStart_def)

text \<open>
  C7. The S4 window trace records only the TCP sink: the tracer is connected at 0.1 s to
  the sockets of the remote host that exist then, and the only one is the listening
  socket of the sink (application 2); the video source (application 1) opens its socket
  at 1 s, so \<open>cwnd.csv\<close> never holds a row of the flow the blockage perturbs.
\<close>

theorem S4_tracer_misses_video:
  assumes "no_topology w" and "dirs_creatable opts w"
    and "0 \<le> 30 + blockageDuration opts" and "0.1 \<le> simulationTime opts"
  shows "\<exists>w'. BuildScenarioS4 opts env w = Inr w'
           \<and> w_cwnd_conns w' = [(2, cwnd_file (output_dir_name opts))]
           \<and> app_kind (w_apps w' ! 2) = PacketSink Tcp (ipv4_any, 10001)"
proof -
  have "0 \<le> simulationTime opts"
    using assms(4) by simp
  from S4_final [OF assms(1,2,3) this] obtain w' where
    B: "BuildScenarioS4 opts env w = Inr w'"
    and c: "w_cwnd_conns w' = (if 0.1 \<le> simulationTime opts then [(2, cwnd_file (output_dir_name opts))] else [])"
    and k: "app_kind (w_apps w' ! 2) = PacketSink Tcp (ipv4_any, 10001)"
    by blast
  from c assms(4) have "w_cwnd_conns w' = [(2, cwnd_file (output_dir_name opts))]"
    by (simp only: if_True)
  with B k show ?thesis
    by blast
qed

lemma S4_tracer_misses_video_witness:
  "\<exists>w'. BuildScenarioS4 (default_options\<lparr>scenario := ''S4''\<rparr>) [] (world0 {} {}) = Inr w'
     \<and> w_cwnd_conns w' = [(2, cwnd_file (output_dir_name (default_options\<lparr>scenario := ''S4''\<rparr>)))]
     \<and> app_kind (w_apps w' ! 2) = PacketSink Tcp (ipv4_any, 10001)"
  using S4_tracer_misses_video [OF no_topology_world0 dirs_creatable_world0, of "default_options\<lparr>scenario := ''S4''\<rparr>"]
  by (simp add: default_options_def)

end
