(* ===== verification/Orchestrator.thy ===== *)
theory Orchestrator
  imports Perturbation Dumbbell
begin

text \<open>
  The scenario orchestrator as a whole (\<open>main\<close> and \<open>dispatch\<close>,
  \<open>src/ns3/tcp_compare.cc\<close> lines 577--624, over the five builders): the builders
  install topology and traffic without touching the host's file system, the shared tail
  writes the artefacts, and every run with valid options ends in the engine's teardown.
\<close>

section \<open>Definitions\<close>

text \<open>
  The part of the state that building a topology and installing traffic leave alone: the
  host side (directories, directories that may not be created, files) and the engine's
  event list, clock and tracer connections.
\<close>

definition host_io :: "world \<Rightarrow> string set \<times> string set \<times> (string \<Rightarrow> file_data option)
                          \<times> (seconds \<times> sim_event) list \<times> seconds \<times> (nat \<times> string) list" where
  "host_io w = (w_dirs w, w_denied w, w_files w, w_events w, w_now w, w_cwnd_conns w)"

text \<open>
  The shape of the file system: for each path, no file, a window trace (whose rows the
  run may append to), or a file of another kind with its content.
\<close>

definition file_shape :: "(string \<Rightarrow> file_data option) \<Rightarrow> string \<Rightarrow> file_data option option" where
  "file_shape fs p = (case fs p of None \<Rightarrow> None | Some (CwndCsv _) \<Rightarrow> Some None | Some x \<Rightarrow> Some (Some x))"

text \<open>
  The artefacts of a completed run started in \<open>w\<close>: the engine is torn down with no
  event left, the output path exists, \<open>cwnd.csv\<close> is a fresh window trace, and
  \<open>flowmon.xml\<close> covers every node with IPv4 when the monitor is enabled; every other
  file keeps its shape.
\<close>

definition run_artefacts :: "runtime_options \<Rightarrow> world \<Rightarrow> world \<Rightarrow> bool" where
  "run_artefacts opts w w' \<longleftrightarrow>
     (let d = output_dir_name opts; f = (file_shape (w_files w))(cwnd_file d \<mapsto> None)
      in w_destroyed w' \<and> w_events w' = [] \<and> w_dirs w' = w_dirs w \<union> set (path_prefixes d)
         \<and> file_shape (w_files w') = (if enableFlowMonitor opts then f(flowmon_file d \<mapsto> Some (FlowmonXml (w_stack w'))) else f))"

section \<open>Topology and traffic keep the host side\<close>

lemma host_io_update [frame_simps]:
  "host_io (w\<lparr>w_nodes := x1\<rparr>) = host_io w" "host_io (w\<lparr>w_stack := x2\<rparr>) = host_io w"
  "host_io (w\<lparr>w_devs := x3\<rparr>) = host_io w" "host_io (w\<lparr>w_chans := x4\<rparr>) = host_io w"
  "host_io (w\<lparr>w_ifaces := x5\<rparr>) = host_io w" "host_io (w\<lparr>w_alloc := x6\<rparr>) = host_io w"
  "host_io (w\<lparr>w_apps := x7\<rparr>) = host_io w" "host_io (w\<lparr>w_global_routes := x8\<rparr>) = host_io w"
  "host_io (w\<lparr>w_routes := x9\<rparr>) = host_io w"
  by (simp_all add: host_io_def)

lemma host_io_p2p_install [frame_simps]: "host_io (snd (p2p_install h a b w)) = host_io w"
  by (simp add: p2p_install_def Let_def host_io_def)

lemma host_io_install_leaves [frame_simps]: "host_io (snd (install_leaves h r ls w)) = host_io w"
  by (induction ls arbitrary: w) (simp_all add: Let_def split_beta frame_simps)

lemma host_io_dumbbell_create [frame_simps]: "host_io (snd (dumbbell_create nL a nR b c w)) = host_io w"
  by (simp add: dumbbell_create_def Let_def split_beta frame_simps)

lemma install_stack_host_io: "install_stack ns w = Inr w' \<Longrightarrow> host_io w' = host_io w"
  by (induction ns arbitrary: w) (auto simp: rbind_eq_Inr install_stack_node_def frame_simps split: if_splits)

lemma NewAddress_host_io: "NewAddress h w = Inr (a, h', w') \<Longrightarrow> host_io w' = host_io w"
  by (auto simp: NewAddress_Inr frame_simps)

lemma Assign_host_io: "Assign h ds w = Inr (as, h', w') \<Longrightarrow> host_io w' = host_io w"
proof (induction h ds w arbitrary: as h' w' rule: Assign.induct)
  case (2 h d ds w)
  then show ?case
    by (fastforce simp: Let_def rbind_eq_Inr frame_simps split: if_splits prod.splits dest: NewAddress_host_io)
qed simp

lemma assign_leaves_host_io: "assign_leaves h lds rds w = Inr (ls, w') \<Longrightarrow> host_io w' = host_io w"
proof (induction h lds rds w arbitrary: ls w' rule: assign_leaves.induct)
  case (1 h ld lds rd rds w)
  from "1.prems" obtain as h' w1 ls' where a: "Assign h [ld, rd] w = Inr (as, h', w1)"
    and l: "assign_leaves (NewNetwork h') lds rds w1 = Inr (ls', w')"
    by (auto simp: rbind_eq_Inr split: prod.splits)
  from a have "host_io w1 = host_io w"
    by (rule Assign_host_io)
  with "1.IH" [OF l] show ?case
    by simp
qed simp_all

lemma dumbbell_topology_host_io:
  assumes "dumbbell_topology n a b w = Inr (db, w')"
  shows "host_io w' = host_io w"
proof -
  obtain db0 w1 where c: "dumbbell_create n a n a b w = (db0, w1)" by fastforce
  then have h1: "host_io w1 = host_io w"
    using host_io_dumbbell_create [of n a n a b w] by simp
  from assms c obtain w2 where s: "InstallStacks db0 w1 = Inr w2" and d: "AssignIpv4Addresses db0 w2 = Inr (db, w')"
    by (auto simp: dumbbell_topology_def rbind_eq_Inr)
  have "host_io w2 = host_io w1"
    using s by (auto simp: InstallStacks_def dumbbell_install_stack_def rbind_eq_Inr dest!: install_stack_host_io)
  moreover have "host_io w' = host_io w2"
    using d by (auto simp: AssignIpv4Addresses_def dumbbell_assign_def Let_def rbind_eq_Inr split: prod.splits
                     dest!: Assign_host_io assign_leaves_host_io)
  ultimately show ?thesis
    using h1 by simp
qed

lemma host_io_install_scheduled [frame_simps]: "host_io (snd (install_scheduled k n s t w)) = host_io w"
  by (simp add: install_scheduled_def install_app_def apps_start_def apps_stop_def frame_simps)

lemma host_io_bulk_pairs [frame_simps]: "host_io (bulk_pairs db p s t xs w) = host_io w"
  by (induction xs arbitrary: w) (simp_all add: Let_def split_beta frame_simps)

lemma host_io_s2_bulk [frame_simps]: "host_io (s2_bulk tp T xs w) = host_io w"
  by (induction xs arbitrary: w) (simp_all add: Let_def split_beta frame_simps)

lemma host_io_traffic [frame_simps]:
  "host_io (InstallBulkTransfers db s t w) = host_io w"
  "host_io (InstallShortWebTraffic c sv a s t w) = host_io w"
  "host_io (S2_traffic tp T w) = host_io w"
  "host_io (S3_traffic tp3 T w) = host_io w"
  by (simp_all add: InstallBulkTransfers_def InstallShortWebTraffic_def S2_traffic_def S3_traffic_def
                    Let_def split_beta frame_simps)

lemma host_io_states [frame_simps]:
  "host_io (S1_state q w) = host_io w" "host_io (S2_state q w) = host_io w" "host_io (S3_state q r w) = host_io w"
  by (simp_all add: host_io_def S1_state_def S2_state_def S3_state_def)

lemma dirs_creatable_host_io: "host_io w' = host_io w \<Longrightarrow> dirs_creatable opts w' = dirs_creatable opts w"
  by (simp add: host_io_def dirs_creatable_def)

section \<open>The run keeps the shape of the file system\<close>

lemma file_shape_upd [simp]:
  "file_shape (fs(p \<mapsto> CwndCsv r)) = (file_shape fs)(p \<mapsto> None)"
  "file_shape (fs(p \<mapsto> FlowmonXml ns)) = (file_shape fs)(p \<mapsto> Some (FlowmonXml ns))"
  by (simp_all add: fun_eq_iff file_shape_def)

lemma file_shape_CwndTracer [simp]: "file_shape (w_files (CwndTracer s o' n w)) = file_shape (w_files w)"
proof (cases "w_files w s")
  case (Some x)
  then show ?thesis
    by (cases x) (simp_all add: CwndTracer_def fun_eq_iff file_shape_def)
qed (simp add: CwndTracer_def)

lemma CwndTracer_host [simp]:
  "w_dirs (CwndTracer s o' n w) = w_dirs w" "w_stack (CwndTracer s o' n w) = w_stack w"
  "w_flowmon (CwndTracer s o' n w) = w_flowmon w"
  by (simp_all add: CwndTracer_def split: option.splits file_data.splits)

lemma notify_cwnd_host [simp]:
  "file_shape (w_files (notify_cwnd i o' n w)) = file_shape (w_files w)"
  "w_dirs (notify_cwnd i o' n w) = w_dirs w" "w_stack (notify_cwnd i o' n w) = w_stack w"
  "w_flowmon (notify_cwnd i o' n w) = w_flowmon w"
proof -
  have "file_shape (w_files (fold (\<lambda>(j, s) w'. if j = i then CwndTracer s o' n w' else w') cs w)) = file_shape (w_files w)
        \<and> w_dirs (fold (\<lambda>(j, s) w'. if j = i then CwndTracer s o' n w' else w') cs w) = w_dirs w
        \<and> w_stack (fold (\<lambda>(j, s) w'. if j = i then CwndTracer s o' n w' else w') cs w) = w_stack w
        \<and> w_flowmon (fold (\<lambda>(j, s) w'. if j = i then CwndTracer s o' n w' else w') cs w) = w_flowmon w" for cs w
    by (induction cs arbitrary: w) (auto split: if_splits)
  then show "file_shape (w_files (notify_cwnd i o' n w)) = file_shape (w_files w)"
    "w_dirs (notify_cwnd i o' n w) = w_dirs w" "w_stack (notify_cwnd i o' n w) = w_stack w"
    "w_flowmon (notify_cwnd i o' n w) = w_flowmon w"
    by (simp_all add: notify_cwnd_def)
qed

lemma exec_event_host [simp]:
  "w_files (exec_event e w) = w_files w" "w_dirs (exec_event e w) = w_dirs w"
  "w_stack (exec_event e w) = w_stack w" "w_flowmon (exec_event e w) = w_flowmon w"
  by (cases e; simp add: InstallCwndTracer_def SetOnOffRate_def split: option.splits app_kind.splits)+

lemma run_host:
  "file_shape (w_files (run env w)) = file_shape (w_files w)" "w_dirs (run env w) = w_dirs w"
  "w_stack (run env w) = w_stack w" "w_flowmon (run env w) = w_flowmon w"
  unfolding run_def Simulator_Run_def
  by (rule run_items_field; simp)+

section \<open>The shared tail completes\<close>

lemma monitor_and_run_artefacts:
  assumes "0 \<le> simulationTime opts"
  shows "\<exists>w'. monitor_and_run opts env d w = Inr w' \<and> w_destroyed w' \<and> w_events w' = []
           \<and> w_dirs w' = w_dirs w \<and> w_stack w' = w_stack w
           \<and> file_shape (w_files w') = (if enableFlowMonitor opts
                then (file_shape (w_files w))(flowmon_file d \<mapsto> Some (FlowmonXml (w_stack w)))
                else file_shape (w_files w))"
  using assms
  by (cases "enableFlowMonitor opts")
     (simp_all add: monitor_and_run_eq Simulator_Destroy_def SerializeFlowMonitor_def flowmon_install_all_def run_host Let_def)

lemma cwnd_flowmon_differ [simp]: "flowmon_file d \<noteq> cwnd_file d" "cwnd_file d \<noteq> flowmon_file d"
  by (simp_all add: flowmon_file_def cwnd_file_def)

lemma opened_artefacts:
  assumes "0 \<le> simulationTime opts"
    and "w_dirs W = w_dirs w \<union> set (path_prefixes (output_dir_name opts))"
    and "w_files W = (w_files w)(cwnd_file (output_dir_name opts) \<mapsto> CwndCsv [])"
  shows "\<exists>w'. monitor_and_run opts env (output_dir_name opts) W = Inr w' \<and> run_artefacts opts w w'"
proof -
  let ?d = "output_dir_name opts"
  from monitor_and_run_artefacts [OF assms(1), of env ?d W] obtain w' where
    m: "monitor_and_run opts env ?d W = Inr w'" and a: "w_destroyed w'" "w_events w' = []"
      "w_dirs w' = w_dirs W" "w_stack w' = w_stack W"
    and f: "file_shape (w_files w') = (if enableFlowMonitor opts
                then (file_shape (w_files W))(flowmon_file ?d \<mapsto> Some (FlowmonXml (w_stack W)))
                else file_shape (w_files W))"
    by (elim exE conjE) blast
  have fs: "file_shape (w_files W) = (file_shape (w_files w))(cwnd_file ?d \<mapsto> None)"
    by (simp add: assms(3))
  have "run_artefacts opts w w'"
    unfolding run_artefacts_def Let_def using a f by (simp only: fs assms(2) simp_thms)
  with m show ?thesis
    by blast
qed

lemma tail_artefacts:
  assumes "dirs_creatable opts w" and "0 \<le> simulationTime opts"
  shows "\<exists>w'. rbind (open_cwnd_trace opts n w) (\<lambda>(d, w3). monitor_and_run opts env d w3) = Inr w'
           \<and> run_artefacts opts w w'"
  using opened_artefacts [OF assms(2), of "w\<lparr>w_dirs := w_dirs w \<union> set (path_prefixes (output_dir_name opts)),
                w_files := (w_files w)(cwnd_file (output_dir_name opts) \<mapsto> CwndCsv []),
                w_events := w_events w @ [(w_now w + 0.1, EvInstallCwndTracer n (cwnd_file (output_dir_name opts)))]\<rparr>" w env]
  by (simp add: open_cwnd_trace_ok [OF assms(1)])

lemma run_artefacts_host_io: "host_io w1 = host_io w \<Longrightarrow> run_artefacts opts w1 w' = run_artefacts opts w w'"
  by (simp add: host_io_def run_artefacts_def)

lemma build_completes:
  assumes "topo = Inr (t, w1)" and "host_io (traffic t w1) = host_io w" and "host_io w1 = host_io w"
    and "dirs_creatable opts w" and "0 \<le> simulationTime opts"
  shows "\<exists>w'. rbind topo (\<lambda>(t, w1). let w2 = traffic t w1
             in rbind (open_cwnd_trace opts (node t) w2) (\<lambda>(d, w3). monitor_and_run opts env d w3)) = Inr w'
           \<and> run_artefacts opts w w'"
proof -
  have "dirs_creatable opts (traffic t w1)"
    using assms(2,4) dirs_creatable_host_io by blast
  from tail_artefacts [OF this assms(5), of "node t" env] obtain w' where
    "rbind (open_cwnd_trace opts (node t) (traffic t w1)) (\<lambda>(d, w3). monitor_and_run opts env d w3) = Inr w'"
    and "run_artefacts opts (traffic t w1) w' "
    by blast
  moreover have "run_artefacts opts (traffic t w1) w' = run_artefacts opts w w'"
    using assms(2) by (rule run_artefacts_host_io)
  ultimately show ?thesis
    using assms(1) by (simp only: rbind_Inr prod.case Let_def) blast
qed

section \<open>Each scenario completes\<close>

lemma S1_completes:
  assumes "no_topology w" and "dirs_creatable opts w" and "0 \<le> simulationTime opts"
  shows "\<exists>w'. BuildScenarioS1 opts env w = Inr w' \<and> run_artefacts opts w w'"
  unfolding BuildScenarioS1_def
  by (rule build_completes [where traffic = "\<lambda>db. InstallBulkTransfers db 0.0 (simulationTime opts)"
                             and node = "\<lambda>db. db_left db ! 0", OF S1_result [OF assms(1)] _ _ assms(2,3)])
     (simp_all add: frame_simps)

lemma S2_completes:
  assumes "no_topology w" and "dirs_creatable opts w" and "0 \<le> simulationTime opts"
  shows "\<exists>w'. BuildScenarioS2 opts env w = Inr w' \<and> run_artefacts opts w w'"
  unfolding BuildScenarioS2_def
  by (rule build_completes [where traffic = "\<lambda>t. S2_traffic t (simulationTime opts)"
                             and node = "\<lambda>t. s2_left t ! 0", OF S2_result [OF assms(1)] _ _ assms(2,3)])
     (simp_all add: frame_simps)

lemma S3_completes:
  assumes "no_topology w" and "dirs_creatable opts w" and "0 \<le> simulationTime opts"
  shows "\<exists>w'. BuildScenarioS3 opts env w = Inr w' \<and> run_artefacts opts w w'"
  unfolding BuildScenarioS3_def
  by (rule build_completes [where traffic = "\<lambda>t. S3_traffic t (simulationTime opts)"
                             and node = "\<lambda>t. s3_nodes t ! 0", OF S3_result [OF assms(1)] _ _ assms(2,3)])
     (simp_all add: frame_simps)

lemma S5_completes:
  assumes "no_topology w" and "dirs_creatable opts w" and "0 \<le> simulationTime opts"
  shows "\<exists>w'. BuildScenarioS5 opts env w = Inr w' \<and> run_artefacts opts w w'"
proof -
  have "\<exists>r. dumbbell_topology 8 (p2p ''100Mbps'' ''2ms'') (bottleneck_helper ''100Mbps'' ''20ms'' (queueSize opts)) w = Inr r"
    using dumbbell_topology_fresh [OF assms(1)] dumbbell_plan_distinct [of 8] by simp
  then obtain db w1 where r: "S5_topology (queueSize opts) w = Inr (db, w1)" and h: "host_io w1 = host_io w"
    by (auto simp: S5_topology_dumbbell dest: dumbbell_topology_host_io)
  show ?thesis
    unfolding BuildScenarioS5_def
    by (rule build_completes [where traffic = "\<lambda>db. InstallBulkTransfers db 0.0 (simulationTime opts)"
                               and node = "\<lambda>db. db_left db ! 0", OF r _ h assms(2,3)])
       (simp add: frame_simps h)
qed

lemma S4_completes:
  assumes "no_topology w" and "dirs_creatable opts w" and "0 \<le> simulationTime opts"
    and "0 \<le> 30 + blockageDuration opts"
  shows "\<exists>w'. BuildScenarioS4 opts env w = Inr w' \<and> run_artefacts opts w w'"
  using opened_artefacts [OF assms(3), of "S4_ready opts w" w env]
  by (simp add: BuildScenarioS4_def S4_setup_result [OF assms(1,2,4)] S4_ready_def S4_state_def)

section \<open>Each scenario aborts when the output path may not be created\<close>

lemma open_cwnd_trace_denied:
  assumes "\<not> dirs_creatable opts w"
  shows "\<exists>d. open_cwnd_trace opts n w = Inl (DirectoryNotCreated d, w)
           \<and> d \<in> set (path_prefixes (output_dir_name opts)) \<and> d \<notin> w_dirs w \<and> d \<in> w_denied w"
proof -
  let ?P = "\<lambda>d. d \<notin> w_dirs w \<and> d \<in> w_denied w" and ?ps = "path_prefixes (output_dir_name opts)"
  have "find ?P ?ps \<noteq> None"
    using assms by (auto simp: dirs_creatable_def list_all_iff find_None_iff)
  then obtain d where f: "find ?P ?ps = Some d"
    by blast
  then have "d \<in> set ?ps \<and> ?P d"
    by (rule find_Some_in)
  with f show ?thesis
    by (simp add: open_cwnd_trace_def CreateOutputDir_def make_directories_def Let_def)
qed

lemma build_denied:
  assumes "topo = Inr (t, w1)" and "host_io (traffic t w1) = host_io w" and "\<not> dirs_creatable opts w"
  shows "\<exists>d w'. rbind topo (\<lambda>(t, w1). let w2 = traffic t w1
             in rbind (open_cwnd_trace opts (node t) w2) (\<lambda>(d, w3). monitor_and_run opts env d w3))
               = Inl (DirectoryNotCreated d, w') \<and> host_io w' = host_io w
           \<and> d \<in> set (path_prefixes (output_dir_name opts)) \<and> d \<notin> w_dirs w \<and> d \<in> w_denied w"
proof -
  have "\<not> dirs_creatable opts (traffic t w1)"
    using assms(3) by (simp only: dirs_creatable_host_io [OF assms(2)] not_False_eq_True)
  from open_cwnd_trace_denied [OF this, of "node t"] obtain d where
    o: "open_cwnd_trace opts (node t) (traffic t w1) = Inl (DirectoryNotCreated d, traffic t w1)"
    and d: "d \<in> set (path_prefixes (output_dir_name opts))" "d \<notin> w_dirs (traffic t w1)" "d \<in> w_denied (traffic t w1)"
    by blast
  have "w_dirs (traffic t w1) = w_dirs w" "w_denied (traffic t w1) = w_denied w"
    using assms(2) by (simp_all add: host_io_def)
  with assms(1,2) o d show ?thesis
    by auto
qed

lemma S123_denied:
  assumes "no_topology w" and "\<not> dirs_creatable opts w"
  shows "\<exists>d w'. BuildScenarioS1 opts env w = Inl (DirectoryNotCreated d, w') \<and> host_io w' = host_io w
           \<and> d \<in> set (path_prefixes (output_dir_name opts)) \<and> d \<notin> w_dirs w \<and> d \<in> w_denied w"
    and "\<exists>d w'. BuildScenarioS2 opts env w = Inl (DirectoryNotCreated d, w') \<and> host_io w' = host_io w
           \<and> d \<in> set (path_prefixes (output_dir_name opts)) \<and> d \<notin> w_dirs w \<and> d \<in> w_denied w"
    and "\<exists>d w'. BuildScenarioS3 opts env w = Inl (DirectoryNotCreated d, w') \<and> host_io w' = host_io w
           \<and> d \<in> set (path_prefixes (output_dir_name opts)) \<and> d \<notin> w_dirs w \<and> d \<in> w_denied w"
proof -
  show "\<exists>d w'. BuildScenarioS1 opts env w = Inl (DirectoryNotCreated d, w') \<and> host_io w' = host_io w
           \<and> d \<in> set (path_prefixes (output_dir_name opts)) \<and> d \<notin> w_dirs w \<and> d \<in> w_denied w"
    unfolding BuildScenarioS1_def
    by (rule build_denied [where traffic = "\<lambda>db. InstallBulkTransfers db 0.0 (simulationTime opts)"
                              and node = "\<lambda>db. db_left db ! 0", OF S1_result [OF assms(1)] _ assms(2)])
       (simp add: frame_simps)
  show "\<exists>d w'. BuildScenarioS2 opts env w = Inl (DirectoryNotCreated d, w') \<and> host_io w' = host_io w
           \<and> d \<in> set (path_prefixes (output_dir_name opts)) \<and> d \<notin> w_dirs w \<and> d \<in> w_denied w"
    unfolding BuildScenarioS2_def
    by (rule build_denied [where traffic = "\<lambda>t. S2_traffic t (simulationTime opts)"
                              and node = "\<lambda>t. s2_left t ! 0", OF S2_result [OF assms(1)] _ assms(2)])
       (simp add: frame_simps)
  show "\<exists>d w'. BuildScenarioS3 opts env w = Inl (DirectoryNotCreated d, w') \<and> host_io w' = host_io w
           \<and> d \<in> set (path_prefixes (output_dir_name opts)) \<and> d \<notin> w_dirs w \<and> d \<in> w_denied w"
    unfolding BuildScenarioS3_def
    by (rule build_denied [where traffic = "\<lambda>t. S3_traffic t (simulationTime opts)"
                              and node = "\<lambda>t. s3_nodes t ! 0", OF S3_result [OF assms(1)] _ assms(2)])
       (simp add: frame_simps)
qed

lemma S5_denied:
  assumes "no_topology w" and "\<not> dirs_creatable opts w"
  shows "\<exists>d w'. BuildScenarioS5 opts env w = Inl (DirectoryNotCreated d, w') \<and> host_io w' = host_io w
           \<and> d \<in> set (path_prefixes (output_dir_name opts)) \<and> d \<notin> w_dirs w \<and> d \<in> w_denied w"
proof -
  have "\<exists>r. dumbbell_topology 8 (p2p ''100Mbps'' ''2ms'') (bottleneck_helper ''100Mbps'' ''20ms'' (queueSize opts)) w = Inr r"
    using dumbbell_topology_fresh [OF assms(1)] dumbbell_plan_distinct [of 8] by simp
  then obtain db w1 where r: "S5_topology (queueSize opts) w = Inr (db, w1)" and h: "host_io w1 = host_io w"
    by (auto simp: S5_topology_dumbbell dest: dumbbell_topology_host_io)
  show ?thesis
    unfolding BuildScenarioS5_def
    by (rule build_denied [where traffic = "\<lambda>db. InstallBulkTransfers db 0.0 (simulationTime opts)"
                              and node = "\<lambda>db. db_left db ! 0", OF r _ assms(2)])
       (simp add: frame_simps h)
qed

lemma S4_denied:
  assumes "no_topology w" and "\<not> dirs_creatable opts w"
  shows "\<exists>d w'. BuildScenarioS4 opts env w = Inl (DirectoryNotCreated d, w') \<and> host_io w' = host_io w
           \<and> d \<in> set (path_prefixes (output_dir_name opts)) \<and> d \<notin> w_dirs w \<and> d \<in> w_denied w"
proof -
  let ?W = "(S4_state w)\<lparr>w_apps := S4_apps (simulationTime opts)\<rparr>"
  have a4: "w_apps (S4_state w) = []"
    using assms(1) by (simp add: no_topology_def S4_state_def)
  have h: "host_io ?W = host_io w"
    by (simp add: host_io_def S4_state_def)
  then have "\<not> dirs_creatable opts ?W"
    using assms(2) by (simp only: dirs_creatable_host_io [OF h] not_False_eq_True)
  from open_cwnd_trace_denied [OF this, of "s4_remote S4_handles"] obtain d where
    o: "open_cwnd_trace opts (s4_remote S4_handles) ?W = Inl (DirectoryNotCreated d, ?W)"
    and d: "d \<in> set (path_prefixes (output_dir_name opts))" "d \<notin> w_dirs ?W" "d \<in> w_denied ?W"
    by blast
  have "BuildScenarioS4 opts env w = Inl (DirectoryNotCreated d, ?W)"
    by (simp add: BuildScenarioS4_def S4_setup_def S4_result [OF assms(1)] S4_traffic_result [OF a4] o)
  with h d show ?thesis
    by (auto simp: S4_state_def)
qed

lemma dispatch_denied:
  assumes "scenario opts \<in> {''S1'', ''S2'', ''S3'', ''S4'', ''S5''}" and "no_topology w" and "\<not> dirs_creatable opts w"
  shows "\<exists>d w'. dispatch opts env w = Inl (DirectoryNotCreated d, w') \<and> host_io w' = host_io w
           \<and> d \<in> set (path_prefixes (output_dir_name opts)) \<and> d \<notin> w_dirs w \<and> d \<in> w_denied w"
  using assms(1) S123_denied [OF assms(2,3), of env] S4_denied [OF assms(2,3), of env] S5_denied [OF assms(2,3), of env]
  by (auto simp: dispatch_def)

lemma dispatch_completes:
  assumes "options_valid opts" and "no_topology w" and "dirs_creatable opts w"
  shows "\<exists>w'. dispatch opts env w = Inr w' \<and> run_artefacts opts w w'"
proof -
  have T: "0 \<le> simulationTime opts" and b: "0 \<le> 30 + blockageDuration opts"
    and sc: "scenario opts \<in> {''S1'', ''S2'', ''S3'', ''S4'', ''S5''}"
    using assms(1) by (simp_all add: options_valid_def)
  from sc consider "scenario opts = ''S1''" | "scenario opts = ''S2''" | "scenario opts = ''S3''"
    | "scenario opts = ''S4''" | "scenario opts = ''S5''"
    by blast
  then show ?thesis
  proof cases
    case 1
    then show ?thesis by (simp add: dispatch_def S1_completes [OF assms(2,3) T])
  next
    case 2
    then show ?thesis by (simp add: dispatch_def S2_completes [OF assms(2,3) T])
  next
    case 3
    then show ?thesis by (simp add: dispatch_def S3_completes [OF assms(2,3) T])
  next
    case 4
    then show ?thesis by (simp add: dispatch_def S4_completes [OF assms(2,3) T b])
  next
    case 5
    then show ?thesis by (simp add: dispatch_def S5_completes [OF assms(2,3) T])
  qed
qed

text \<open>
  With a registered variant, \<open>main\<close> writes the TCP defaults and dispatches on a state
  that still has no topology and the same host side.
\<close>

lemma main_configured:
  assumes "''ns3::'' @ tcpType (parse_cli args) \<in> tid_name ` set reg"
  shows "\<exists>W. main args reg env w = dispatch (parse_cli args) env W \<and> host_io W = host_io w
           \<and> (no_topology w \<longrightarrow> no_topology W)"
proof -
  let ?opts = "parse_cli args"
  let ?W = "(set_rng ?opts w)\<lparr>w_defaults := w_defaults (set_rng ?opts w) ++ map_of (rev (tcp_defaults (''ns3::'' @ tcpType ?opts)))\<rparr>"
  have "ConfigureTcp reg (tcpType ?opts) (set_rng ?opts w) = Inr ?W"
    using assms by (simp only: ConfigureTcp_eq if_True)
  then have m: "main args reg env w = dispatch ?opts env ?W"
    by (simp add: main_def Let_def)
  have h: "host_io ?W = host_io w" and n: "no_topology w \<longrightarrow> no_topology ?W"
    by (simp_all add: host_io_def set_rng_def no_topology_def)
  show ?thesis
    by (intro exI [of _ ?W] conjI m h n)
qed

lemma main_dispatches:
  assumes "''ns3::'' @ tcpType (parse_cli args) \<in> tid_name ` set reg"
    and "no_topology w" and "dirs_creatable (parse_cli args) w"
  obtains W where "main args reg env w = dispatch (parse_cli args) env W" and "host_io W = host_io w"
    and "no_topology W" and "dirs_creatable (parse_cli args) W"
proof -
  from main_configured [OF assms(1), of env w] obtain W where
    m: "main args reg env w = dispatch (parse_cli args) env W" and h: "host_io W = host_io w"
    and n0: "no_topology w \<longrightarrow> no_topology W"
    by (elim exE conjE)
  have "dirs_creatable (parse_cli args) W"
    using assms(3) by (simp only: dirs_creatable_host_io [OF h])
  with m h n0 assms(2) show ?thesis
    by (intro that) simp_all
qed

text \<open>The run ends at the time of its stop event, whatever else the timeline holds.\<close>

lemma run_items_now_stop:
  assumes "(t, Sched EvStop) \<in> set xs" and "\<forall>x \<in> set xs. snd x = Sched EvStop \<longrightarrow> fst x = t"
  shows "w_now (run_items exec notify xs w) = t"
  using assms by (induction exec notify xs w rule: run_items.induct) auto

lemma timeline_stops:
  "(t, Sched EvStop) \<in> set (timeline evs env) \<longleftrightarrow> (t, EvStop) \<in> set evs"
  by (auto simp: timeline_def)

lemma file_shape_xml: "file_shape fs p = Some (Some (FlowmonXml ns)) \<longleftrightarrow> fs p = Some (FlowmonXml ns)"
  by (simp add: file_shape_def split: option.splits file_data.splits)

section \<open>Properties of the whole run\<close>

text \<open>
  C11. When the output directory cannot be created, because a prefix of its path is
  missing and may not be created, \<open>main\<close> of every recognised scenario with a
  registered TCP variant aborts with \<open>DirectoryNotCreated\<close> on a missing prefix the
  process may not create, and the files of the host are those it started with.
\<close>

theorem main_output_dir_denied:
  assumes "scenario (parse_cli args) \<in> {''S1'', ''S2'', ''S3'', ''S4'', ''S5''}"
    and "''ns3::'' @ tcpType (parse_cli args) \<in> tid_name ` set reg"
    and "no_topology w" and "\<not> dirs_creatable (parse_cli args) w"
  shows "\<exists>d w'. main args reg env w = Inl (DirectoryNotCreated d, w')
           \<and> d \<in> set (path_prefixes (output_dir_name (parse_cli args))) \<and> d \<notin> w_dirs w \<and> d \<in> w_denied w
           \<and> w_files w' = w_files w"
proof -
  from main_configured [OF assms(2), of env w] obtain W where
    m: "main args reg env w = dispatch (parse_cli args) env W" and h: "host_io W = host_io w"
    and n0: "no_topology w \<longrightarrow> no_topology W"
    by (elim exE conjE)
  have n: "no_topology W"
    using n0 assms(3) by simp
  have c: "\<not> dirs_creatable (parse_cli args) W"
    using assms(4) by (simp only: dirs_creatable_host_io [OF h] not_False_eq_True)
  from dispatch_denied [OF assms(1) n c, of env] obtain d w' where
    d: "dispatch (parse_cli args) env W = Inl (DirectoryNotCreated d, w')" and h': "host_io w' = host_io W"
    and p: "d \<in> set (path_prefixes (output_dir_name (parse_cli args)))" "d \<notin> w_dirs W" "d \<in> w_denied W"
    by blast
  have "w_files w' = w_files w" "w_dirs W = w_dirs w" "w_denied W = w_denied w"
    using h h' by (simp_all add: host_io_def)
  with m d p show ?thesis
    by auto
qed

lemma main_output_dir_denied_witness:
  "\<exists>d w'. main [] sample_registry [] (world0 {} {''results''}) = Inl (DirectoryNotCreated d, w')
     \<and> d = ''results'' \<and> w_files w' = Map.empty"
proof -
  have nd: "\<not> dirs_creatable (parse_cli []) (world0 {} {''results''})"
    by code_simp
  have "\<exists>d w'. main [] sample_registry [] (world0 {} {''results''}) = Inl (DirectoryNotCreated d, w')
           \<and> d \<in> set (path_prefixes (output_dir_name (parse_cli []))) \<and> d \<notin> w_dirs (world0 {} {''results''})
           \<and> d \<in> w_denied (world0 {} {''results''})
           \<and> w_files w' = w_files (world0 {} {''results''})"
    using main_output_dir_denied [where args = "[]" and reg = sample_registry and w = "world0 {} {''results''}"
                                  and env = "[]", OF _ _ no_topology_world0 nd]
    by (simp add: parse_cli_def default_options_def sample_registry_def)
  then show ?thesis
    by (auto simp: world0_def)
qed

text \<open>
  C10. Every run with options that satisfy the spec's invariant and a registered TCP
  variant terminates normally, from a state without topology where the output path may be
  created: the engine is torn down with no event left, the output directory exists,
  \<open>cwnd.csv\<close> is a fresh window trace, \<open>flowmon.xml\<close> lists every node with IPv4
  when the monitor is enabled, and every other file keeps its shape.
\<close>

theorem main_completes:
  assumes "options_valid (parse_cli args)" and "''ns3::'' @ tcpType (parse_cli args) \<in> tid_name ` set reg"
    and "no_topology w" and "dirs_creatable (parse_cli args) w"
  shows "\<exists>w'. main args reg env w = Inr w' \<and> run_artefacts (parse_cli args) w w'"
proof -
  obtain W where m: "main args reg env w = dispatch (parse_cli args) env W" and h: "host_io W = host_io w"
    and n: "no_topology W" and c: "dirs_creatable (parse_cli args) W"
    using main_dispatches [OF assms(2-4)] .
  from dispatch_completes [OF assms(1) n c, of env] obtain w' where
    d: "dispatch (parse_cli args) env W = Inr w'" and a: "run_artefacts (parse_cli args) W w'"
    by blast
  from a have a': "run_artefacts (parse_cli args) w w'"
    by (simp only: run_artefacts_host_io [OF h])
  have "main args reg env w = Inr w'"
    by (simp only: m d)
  with a' show ?thesis
    by blast
qed

lemma main_completes_witness:
  "\<exists>w'. main [] sample_registry [] (world0 {} {}) = Inr w' \<and> run_artefacts (parse_cli []) (world0 {} {}) w'"
  using main_completes [where args = "[]" and reg = sample_registry and w = "world0 {} {}" and env = "[]",
                        OF _ _ no_topology_world0 dirs_creatable_world0]
  by (simp add: parse_cli_def default_options_def options_valid_def sample_registry_def)

text \<open>
  C16. The engine's run terminates at the configured bound: from a state whose event
  list holds no stop event, \<open>monitor_and_run\<close> returns, and the clock of the final
  state is the start time plus the simulation time, whatever congestion-window changes
  the transport models report, before or after the bound.
\<close>

theorem run_stops_at_bound:
  assumes "0 \<le> simulationTime opts" and "EvStop \<notin> snd ` set (w_events w)"
  shows "\<exists>w'. monitor_and_run opts env d w = Inr w' \<and> w_now w' = w_now w + simulationTime opts"
proof -
  let ?W1 = "if enableFlowMonitor opts then flowmon_install_all w else w"
  let ?T = "w_now w + simulationTime opts"
  let ?evs = "w_events ?W1 @ [(w_now ?W1 + simulationTime opts, EvStop)]"
  have ev: "w_events ?W1 = w_events w" and now: "w_now ?W1 = w_now w"
    by (simp_all add: flowmon_install_all_def)
  have "(?T, Sched EvStop) \<in> set (timeline ?evs env)"
    by (simp add: timeline_stops now)
  moreover have "\<forall>x \<in> set (timeline ?evs env). snd x = Sched EvStop \<longrightarrow> fst x = ?T"
    using assms(2) by (force simp: timeline_def ev now)
  ultimately have "w_now (run env (?W1\<lparr>w_events := ?evs\<rparr>)) = ?T"
    unfolding run_def Simulator_Run_def by (simp add: run_items_now_stop)
  then show ?thesis
    using assms(1) by (cases "enableFlowMonitor opts")
                      (simp_all add: monitor_and_run_eq Let_def Simulator_Destroy_def SerializeFlowMonitor_def)
qed

lemma run_stops_at_bound_witness:
  "\<exists>w'. monitor_and_run default_options [(200, 0, 10, 20)] ''results'' (world0 {} {}) = Inr w' \<and> w_now w' = 0 + 120"
  using run_stops_at_bound [where opts = default_options and w = "world0 {} {}" and env = "[(200, 0, 10, 20)]" and d = "''results''"]
  by (simp add: default_options_def world0_def)

text \<open>
  C26. Without the flow monitor, a \<open>flowmon.xml\<close> left in the output directory by an
  earlier run with the same scenario, variant and seed survives unchanged: the directory
  then holds a flow summary this run did not produce.
\<close>

theorem main_keeps_stale_flowmon:
  assumes "options_valid (parse_cli args)" and "''ns3::'' @ tcpType (parse_cli args) \<in> tid_name ` set reg"
    and "no_topology w" and "dirs_creatable (parse_cli args) w"
    and "\<not> enableFlowMonitor (parse_cli args)"
    and "w_files w (flowmon_file (output_dir_name (parse_cli args))) = Some (FlowmonXml ns)"
  shows "\<exists>w'. main args reg env w = Inr w'
           \<and> w_files w' (flowmon_file (output_dir_name (parse_cli args))) = Some (FlowmonXml ns)"
proof -
  let ?p = "flowmon_file (output_dir_name (parse_cli args))"
  obtain W where m: "main args reg env w = dispatch (parse_cli args) env W" and h: "host_io W = host_io w"
    and n: "no_topology W" and c: "dirs_creatable (parse_cli args) W"
    using main_dispatches [OF assms(2-4)] .
  from dispatch_completes [OF assms(1) n c, of env] obtain w' where
    d: "dispatch (parse_cli args) env W = Inr w'" and a: "run_artefacts (parse_cli args) W w'"
    by blast
  from a have "run_artefacts (parse_cli args) w w'"
    by (simp only: run_artefacts_host_io [OF h])
  then have "file_shape (w_files w') = (file_shape (w_files w))(cwnd_file (output_dir_name (parse_cli args)) \<mapsto> None)"
    using assms(5) by (simp only: run_artefacts_def Let_def if_False)
  then have "file_shape (w_files w') ?p = file_shape (w_files w) ?p"
    by simp
  also have "\<dots> = Some (Some (FlowmonXml ns))"
    using assms(6) by (simp add: file_shape_def)
  finally have "w_files w' ?p = Some (FlowmonXml ns)"
    by (simp only: file_shape_xml)
  moreover have "main args reg env w = Inr w'"
    by (simp only: m d)
  ultimately show ?thesis
    by blast
qed

lemma main_keeps_stale_flowmon_witness:
  "\<exists>w'. main [ArgFlowMonitor False] sample_registry []
          ((world0 {} {})\<lparr>w_files := [flowmon_file (output_dir_name (parse_cli [ArgFlowMonitor False])) \<mapsto> FlowmonXml [0]]\<rparr>) = Inr w'
     \<and> w_files w' (flowmon_file (output_dir_name (parse_cli [ArgFlowMonitor False]))) = Some (FlowmonXml [0])"
proof -
  let ?o = "parse_cli [ArgFlowMonitor False]"
  let ?w = "(world0 {} {})\<lparr>w_files := [flowmon_file (output_dir_name ?o) \<mapsto> FlowmonXml [0]]\<rparr>"
  have "no_topology ?w" and "dirs_creatable ?o ?w"
    by (simp_all add: no_topology_def world0_def dirs_creatable_def list_all_iff)
  then show ?thesis
    using main_keeps_stale_flowmon [where args = "[ArgFlowMonitor False]" and reg = sample_registry and w = ?w
                                     and env = "[]" and ns = "[0]"]
    by (simp add: parse_cli_def default_options_def options_valid_def sample_registry_def)
qed

end
