(* ===== verification/Flows.thy ===== *)
theory Flows
  imports Scenarios
begin

text \<open>
  The flows the Traffic Installer leaves in S1 to S4 (\<open>src/ns3/tcp_compare.cc\<close>
  lines 127--164, 260--284, 349--375, 512--546), read back against the spec's flow
  invariant (section 3): every sender has a sink that serves it and starts no later, no
  two sinks share a port, and no flow stops before it starts.
\<close>

section \<open>Definitions\<close>

text \<open>The spec's invariant on the installed flows.\<close>

definition flows_ok :: "world \<Rightarrow> bool" where
  "flows_ok w \<longleftrightarrow> flows_served w \<and> sink_ports_distinct w \<and> windows_ordered w"

text \<open>The installer's order (spec section 4): each sender is installed after a sink that serves it.\<close>

definition sinks_first :: "world \<Rightarrow> bool" where
  "sinks_first w =
     list_all (\<lambda>i. \<not> is_sender (w_apps w ! i) \<or> list_ex (\<lambda>j. serves w (w_apps w ! j) (w_apps w ! i)) [0..<i])
       [0..<length (w_apps w)]"

text \<open>The applications S1, S2 and S3 install, in installation order, for a run of length \<open>T\<close>.\<close>

definition S1_apps :: "seconds \<Rightarrow> app list" where
  "S1_apps T =
     [\<lparr>app_node = 4, app_kind = PacketSink Tcp (ip4 10 2 1 1, 5000), app_start = 0, app_stop = T\<rparr>,
      \<lparr>app_node = 2, app_kind = BulkSend Tcp (ip4 10 2 1 1, 5000) 0, app_start = 0, app_stop = T\<rparr>,
      \<lparr>app_node = 5, app_kind = PacketSink Tcp (ip4 10 2 2 1, 5001), app_start = 0, app_stop = T\<rparr>,
      \<lparr>app_node = 3, app_kind = BulkSend Tcp (ip4 10 2 2 1, 5001) 0, app_start = 0, app_stop = T\<rparr>]"

definition S2_apps :: "seconds \<Rightarrow> app list" where
  "S2_apps T =
     [\<lparr>app_node = 2, app_kind = PacketSink Tcp (ip4 10 1 3 2, 5000), app_start = 0, app_stop = T\<rparr>,
      \<lparr>app_node = 0, app_kind = BulkSend Tcp (ip4 10 1 3 2, 5000) 0, app_start = 0, app_stop = T\<rparr>,
      \<lparr>app_node = 3, app_kind = PacketSink Tcp (ip4 10 1 4 2, 5001), app_start = 0, app_stop = T\<rparr>,
      \<lparr>app_node = 1, app_kind = BulkSend Tcp (ip4 10 1 4 2, 5001) 0, app_start = 0, app_stop = T\<rparr>,
      \<lparr>app_node = 3, app_kind = PacketSink Tcp (ipv4_any, 9000), app_start = 5, app_stop = T\<rparr>,
      \<lparr>app_node = 0, app_kind = OnOff Tcp (ip4 10 1 4 2, 9000) web_cfg, app_start = 6, app_stop = T\<rparr>,
      \<lparr>app_node = 1, app_kind = PacketSink Tcp (ipv4_any, 9000), app_start = 5, app_stop = T\<rparr>,
      \<lparr>app_node = 2, app_kind = OnOff Tcp (ip4 10 1 2 1, 9000) web_cfg, app_start = 6, app_stop = T\<rparr>]"

definition S3_apps :: "seconds \<Rightarrow> app list" where
  "S3_apps T =
     [\<lparr>app_node = 3, app_kind = PacketSink Tcp (ip4 10 10 3 2, 6000), app_start = 0, app_stop = T\<rparr>,
      \<lparr>app_node = 0, app_kind = BulkSend Tcp (ip4 10 10 3 2, 6000) 0, app_start = 0, app_stop = T\<rparr>,
      \<lparr>app_node = 0, app_kind = OnOff Udp (ip4 10 10 3 2, 7000) udp_cross_cfg, app_start = 5, app_stop = T\<rparr>,
      \<lparr>app_node = 3, app_kind = PacketSink Udp (ipv4_any, 7000), app_start = 5, app_stop = T\<rparr>]"

text \<open>
  The two applications of bulk pair \<open>i\<close> of \<open>InstallBulkTransfers\<close>: the sink on right
  leaf \<open>i\<close> at its address and port \<open>port + i\<close> (16-bit), then the sender on left leaf
  \<open>i\<close> towards it.
\<close>

definition bulk_apps :: "dumbbell \<Rightarrow> port \<Rightarrow> seconds \<Rightarrow> seconds \<Rightarrow> nat \<Rightarrow> app list" where
  "bulk_apps db port s t i =
     [\<lparr>app_node = db_right db ! i, app_kind = PacketSink Tcp (db_right_leaf_ifs db ! i, port + of_nat i),
       app_start = s, app_stop = t\<rparr>,
      \<lparr>app_node = db_left db ! i, app_kind = BulkSend Tcp (db_right_leaf_ifs db ! i, port + of_nat i) 0,
       app_start = s, app_stop = t\<rparr>]"

section \<open>What the installers build\<close>

lemmas install_simps = install_scheduled_def install_app_def apps_start_def apps_stop_def Let_def

lemma install_scheduled_eq:
  "install_scheduled k n s t w =
     ([length (w_apps w)], w\<lparr>w_apps := w_apps w @ [\<lparr>app_node = n, app_kind = k, app_start = s, app_stop = t\<rparr>]\<rparr>)"
  by (simp add: install_simps)

lemma S1_traffic_apps:
  "w_apps w = [] \<Longrightarrow> InstallBulkTransfers S1_handles 0 T (S1_state q w) = (S1_state q w)\<lparr>w_apps := S1_apps T\<rparr>"
  by (simp add: InstallBulkTransfers_def S1_handles_def S1_apps_def S1_state_def install_simps upt_rec)

lemma S2_traffic_apps:
  "w_apps w = [] \<Longrightarrow> S2_traffic S2_handles T (S2_state q w) = (S2_state q w)\<lparr>w_apps := S2_apps T\<rparr>"
  by (simp add: S2_traffic_def InstallShortWebTraffic_def S2_handles_def S2_apps_def S2_state_def install_simps)

lemma S3_traffic_apps:
  "w_apps w = [] \<Longrightarrow> S3_traffic S3_handles T (S3_state q r w) = (S3_state q r w)\<lparr>w_apps := S3_apps T\<rparr>"
  by (simp add: S3_traffic_def S3_handles_def S3_apps_def S3_state_def install_simps)

lemmas flow_simps = flows_ok_def flows_served_def sink_ports_distinct_def windows_ordered_def serves_def
  addr_owner_def is_sender_def sender_remote_def app_proto_def sink_key_def List.map_filter_def

lemma S1_flows: "0 \<le> T \<Longrightarrow> flows_ok ((S1_state q w)\<lparr>w_apps := S1_apps T\<rparr>)"
  by (simp add: flow_simps S1_state_def S1_apps_def p2p_dev_def ip4_def ipv4_any_def)

lemma S2_flows: "6 \<le> T \<Longrightarrow> flows_ok ((S2_state q w)\<lparr>w_apps := S2_apps T\<rparr>)"
  by (simp add: flow_simps S2_state_def S2_apps_def p2p_dev_def ip4_def ipv4_any_def)

lemma S3_flows: "5 \<le> T \<Longrightarrow> flows_ok ((S3_state q r w)\<lparr>w_apps := S3_apps T\<rparr>)"
  by (simp add: flow_simps S3_state_def S3_apps_def p2p_dev_def ip4_def ipv4_any_def)

lemma S4_flows: "5 \<le> T \<Longrightarrow> flows_ok ((S4_state w)\<lparr>w_apps := S4_apps T\<rparr>)"
  by (simp add: flow_simps S4_state_def S4_apps_def p2p_dev_def ip4_def ipv4_any_def)

lemma S2_short_window: "T < 6 \<Longrightarrow> \<not> windows_ordered ((S2_state q w)\<lparr>w_apps := S2_apps T\<rparr>)"
  by (simp add: windows_ordered_def S2_apps_def)

lemma S3_order: "\<not> sinks_first ((S3_state q r w)\<lparr>w_apps := S3_apps T\<rparr>)"
  by (simp add: sinks_first_def flow_simps S3_state_def S3_apps_def p2p_dev_def ip4_def ipv4_any_def upt_rec)

section \<open>Properties of the installed flows\<close>

text \<open>
  C14. The loop of \<open>InstallBulkTransfers\<close> is equivalent to its closed form: it
  appends, for each left leaf \<open>i\<close> in order, the sink on right leaf \<open>i\<close> listening on
  the leaf's address at port \<open>5000 + i\<close> (modulo \<open>2^16\<close>) and the unlimited sender on
  left leaf \<open>i\<close> towards it, both scheduled for \<open>[start, stop]\<close>, and changes nothing else.
\<close>

theorem InstallBulkTransfers_closed_form:
  "InstallBulkTransfers db s t w =
     w\<lparr>w_apps := w_apps w @ concat (map (bulk_apps db 5000 s t) [0..<length (db_left db)])\<rparr>"
proof -
  have "bulk_pairs db port s t xs w = w\<lparr>w_apps := w_apps w @ concat (map (bulk_apps db port s t) xs)\<rparr>" for port xs w
    by (induction xs arbitrary: w) (simp_all add: install_scheduled_eq bulk_apps_def Let_def)
  then show ?thesis
    by (simp add: InstallBulkTransfers_def)
qed

text \<open>
  C13. The flow invariant of the spec holds for the traffic of S1 to S4 built from a
  state without topology, for every run of at least 6 s: every sender has a sink of its
  protocol on the node owning its destination address, listening on its port and started
  no later; no two sinks of one protocol share a port on a node; and every application
  stops no earlier than it starts.
\<close>

theorem traffic_flows_ok:
  assumes "no_topology w" and "6 \<le> T"
  shows "(\<exists>db w1. S1_topology q w = Inr (db, w1) \<and> flows_ok (InstallBulkTransfers db 0 T w1))
       \<and> (\<exists>t w1. S2_topology q w = Inr (t, w1) \<and> flows_ok (S2_traffic t T w1))
       \<and> (\<exists>t w1. S3_topology q r w = Inr (t, w1) \<and> flows_ok (S3_traffic t T w1))
       \<and> (\<exists>t w1. S4_topology w = Inr (t, w1) \<and> flows_ok (snd (S4_traffic t T w1)))"
proof -
  have a: "w_apps w = []" and a4: "w_apps (S4_state w) = []"
    using assms(1) by (simp_all add: no_topology_def S4_state_def)
  have "0 \<le> T" and "5 \<le> T"
    using assms(2) by simp_all
  then show ?thesis
    using S1_flows S2_flows [OF assms(2)] S3_flows S4_flows
    by (simp add: S1_result S2_result S3_result S4_result assms(1) S1_traffic_apps S2_traffic_apps S3_traffic_apps
                  S4_traffic_result [OF a4] a)
qed

lemma traffic_flows_ok_witness:
  "(\<exists>db w1. S1_topology ''100p'' (world0 {} {}) = Inr (db, w1) \<and> flows_ok (InstallBulkTransfers db 0 120 w1))
   \<and> (\<exists>t w1. S2_topology ''100p'' (world0 {} {}) = Inr (t, w1) \<and> flows_ok (S2_traffic t 120 w1))
   \<and> (\<exists>t w1. S3_topology ''100p'' 0.01 (world0 {} {}) = Inr (t, w1) \<and> flows_ok (S3_traffic t 120 w1))
   \<and> (\<exists>t w1. S4_topology (world0 {} {}) = Inr (t, w1) \<and> flows_ok (snd (S4_traffic t 120 w1)))"
  using traffic_flows_ok [OF no_topology_world0, where q = "''100p''" and r = "0.01" and T = 120]
  by simp

text \<open>
  C27. S2 breaks the flow window invariant on short runs: its web clients start at
  \<open>5 + 1\<close> s and stop at the simulation time, so for a run shorter than 6 s (a valid
  duration) they are scheduled to stop before they start.
\<close>

theorem S2_short_run_window:
  assumes "no_topology w" and "T < 6"
  shows "\<exists>t w1. S2_topology q w = Inr (t, w1) \<and> \<not> windows_ordered (S2_traffic t T w1)"
proof -
  have "w_apps w = []"
    using assms(1) by (simp add: no_topology_def)
  with S2_short_window [OF assms(2)] show ?thesis
    by (simp add: S2_result [OF assms(1)] S2_traffic_apps)
qed

lemma S2_short_run_window_witness:
  "\<exists>t w1. S2_topology ''100p'' (world0 {} {}) = Inr (t, w1) \<and> \<not> windows_ordered (S2_traffic t 5 w1)"
  using S2_short_run_window [OF no_topology_world0, where q = "''100p''" and T = 5]
  by simp

text \<open>
  C28. S3 installs its UDP cross-traffic source before the UDP sink that serves it,
  against the installer's contract of installing each sink before its source; the flows
  are still served, because both start at 5 s.
\<close>

theorem S3_source_before_sink:
  assumes "no_topology w" and "5 \<le> T"
  shows "\<exists>t w1. S3_topology q r w = Inr (t, w1) \<and> \<not> sinks_first (S3_traffic t T w1) \<and> flows_ok (S3_traffic t T w1)"
proof -
  have "w_apps w = []"
    using assms(1) by (simp add: no_topology_def)
  with S3_order S3_flows [OF assms(2)] show ?thesis
    by (simp add: S3_result [OF assms(1)] S3_traffic_apps)
qed

lemma S3_source_before_sink_witness:
  "\<exists>t w1. S3_topology ''100p'' 0 (world0 {} {}) = Inr (t, w1) \<and> \<not> sinks_first (S3_traffic t 120 w1)
     \<and> flows_ok (S3_traffic t 120 w1)"
  using S3_source_before_sink [OF no_topology_world0, where q = "''100p''" and r = 0 and T = 120]
  by simp

end
