(* ===== verification/CwndTrace.thy ===== *)
theory CwndTrace
  imports Flows Orchestrator
begin

text \<open>
  The content of \<open>cwnd.csv\<close>: the tracer connected at 0.1 s (\<open>InstallCwndTracer\<close>,
  \<open>src/ns3/tcp_compare.cc\<close> lines 87--93, scheduled at lines 187, 289, 380, 420) appends
  one row per window change of a connected socket (\<open>CwndTracer\<close>, lines 81--85) until
  the engine stops. The theory splits the run's timeline at the tracer and the stop event
  and follows the file through each part.
\<close>

section \<open>Definitions\<close>

text \<open>
  The rows the spec promises: the window changes of the sockets \<open>I\<close>, in time order, from
  the tracer's connection at \<open>a\<close> up to the stop time \<open>T\<close> (a change at \<open>T\<close> itself comes
  after the stop event, which was scheduled first).
\<close>

definition trace_rows :: "nat list \<Rightarrow> seconds \<Rightarrow> seconds \<Rightarrow> cwnd_change list \<Rightarrow> (seconds \<times> 32 word \<times> 32 word) list" where
  "trace_rows I a T env =
     map (\<lambda>(t, i, o', n). (t, o', n)) (filter (\<lambda>(t, i, _, _). i \<in> set I \<and> a \<le> t \<and> t < T) (sort_key fst env))"

section \<open>The timeline around the tracer and the stop event\<close>

lemma insort_key_split:
  "sorted (map f ys) \<Longrightarrow> insort_key f x ys = filter (\<lambda>y. f y < f x) ys @ x # filter (\<lambda>y. f x \<le> f y) ys"
proof (induction ys)
  case (Cons y ys)
  show ?case
  proof (cases "f x \<le> f y")
    case True
    with Cons.prems have all: "\<forall>z \<in> set ys. f x \<le> f z"
      by auto
    then have "filter (\<lambda>z. f z < f x) ys = []" and "filter (\<lambda>z. f x \<le> f z) ys = ys"
      by (auto simp: filter_empty_conv filter_id_conv not_less)
    with True show ?thesis
      by simp
  next
    case False
    with Cons show ?thesis
      by simp
  qed
qed simp

definition changes :: "cwnd_change list \<Rightarrow> (seconds \<times> item) list" where
  "changes env = map (\<lambda>(t, i, o', n). (t, CwndChange i o' n)) env"

lemma timeline_split:
  assumes "a \<le> T"
  shows "timeline [(a, e1), (T, e2)] env =
           sort_key fst (filter (\<lambda>x. fst x < a) (changes env)) @ (a, Sched e1)
           # sort_key fst (filter (\<lambda>x. a \<le> fst x \<and> fst x < T) (changes env)) @ (T, Sched e2)
           # sort_key fst (filter (\<lambda>x. T \<le> fst x) (changes env))"
proof -
  let ?C = "sort_key fst (changes env)"
  let ?L = "filter (\<lambda>y. fst y < T) ?C @ (T, Sched e2) # filter (\<lambda>y. T \<le> fst y) ?C"
  have "timeline [(a, e1), (T, e2)] env = insort_key fst (a, Sched e1) (insort_key fst (T, Sched e2) ?C)"
    by (simp add: timeline_def changes_def)
  also have "insort_key fst (T, Sched e2) ?C = ?L"
    by (simp add: insort_key_split)
  also have "insort_key fst (a, Sched e1) ?L = filter (\<lambda>y. fst y < a) ?L @ (a, Sched e1) # filter (\<lambda>y. a \<le> fst y) ?L"
  proof -
    have "sorted (map fst (insort_key fst (T, Sched e2) ?C))"
      by (simp add: sorted_insort_key)
    then have "sorted (map fst ?L)"
      by (simp only: insort_key_split [OF sorted_sort_key] fst_conv)
    from insort_key_split [OF this, of "(a, Sched e1)"] show ?thesis
      by simp
  qed
  also have "\<dots> = filter (\<lambda>y. fst y < a) ?C @ (a, Sched e1) # filter (\<lambda>x. a \<le> fst x \<and> fst x < T) ?C @ (T, Sched e2)
                   # filter (\<lambda>y. T \<le> fst y) ?C"
  proof -
    have "filter (\<lambda>x. fst x < T \<and> fst x < a) ?C = filter (\<lambda>y. fst y < a) ?C"
      and "filter (\<lambda>x. fst x < T \<and> a \<le> fst x) ?C = filter (\<lambda>x. a \<le> fst x \<and> fst x < T) ?C"
      and "filter (\<lambda>x. T \<le> fst x \<and> a \<le> fst x) ?C = filter (\<lambda>y. T \<le> fst y) ?C"
      using assms by (auto intro: filter_cong)
    with assms show ?thesis
      by (simp add: filter_filter)
  qed
  finally show ?thesis
    by (simp add: filter_sort)
qed

lemma insort_key_map: "insort_key fst (g x) (map g ys) = map g (insort_key fst x ys)" if "\<And>x. fst (g x) = fst x"
  by (induction ys) (simp_all add: that)

lemma sort_key_changes: "sort_key fst (changes env) = changes (sort_key fst env)"
proof (induction env)
  case (Cons x env)
  let ?g = "\<lambda>(t, i, o', n). (t, CwndChange i o' n)"
  have "sort_key fst (changes (x # env)) = insort_key fst (?g x) (map ?g (sort_key fst env))"
    using Cons by (simp add: changes_def)
  also have "\<dots> = map ?g (insort_key fst x (sort_key fst env))"
    by (rule insort_key_map) (simp add: split_beta)
  finally show ?case
    by (simp add: changes_def)
qed (simp add: changes_def)

lemma filter_changes: "filter (\<lambda>x. P (fst x)) (changes env) = changes (filter (\<lambda>x. P (fst x)) env)"
  by (induction env) (auto simp: changes_def split: prod.splits)

section \<open>The run, part by part\<close>

text \<open>
  A stretch of window changes with the tracer connected to the sockets \<open>I\<close>, all on one
  file: every change of a socket in \<open>I\<close> appends a row stamped with its time.
\<close>

lemma notify_one_file:
  assumes "distinct (map fst cs)" and "\<forall>c \<in> set cs. snd c = f" and "w_files w f = Some (CwndCsv rows)"
  shows "w_files (fold (\<lambda>(j, s) w'. if j = i then CwndTracer s o' n w' else w') cs w) f
           = Some (CwndCsv (rows @ (if i \<in> fst ` set cs then [(w_now w, o', n)] else [])))
         \<and> w_now (fold (\<lambda>(j, s) w'. if j = i then CwndTracer s o' n w' else w') cs w) = w_now w
         \<and> w_apps (fold (\<lambda>(j, s) w'. if j = i then CwndTracer s o' n w' else w') cs w) = w_apps w
         \<and> w_cwnd_conns (fold (\<lambda>(j, s) w'. if j = i then CwndTracer s o' n w' else w') cs w) = w_cwnd_conns w"
  using assms
proof (induction cs arbitrary: w rows)
  case (Cons c cs)
  obtain j s where c: "c = (j, s)" by fastforce
  with Cons.prems have s: "s = f" and j: "j \<notin> fst ` set cs" by auto
  show ?case
  proof (cases "j = i")
    case True
    let ?w1 = "CwndTracer f o' n w"
    have "w_files ?w1 f = Some (CwndCsv (rows @ [(w_now w, o', n)]))"
      using Cons.prems(3) by (simp add: CwndTracer_def)
    moreover have "w_now ?w1 = w_now w" "w_apps ?w1 = w_apps w" "w_cwnd_conns ?w1 = w_cwnd_conns w"
      using Cons.prems(3) by (simp_all add: CwndTracer_def)
    ultimately show ?thesis
      using Cons.IH [of ?w1 "rows @ [(w_now w, o', n)]"] Cons.prems(1,2) True j by (simp add: c s)
  next
    case False
    then show ?thesis
      using Cons.IH [of w rows] Cons.prems by (simp add: c)
  qed
qed simp

lemma run_changes:
  assumes "w_cwnd_conns w = map (\<lambda>i. (i, f)) I" and "distinct I" and "w_files w f = Some (CwndCsv rows)"
  shows "w_files (run_items exec_event notify_cwnd (changes ys) w) f
           = Some (CwndCsv (rows @ map (\<lambda>(t, i, o', n). (t, o', n)) (filter (\<lambda>(t, i, _, _). i \<in> set I) ys)))
         \<and> w_apps (run_items exec_event notify_cwnd (changes ys) w) = w_apps w
         \<and> w_cwnd_conns (run_items exec_event notify_cwnd (changes ys) w) = w_cwnd_conns w"
  using assms
proof (induction ys arbitrary: w rows)
  case (Cons y ys)
  obtain t i o' n where y: "y = (t, i, o', n)" by (cases y) auto
  let ?w1 = "notify_cwnd i o' n (w\<lparr>w_now := t\<rparr>)"
  have "distinct (map fst (w_cwnd_conns (w\<lparr>w_now := t\<rparr>)))" and "\<forall>c \<in> set (w_cwnd_conns (w\<lparr>w_now := t\<rparr>)). snd c = f"
    using Cons.prems(1,2) by (simp_all add: comp_def)
  from notify_one_file [OF this, of "w\<lparr>w_now := t\<rparr>" rows i o' n] Cons.prems(1,3)
  have n: "w_files ?w1 f = Some (CwndCsv (rows @ (if i \<in> set I then [(t, o', n)] else [])))"
    "w_apps ?w1 = w_apps w" "w_cwnd_conns ?w1 = w_cwnd_conns w"
    by (simp_all add: notify_cwnd_def image_image)
  have "run_items exec_event notify_cwnd (changes (y # ys)) w = run_items exec_event notify_cwnd (changes ys) ?w1"
    by (simp add: changes_def y)
  with Cons.IH [of ?w1 "rows @ (if i \<in> set I then [(t, o', n)] else [])"] n Cons.prems(1,2) show ?case
    by (simp add: y)
qed (simp add: changes_def)

lemma changes_nostop: "\<forall>x \<in> set (changes ys). snd x \<noteq> Sched EvStop"
  by (auto simp: changes_def)

lemma trace_rows_mid:
  "map (\<lambda>(t, i, o', n). (t, o', n)) (filter (\<lambda>(t, i, _, _). i \<in> set I)
      (sort_key fst (filter (\<lambda>x. a \<le> fst x \<and> fst x < T) env))) = trace_rows I a T env"
proof -
  have "filter (\<lambda>(t, i, _, _). i \<in> set I) (filter (\<lambda>x. a \<le> fst x \<and> fst x < T) (sort_key fst env))
        = filter (\<lambda>(t, i, _, _). i \<in> set I \<and> a \<le> t \<and> t < T) (sort_key fst env)"
    by (simp add: filter_filter) (rule filter_cong, auto)
  then show ?thesis
    by (simp add: trace_rows_def filter_sort)
qed

text \<open>
  A run whose only events are the tracer at \<open>a\<close> and the stop at \<open>T\<close>, with the trace file
  freshly created and no socket connected yet: the file ends with exactly the rows of the
  sockets that exist on the traced node at \<open>a\<close>.
\<close>

lemma run_trace:
  assumes ev: "w_events W = [(a, EvInstallCwndTracer n f), (T, EvStop)]" and aT: "a \<le> T"
    and fl: "w_files W f = Some (CwndCsv [])" and cn: "w_cwnd_conns W = []"
  shows "w_files (run env W) f
           = Some (CwndCsv (trace_rows (filter (tcp_socket_exists (W\<lparr>w_now := a\<rparr>) n) [0..<length (w_apps W)]) a T env))"
proof -
  let ?pre = "sort_key fst (filter (\<lambda>x. fst x < a) env)"
  let ?mid = "sort_key fst (filter (\<lambda>x. a \<le> fst x \<and> fst x < T) env)"
  let ?post = "sort_key fst (filter (\<lambda>x. T \<le> fst x) env)"
  have tl: "timeline (w_events W) env
              = changes ?pre @ (a, Sched (EvInstallCwndTracer n f)) # changes ?mid @ (T, Sched EvStop) # changes ?post"
    using timeline_split [OF aT, of "EvInstallCwndTracer n f" EvStop env]
    by (simp add: ev filter_changes [of "\<lambda>t. t < a"] filter_changes [of "\<lambda>t. a \<le> t \<and> t < T"]
                  filter_changes [of "\<lambda>t. T \<le> t"] sort_key_changes)
  let ?W1 = "run_items exec_event notify_cwnd (changes ?pre) W"
  from run_changes [of W f "[]" "[]" ?pre] cn fl
  have w1: "w_files ?W1 f = Some (CwndCsv [])" "w_apps ?W1 = w_apps W" "w_cwnd_conns ?W1 = []"
    by simp_all
  let ?I = "filter (tcp_socket_exists (W\<lparr>w_now := a\<rparr>) n) [0..<length (w_apps W)]"
  let ?W2 = "InstallCwndTracer n f (?W1\<lparr>w_now := a\<rparr>)"
  have "tcp_socket_exists (?W1\<lparr>w_now := a\<rparr>) = tcp_socket_exists (W\<lparr>w_now := a\<rparr>)"
    using w1(2) by (intro tcp_socket_exists_cong) simp_all
  then have w2: "w_cwnd_conns ?W2 = map (\<lambda>i. (i, f)) ?I" "w_files ?W2 f = Some (CwndCsv [])"
    using w1 by (simp_all add: InstallCwndTracer_def)
  let ?W3 = "run_items exec_event notify_cwnd (changes ?mid) ?W2"
  have "distinct ?I"
    by simp
  from run_changes [OF w2(1) this w2(2), of ?mid]
  have "w_files ?W3 f = Some (CwndCsv ([] @ map (\<lambda>(t, i, o', n). (t, o', n)) (filter (\<lambda>(t, i, _, _). i \<in> set ?I) ?mid)))"
    by (rule conjunct1)
  then have w3: "w_files ?W3 f = Some (CwndCsv (trace_rows ?I a T env))"
    by (simp only: append_Nil trace_rows_mid)
  have "run env W = run_items exec_event notify_cwnd
          (changes ?pre @ (a, Sched (EvInstallCwndTracer n f)) # changes ?mid @ (T, Sched EvStop) # changes ?post) W"
    by (simp add: run_def Simulator_Run_def tl)
  also have "\<dots> = run_items exec_event notify_cwnd ((T, Sched EvStop) # changes ?post) ?W3"
    using changes_nostop by (simp add: run_items_append_nostop)
  finally show ?thesis
    using w3 by simp
qed

section \<open>The trace file of a scenario\<close>

lemma tail_trace:
  assumes "dirs_creatable opts w" and "1 / 10 \<le> simulationTime opts"
    and "w_events w = []" and "w_now w = 0" and "w_cwnd_conns w = []"
  shows "\<exists>w'. rbind (open_cwnd_trace opts n w) (\<lambda>(d, w3). monitor_and_run opts env d w3) = Inr w'
           \<and> w_files w' (cwnd_file (output_dir_name opts))
               = Some (CwndCsv (trace_rows (filter (tcp_socket_exists (w\<lparr>w_now := 1 / 10\<rparr>) n) [0..<length (w_apps w)])
                                 (1 / 10) (simulationTime opts) env))"
proof -
  let ?f = "cwnd_file (output_dir_name opts)" and ?T = "simulationTime opts"
  let ?w3 = "w\<lparr>w_dirs := w_dirs w \<union> set (path_prefixes (output_dir_name opts)),
                w_files := (w_files w)(?f \<mapsto> CwndCsv []),
                w_events := w_events w @ [(w_now w + 0.1, EvInstallCwndTracer n ?f)]\<rparr>"
  let ?W1 = "if enableFlowMonitor opts then flowmon_install_all ?w3 else ?w3"
  let ?W = "?W1\<lparr>w_events := w_events ?W1 @ [(w_now ?W1 + ?T, EvStop)]\<rparr>"
  have "w_events ?W = [(1 / 10, EvInstallCwndTracer n ?f), (?T, EvStop)]" "w_files ?W ?f = Some (CwndCsv [])"
    "w_cwnd_conns ?W = []"
    using assms(3-5) by (simp_all add: flowmon_install_all_def)
  from run_trace [OF this(1) assms(2) this(2,3), of env]
  have r: "w_files (run env ?W) ?f = Some (CwndCsv (trace_rows (filter (tcp_socket_exists (?W\<lparr>w_now := 1 / 10\<rparr>) n)
                                      [0..<length (w_apps ?W)]) (1 / 10) ?T env))" .
  have "tcp_socket_exists (?W\<lparr>w_now := 1 / 10\<rparr>) = tcp_socket_exists (w\<lparr>w_now := 1 / 10\<rparr>)"
    by (intro tcp_socket_exists_cong) (simp_all add: flowmon_install_all_def)
  moreover have "length (w_apps ?W) = length (w_apps w)"
    by (simp add: flowmon_install_all_def)
  ultimately have "w_files (run env ?W) ?f = Some (CwndCsv (trace_rows (filter (tcp_socket_exists (w\<lparr>w_now := 1 / 10\<rparr>) n)
                                      [0..<length (w_apps w)]) (1 / 10) ?T env))"
    using r by simp
  moreover have "0 \<le> ?T"
    using assms(2) by simp
  ultimately show ?thesis
    using assms(1)
    by (cases "enableFlowMonitor opts")
       (simp_all add: open_cwnd_trace_ok monitor_and_run_eq Let_def Simulator_Destroy_def SerializeFlowMonitor_def)
qed

lemma scenario_trace:
  assumes "B = rbind (open_cwnd_trace opts n W) (\<lambda>(d, w3). monitor_and_run opts env d w3)"
    and "host_io W = host_io w" and "dirs_creatable opts w" and "1 / 10 \<le> simulationTime opts"
    and "w_events W = []" and "w_now W = 0" and "w_cwnd_conns W = []"
    and "filter (tcp_socket_exists (W\<lparr>w_now := 1 / 10\<rparr>) n) [0..<length (w_apps W)] = I"
  shows "\<exists>w'. B = Inr w' \<and> w_files w' (cwnd_file (output_dir_name opts))
                                = Some (CwndCsv (trace_rows I (1 / 10) (simulationTime opts) env))"
proof -
  have "dirs_creatable opts W"
    using assms(3) by (simp only: dirs_creatable_host_io [OF assms(2)])
  from tail_trace [OF this assms(4-7), of n env] obtain w' where
    r: "rbind (open_cwnd_trace opts n W) (\<lambda>(d, w3). monitor_and_run opts env d w3) = Inr w'"
    and f: "w_files w' (cwnd_file (output_dir_name opts))
              = Some (CwndCsv (trace_rows (filter (tcp_socket_exists (W\<lparr>w_now := 1 / 10\<rparr>) n) [0..<length (w_apps W)])
                                 (1 / 10) (simulationTime opts) env))"
    by (elim exE conjE)
  have "B = Inr w'"
    using assms(1) r by (simp only:)
  moreover have "w_files w' (cwnd_file (output_dir_name opts)) = Some (CwndCsv (trace_rows I (1 / 10) (simulationTime opts) env))"
    using f by (simp only: assms(8))
  ultimately show ?thesis
    by blast
qed

lemma S1_build_tail:
  "no_topology w \<Longrightarrow> BuildScenarioS1 opts env w =
     rbind (open_cwnd_trace opts 2 ((S1_state (queueSize opts) w)\<lparr>w_apps := S1_apps (simulationTime opts)\<rparr>))
       (\<lambda>(d, w3). monitor_and_run opts env d w3)"
proof -
  assume n: "no_topology w"
  then have a: "w_apps w = []"
    by (simp add: no_topology_def)
  have h: "db_left S1_handles ! 0 = 2"
    by (simp add: S1_handles_def)
  show ?thesis
    by (simp add: BuildScenarioS1_def S1_result [OF n] S1_traffic_apps [OF a] h)
qed

lemma S2_build_tail:
  "no_topology w \<Longrightarrow> BuildScenarioS2 opts env w =
     rbind (open_cwnd_trace opts 0 ((S2_state (queueSize opts) w)\<lparr>w_apps := S2_apps (simulationTime opts)\<rparr>))
       (\<lambda>(d, w3). monitor_and_run opts env d w3)"
proof -
  assume n: "no_topology w"
  then have a: "w_apps w = []"
    by (simp add: no_topology_def)
  have h: "s2_left S2_handles ! 0 = 0"
    by (simp add: S2_handles_def)
  show ?thesis
    by (simp add: BuildScenarioS2_def S2_result [OF n] S2_traffic_apps [OF a] h)
qed

lemma S3_build_tail:
  "no_topology w \<Longrightarrow> BuildScenarioS3 opts env w =
     rbind (open_cwnd_trace opts 0 ((S3_state (queueSize opts) (lossRate opts) w)\<lparr>w_apps := S3_apps (simulationTime opts)\<rparr>))
       (\<lambda>(d, w3). monitor_and_run opts env d w3)"
proof -
  assume n: "no_topology w"
  then have a: "w_apps w = []"
    by (simp add: no_topology_def)
  have h: "s3_nodes S3_handles ! 0 = 0"
    by (simp add: S3_handles_def)
  show ?thesis
    by (simp add: BuildScenarioS3_def S3_result [OF n] S3_traffic_apps [OF a] h)
qed

section \<open>Properties of the trace\<close>

text \<open>
  C8. The congestion-window trace of S1, S2 and S3: for a run of at least 0.1 s from a
  state without topology whose output path may be created, \<open>cwnd.csv\<close> holds exactly
  the window changes of application 1 (the bulk sender of the first left host, or of the
  chain's first node), in time order, from the tracer's connection at 0.1 s up to the stop
  time; changes of every other socket (the S2 web client starts after 0.1 s, the S3
  cross traffic is UDP), before 0.1 s, or at or after the stop time leave no row.
\<close>

theorem cwnd_trace_rows:
  assumes "no_topology w" and "dirs_creatable opts w" and "1 / 10 \<le> simulationTime opts"
  shows "(\<exists>w'. BuildScenarioS1 opts env w = Inr w' \<and> w_files w' (cwnd_file (output_dir_name opts))
                   = Some (CwndCsv (trace_rows [1] (1 / 10) (simulationTime opts) env)))
       \<and> (\<exists>w'. BuildScenarioS2 opts env w = Inr w' \<and> w_files w' (cwnd_file (output_dir_name opts))
                   = Some (CwndCsv (trace_rows [1] (1 / 10) (simulationTime opts) env)))
       \<and> (\<exists>w'. BuildScenarioS3 opts env w = Inr w' \<and> w_files w' (cwnd_file (output_dir_name opts))
                   = Some (CwndCsv (trace_rows [1] (1 / 10) (simulationTime opts) env)))"
proof -
  have e: "w_events w = []" "w_now w = 0" "w_cwnd_conns w = []"
    using assms(1) by (simp_all add: no_topology_def)
  show ?thesis
  proof (intro conjI)
    show "\<exists>w'. BuildScenarioS1 opts env w = Inr w' \<and> w_files w' (cwnd_file (output_dir_name opts))
                   = Some (CwndCsv (trace_rows [1] (1 / 10) (simulationTime opts) env))"
      by (rule scenario_trace [OF S1_build_tail [OF assms(1)] _ assms(2,3) _ _ _ _])
         (simp_all add: frame_simps e S1_state_def tcp_socket_exists_def S1_apps_def app_proto_def upt_rec)
    show "\<exists>w'. BuildScenarioS2 opts env w = Inr w' \<and> w_files w' (cwnd_file (output_dir_name opts))
                   = Some (CwndCsv (trace_rows [1] (1 / 10) (simulationTime opts) env))"
      by (rule scenario_trace [OF S2_build_tail [OF assms(1)] _ assms(2,3) _ _ _ _])
         (simp_all add: frame_simps e S2_state_def tcp_socket_exists_def S2_apps_def app_proto_def upt_rec)
    show "\<exists>w'. BuildScenarioS3 opts env w = Inr w' \<and> w_files w' (cwnd_file (output_dir_name opts))
                   = Some (CwndCsv (trace_rows [1] (1 / 10) (simulationTime opts) env))"
      by (rule scenario_trace [OF S3_build_tail [OF assms(1)] _ assms(2,3) _ _ _ _])
         (simp_all add: frame_simps e S3_state_def tcp_socket_exists_def S3_apps_def app_proto_def upt_rec)
  qed
qed

lemma cwnd_trace_rows_witness:
  "(\<exists>w'. BuildScenarioS1 default_options [(0.05, 1, 10, 20), (1, 1, 20, 40), (2, 3, 10, 11), (130, 1, 40, 80)] (world0 {} {}) = Inr w'
       \<and> w_files w' (cwnd_file (output_dir_name default_options)) = Some (CwndCsv [(1, 20, 40)]))
   \<and> (\<exists>w'. BuildScenarioS2 default_options [] (world0 {} {}) = Inr w'
       \<and> w_files w' (cwnd_file (output_dir_name default_options)) = Some (CwndCsv []))
   \<and> (\<exists>w'. BuildScenarioS3 default_options [] (world0 {} {}) = Inr w'
       \<and> w_files w' (cwnd_file (output_dir_name default_options)) = Some (CwndCsv []))"
proof -
  have "1 / 10 \<le> simulationTime default_options"
    by (simp add: default_options_def)
  from cwnd_trace_rows [OF no_topology_world0 dirs_creatable_world0 this,
      of "[(0.05, 1, 10, 20), (1, 1, 20, 40), (2, 3, 10, 11), (130, 1, 40, 80)]"]
       cwnd_trace_rows [OF no_topology_world0 dirs_creatable_world0 this, of "[]"]
  show ?thesis
    by (simp add: trace_rows_def default_options_def)
qed

end
