(* ===== verification/TraceOrder.thy ===== *)
theory TraceOrder
  imports CwndTrace
begin

text \<open>
  The order of the congestion-window trace. A run-level invariant of the engine: while the
  timeline is executed in time order, every row the tracer appends to a \<open>cwnd.csv\<close> stream
  carries the current clock, no tracer of that stream is connected before the time of its
  \<open>EvInstallCwndTracer\<close> event, and so the rows of the stream stay sorted by time, no earlier
  than the tracer's installation and no later than the stop event. Applied to the five
  scenarios, this is the spec's trace property (timestamps non-decreasing, the first no
  earlier than 0.1 s).
\<close>

section \<open>Ordered rows\<close>

definition rows_ordered :: "seconds \<Rightarrow> seconds \<Rightarrow> (seconds \<times> 32 word \<times> 32 word) list \<Rightarrow> bool" where
  "rows_ordered a b rows = (sorted (map fst rows) \<and> list_all (\<lambda>r. a \<le> fst r \<and> fst r \<le> b) rows)"

text \<open>
  The invariant of a run on the stream \<open>f\<close>, before the items \<open>xs\<close>: the stream is a trace
  file whose rows are sorted, no earlier than \<open>a\<close> and no later than any item still to come;
  a tracer of the stream is connected only once no item earlier than \<open>a\<close> remains; and no
  tracer of the stream is installed before \<open>a\<close>.
\<close>

definition stream_inv :: "string \<Rightarrow> seconds \<Rightarrow> (seconds \<times> item) list \<Rightarrow> world \<Rightarrow> bool" where
  "stream_inv f a xs w =
     ((\<exists>rows. w_files w f = Some (CwndCsv rows) \<and> sorted (map fst rows)
              \<and> (\<forall>r \<in> set rows. a \<le> fst r \<and> (\<forall>x \<in> set xs. fst r \<le> fst x)))
      \<and> ((\<exists>i. (i, f) \<in> set (w_cwnd_conns w)) \<longrightarrow> (\<forall>x \<in> set xs. a \<le> fst x))
      \<and> (\<forall>t n. (t, Sched (EvInstallCwndTracer n f)) \<in> set xs \<longrightarrow> a \<le> t))"

section \<open>The callbacks on one stream\<close>

lemma CwndTracer_fields [simp]:
  "w_now (CwndTracer s o' n w) = w_now w" "w_cwnd_conns (CwndTracer s o' n w) = w_cwnd_conns w"
  by (simp_all add: CwndTracer_def split: option.splits file_data.splits)

lemma fold_tracer_fields:
  "w_now (fold (\<lambda>(j, s) w'. if j = i then CwndTracer s o' n w' else w') cs w) = w_now w"
  "w_cwnd_conns (fold (\<lambda>(j, s) w'. if j = i then CwndTracer s o' n w' else w') cs w) = w_cwnd_conns w"
  by (induction cs arbitrary: w) auto

text \<open>A window change appends zero or more rows stamped with the clock to a stream, and none
  unless a tracer of that stream is connected.\<close>

lemma fold_tracer_file:
  "\<exists>k. w_files (fold (\<lambda>(j, s) w'. if j = i then CwndTracer s o' n w' else w') cs w) f
         = (case w_files w f of Some (CwndCsv rows) \<Rightarrow> Some (CwndCsv (rows @ replicate k (w_now w, o', n))) | x \<Rightarrow> x)
       \<and> (k \<noteq> 0 \<longrightarrow> (i, f) \<in> set cs)"
proof (induction cs arbitrary: w)
  case Nil
  show ?case
    by (intro exI [of _ 0]) (simp split: option.splits file_data.splits)
next
  case (Cons c cs)
  obtain j s where c: "c = (j, s)" by fastforce
  let ?w1 = "if j = i then CwndTracer s o' n w else w"
  have n1: "w_now ?w1 = w_now w"
    by simp
  from Cons.IH [of ?w1] obtain k where
    k: "w_files (fold (\<lambda>(j, s) w'. if j = i then CwndTracer s o' n w' else w') cs ?w1) f
          = (case w_files ?w1 f of Some (CwndCsv rows) \<Rightarrow> Some (CwndCsv (rows @ replicate k (w_now w, o', n))) | x \<Rightarrow> x)"
      and ki: "k \<noteq> 0 \<longrightarrow> (i, f) \<in> set cs"
    unfolding n1 by blast
  show ?case
  proof (cases "j = i \<and> s = f")
    case True
    then show ?thesis
      using k ki by (intro exI [of _ "Suc k"])
        (auto simp: c CwndTracer_def replicate_append_same split: option.splits file_data.splits)
  next
    case False
    have "w_files ?w1 f = w_files w f"
      using False by (auto simp: CwndTracer_def split: option.splits file_data.splits)
    then show ?thesis
      using k ki by (intro exI [of _ k]) (simp add: c)
  qed
qed

lemma exec_event_stream:
  "w_files (exec_event e w) = w_files w"
  "(i, f) \<in> set (w_cwnd_conns (exec_event e w))
     \<Longrightarrow> (i, f) \<in> set (w_cwnd_conns w) \<or> (\<exists>n. e = EvInstallCwndTracer n f)"
  by (cases e; auto simp: InstallCwndTracer_def SetOnOffRate_def split: option.splits app_kind.splits)+

section \<open>The invariant along the run\<close>

lemma stream_inv_sched:
  assumes "e \<noteq> EvStop" and "sorted (map fst ((t, Sched e) # xs))" and "stream_inv f a ((t, Sched e) # xs) w"
  shows "stream_inv f a xs (exec_event e (w\<lparr>w_now := t\<rparr>))"
proof -
  let ?w = "exec_event e (w\<lparr>w_now := t\<rparr>)"
  from assms(3) obtain rows where r: "w_files w f = Some (CwndCsv rows)" and s: "sorted (map fst rows)"
    and b: "\<forall>r \<in> set rows. a \<le> fst r \<and> (\<forall>x \<in> set ((t, Sched e) # xs). fst r \<le> fst x)"
    and cn: "(\<exists>i. (i, f) \<in> set (w_cwnd_conns w)) \<longrightarrow> (\<forall>x \<in> set ((t, Sched e) # xs). a \<le> fst x)"
    and ev: "\<forall>t' m. (t', Sched (EvInstallCwndTracer m f)) \<in> set ((t, Sched e) # xs) \<longrightarrow> a \<le> t'"
    unfolding stream_inv_def by blast
  have tx: "\<forall>x \<in> set xs. t \<le> fst x"
    using assms(2) by simp
  have "w_files ?w f = Some (CwndCsv rows)"
    using r by (simp add: exec_event_stream(1))
  moreover have "\<forall>r \<in> set rows. a \<le> fst r \<and> (\<forall>x \<in> set xs. fst r \<le> fst x)"
    using b by simp
  moreover have "\<forall>x \<in> set xs. a \<le> fst x" if "(i, f) \<in> set (w_cwnd_conns ?w)" for i
  proof -
    from exec_event_stream(2) [OF that] have "(i, f) \<in> set (w_cwnd_conns w) \<or> (\<exists>n. e = EvInstallCwndTracer n f)"
      by simp
    then have "a \<le> t"
      using cn ev by auto
    with tx show ?thesis
      by (auto intro: order_trans)
  qed
  moreover have "\<forall>t' m. (t', Sched (EvInstallCwndTracer m f)) \<in> set xs \<longrightarrow> a \<le> t'"
    using ev by simp
  ultimately show ?thesis
    using s unfolding stream_inv_def by blast
qed

lemma stream_inv_change:
  assumes "sorted (map fst ((t, CwndChange i o' n) # xs))" and "stream_inv f a ((t, CwndChange i o' n) # xs) w"
  shows "stream_inv f a xs (notify_cwnd i o' n (w\<lparr>w_now := t\<rparr>))"
proof -
  let ?w = "w\<lparr>w_now := t\<rparr>"
  from assms(2) obtain rows where r: "w_files w f = Some (CwndCsv rows)" and s: "sorted (map fst rows)"
    and b: "\<forall>r \<in> set rows. a \<le> fst r \<and> (\<forall>x \<in> set ((t, CwndChange i o' n) # xs). fst r \<le> fst x)"
    and cn: "(\<exists>i. (i, f) \<in> set (w_cwnd_conns w)) \<longrightarrow> (\<forall>x \<in> set ((t, CwndChange i o' n) # xs). a \<le> fst x)"
    and ev: "\<forall>t' m. (t', Sched (EvInstallCwndTracer m f)) \<in> set ((t, CwndChange i o' n) # xs) \<longrightarrow> a \<le> t'"
    unfolding stream_inv_def by blast
  from fold_tracer_file [of i o' n "w_cwnd_conns ?w" ?w f] r obtain k where
    k: "w_files (notify_cwnd i o' n ?w) f = Some (CwndCsv (rows @ replicate k (t, o', n)))"
    and ki: "k \<noteq> 0 \<longrightarrow> (i, f) \<in> set (w_cwnd_conns w)"
    by (auto simp: notify_cwnd_def)
  have tx: "\<forall>x \<in> set xs. t \<le> fst x"
    using assms(1) by simp
  have rt: "\<forall>r \<in> set rows. fst r \<le> t"
    using b by simp
  have at: "k \<noteq> 0 \<Longrightarrow> a \<le> t"
    using ki cn by auto
  have "sorted (map fst (rows @ replicate k (t, o', n)))"
    using s rt by (simp add: sorted_append)
  moreover have "\<forall>r \<in> set (rows @ replicate k (t, o', n)). a \<le> fst r \<and> (\<forall>x \<in> set xs. fst r \<le> fst x)"
    using b tx at by (cases "k = 0") auto
  moreover have c: "w_cwnd_conns (notify_cwnd i o' n ?w) = w_cwnd_conns w"
    by (simp add: notify_cwnd_def fold_tracer_fields)
  moreover have "(\<exists>i. (i, f) \<in> set (w_cwnd_conns w)) \<longrightarrow> (\<forall>x \<in> set xs. a \<le> fst x)"
    using cn by simp
  moreover have "\<forall>t' m. (t', Sched (EvInstallCwndTracer m f)) \<in> set xs \<longrightarrow> a \<le> t'"
    using ev by simp
  ultimately show ?thesis
    using k unfolding stream_inv_def by auto
qed

lemma run_items_stream:
  assumes "sorted (map fst xs)" and "stream_inv f a xs w"
  shows "\<exists>rows. w_files (run_items exec_event notify_cwnd xs w) f = Some (CwndCsv rows) \<and> sorted (map fst rows)
           \<and> (\<forall>r \<in> set rows. a \<le> fst r \<and> (\<forall>t. (t, Sched EvStop) \<in> set xs \<longrightarrow> fst r \<le> t))"
  using assms
proof (induction xs arbitrary: w)
  case Nil
  then show ?case
    by (simp add: stream_inv_def)
next
  case (Cons x xs)
  obtain t it where x: "x = (t, it)" by fastforce
  have sx: "sorted (map fst xs)"
    using Cons.prems(1) by simp
  show ?case
  proof (cases it)
    case (Sched e)
    show ?thesis
    proof (cases "e = EvStop")
      case True
      then show ?thesis
        using Cons.prems(2) by (fastforce simp: x Sched stream_inv_def)
    next
      case False
      have r: "run_items exec_event notify_cwnd ((t, Sched e) # xs) w = run_items exec_event notify_cwnd xs (exec_event e (w\<lparr>w_now := t\<rparr>))"
        using False by (cases e) simp_all
      from Cons.IH [OF sx stream_inv_sched [OF False _ Cons.prems(2) [unfolded x Sched]]] Cons.prems(1) False
      show ?thesis
        by (simp add: r x Sched)
    qed
  next
    case (CwndChange i o' n)
    have r: "run_items exec_event notify_cwnd ((t, CwndChange i o' n) # xs) w = run_items exec_event notify_cwnd xs (notify_cwnd i o' n (w\<lparr>w_now := t\<rparr>))"
      by simp
    from Cons.IH [OF sx stream_inv_change [OF _ Cons.prems(2) [unfolded x CwndChange]]] Cons.prems(1)
    show ?thesis
      by (simp add: r x CwndChange)
  qed
qed

section \<open>The trace file at the end of the run\<close>

lemma timeline_Sched: "(t, Sched e) \<in> set (timeline evs env) \<longleftrightarrow> (t, e) \<in> set evs"
  by (auto simp: timeline_def)

text \<open>
  The engine started on a state where the stream is a fresh trace file with no tracer
  connected, and every tracer of it scheduled no earlier than \<open>a\<close>: the rows it ends with
  are ordered, between \<open>a\<close> and the stop time.
\<close>

lemma monitor_rows:
  assumes "0 \<le> simulationTime opts" and "w_files W (cwnd_file d) = Some (CwndCsv [])" and "w_cwnd_conns W = []"
    and "\<forall>t m. (t, EvInstallCwndTracer m (cwnd_file d)) \<in> set (w_events W) \<longrightarrow> a \<le> t"
  shows "\<exists>w' rows. monitor_and_run opts env d W = Inr w' \<and> w_files w' (cwnd_file d) = Some (CwndCsv rows)
           \<and> rows_ordered a (w_now W + simulationTime opts) rows"
proof -
  let ?f = "cwnd_file d" and ?T = "simulationTime opts"
  let ?W1 = "if enableFlowMonitor opts then flowmon_install_all W else W"
  let ?W2 = "?W1\<lparr>w_events := w_events ?W1 @ [(w_now ?W1 + ?T, EvStop)]\<rparr>"
  have w2: "w_files ?W2 ?f = Some (CwndCsv [])" "w_cwnd_conns ?W2 = []"
    "w_events ?W2 = w_events W @ [(w_now W + ?T, EvStop)]"
    using assms(2,3) by (cases "enableFlowMonitor opts"; simp add: flowmon_install_all_def)+
  have "stream_inv ?f a (timeline (w_events ?W2) env) ?W2"
    using assms(4) w2 by (auto simp: stream_inv_def timeline_Sched)
  from run_items_stream [OF sorted_timeline this] obtain rows where
    r: "w_files (run env ?W2) ?f = Some (CwndCsv rows)" and s: "sorted (map fst rows)"
    and b: "\<forall>r \<in> set rows. a \<le> fst r \<and> (\<forall>t. (t, Sched EvStop) \<in> set (timeline (w_events ?W2) env) \<longrightarrow> fst r \<le> t)"
    by (auto simp: run_def Simulator_Run_def)
  have "rows_ordered a (w_now W + ?T) rows"
    using s b w2(3) by (auto simp: rows_ordered_def list_all_iff timeline_Sched)
  moreover have "w_files (Simulator_Destroy (if enableFlowMonitor opts then SerializeFlowMonitor (flowmon_file d) (run env ?W2)
                   else run env ?W2)) ?f = Some (CwndCsv rows)"
    using r by (cases "enableFlowMonitor opts") (simp_all add: Simulator_Destroy_def SerializeFlowMonitor_def)
  ultimately show ?thesis
    by (simp add: monitor_and_run_eq [OF assms(1)] Let_def)
qed

section \<open>The trace file of each scenario\<close>

abbreviation trace_ok :: "runtime_options \<Rightarrow> world \<Rightarrow> bool" where
  "trace_ok opts w' \<equiv> \<exists>rows. w_files w' (cwnd_file (output_dir_name opts)) = Some (CwndCsv rows)
                              \<and> rows_ordered (1 / 10) (simulationTime opts) rows"

lemma tail_rows:
  assumes "dirs_creatable opts W" and "0 \<le> simulationTime opts"
    and "w_events W = []" and "w_now W = 0" and "w_cwnd_conns W = []"
  shows "\<exists>w'. rbind (open_cwnd_trace opts n W) (\<lambda>(d, w3). monitor_and_run opts env d w3) = Inr w' \<and> trace_ok opts w'"
  using monitor_rows [OF assms(2), where a = "1 / 10" and d = "output_dir_name opts" and env = env
      and W = "W\<lparr>w_dirs := w_dirs W \<union> set (path_prefixes (output_dir_name opts)),
                  w_files := (w_files W)(cwnd_file (output_dir_name opts) \<mapsto> CwndCsv []),
                  w_events := w_events W @ [(w_now W + 0.1, EvInstallCwndTracer n (cwnd_file (output_dir_name opts)))]\<rparr>"]
  by (simp add: open_cwnd_trace_ok [OF assms(1)] assms(3-5))

lemma build_rows:
  assumes "topo = Inr (t, w1)" and "host_io (traffic t w1) = host_io w" and "no_topology w"
    and "dirs_creatable opts w" and "0 \<le> simulationTime opts"
  shows "\<exists>w'. rbind topo (\<lambda>(t, w1). let w2 = traffic t w1
             in rbind (open_cwnd_trace opts (node t) w2) (\<lambda>(d, w3). monitor_and_run opts env d w3)) = Inr w'
           \<and> trace_ok opts w'"
proof -
  have "dirs_creatable opts (traffic t w1)"
    using assms(4) by (simp only: dirs_creatable_host_io [OF assms(2)])
  moreover have "w_events (traffic t w1) = []" "w_now (traffic t w1) = 0" "w_cwnd_conns (traffic t w1) = []"
    using assms(2,3) by (simp_all add: host_io_def no_topology_def)
  ultimately have "\<exists>w'. rbind (open_cwnd_trace opts (node t) (traffic t w1)) (\<lambda>(d, w3). monitor_and_run opts env d w3) = Inr w'
                     \<and> trace_ok opts w'"
    using tail_rows [OF _ assms(5)] by blast
  then show ?thesis
    using assms(1) by (simp only: rbind_Inr prod.case Let_def)
qed

lemma scenario_rows:
  assumes "no_topology w" and "dirs_creatable opts w" and "0 \<le> simulationTime opts"
  shows "\<exists>w'. BuildScenarioS1 opts env w = Inr w' \<and> trace_ok opts w'"
    and "\<exists>w'. BuildScenarioS2 opts env w = Inr w' \<and> trace_ok opts w'"
    and "\<exists>w'. BuildScenarioS3 opts env w = Inr w' \<and> trace_ok opts w'"
    and "\<exists>w'. BuildScenarioS5 opts env w = Inr w' \<and> trace_ok opts w'"
    and "0 \<le> 30 + blockageDuration opts \<Longrightarrow> \<exists>w'. BuildScenarioS4 opts env w = Inr w' \<and> trace_ok opts w'"
proof -
  show "\<exists>w'. BuildScenarioS1 opts env w = Inr w' \<and> trace_ok opts w'"
    unfolding BuildScenarioS1_def
    by (rule build_rows [where traffic = "\<lambda>db. InstallBulkTransfers db 0.0 (simulationTime opts)"
                           and node = "\<lambda>db. db_left db ! 0", OF S1_result [OF assms(1)] _ assms])
       (simp add: frame_simps)
  show "\<exists>w'. BuildScenarioS2 opts env w = Inr w' \<and> trace_ok opts w'"
    unfolding BuildScenarioS2_def
    by (rule build_rows [where traffic = "\<lambda>t. S2_traffic t (simulationTime opts)"
                           and node = "\<lambda>t. s2_left t ! 0", OF S2_result [OF assms(1)] _ assms])
       (simp add: frame_simps)
  show "\<exists>w'. BuildScenarioS3 opts env w = Inr w' \<and> trace_ok opts w'"
    unfolding BuildScenarioS3_def
    by (rule build_rows [where traffic = "\<lambda>t. S3_traffic t (simulationTime opts)"
                           and node = "\<lambda>t. s3_nodes t ! 0", OF S3_result [OF assms(1)] _ assms])
       (simp add: frame_simps)
  show "\<exists>w'. BuildScenarioS5 opts env w = Inr w' \<and> trace_ok opts w'"
  proof -
    have "\<exists>r. dumbbell_topology 8 (p2p ''100Mbps'' ''2ms'') (bottleneck_helper ''100Mbps'' ''20ms'' (queueSize opts)) w = Inr r"
      using dumbbell_topology_fresh [OF assms(1)] dumbbell_plan_distinct [of 8] by simp
    then obtain db w1 where r: "S5_topology (queueSize opts) w = Inr (db, w1)" and h: "host_io w1 = host_io w"
      by (auto simp: S5_topology_dumbbell dest: dumbbell_topology_host_io)
    show ?thesis
      unfolding BuildScenarioS5_def
      by (rule build_rows [where traffic = "\<lambda>db. InstallBulkTransfers db 0.0 (simulationTime opts)"
                             and node = "\<lambda>db. db_left db ! 0", OF r _ assms])
         (simp add: frame_simps h)
  qed
  assume b: "0 \<le> 30 + blockageDuration opts"
  have "w_now (S4_ready opts w) = 0" "w_cwnd_conns (S4_ready opts w) = []"
    using assms(1) by (simp_all add: S4_ready_def S4_state_def no_topology_def)
  with monitor_rows [OF assms(3), where a = "1 / 10" and d = "output_dir_name opts" and env = env and W = "S4_ready opts w"]
  have "\<exists>w'. monitor_and_run opts env (output_dir_name opts) (S4_ready opts w) = Inr w' \<and> trace_ok opts w'"
    by (simp add: S4_ready_def)
  then show "\<exists>w'. BuildScenarioS4 opts env w = Inr w' \<and> trace_ok opts w'"
    by (simp add: BuildScenarioS4_def S4_setup_result [OF assms(1,2) b])
qed

lemma dispatch_rows:
  assumes "options_valid opts" and "no_topology w" and "dirs_creatable opts w"
  shows "\<exists>w'. dispatch opts env w = Inr w' \<and> trace_ok opts w'"
proof -
  have T: "0 \<le> simulationTime opts" and b: "0 \<le> 30 + blockageDuration opts"
    and sc: "scenario opts \<in> {''S1'', ''S2'', ''S3'', ''S4'', ''S5''}"
    using assms(1) by (simp_all add: options_valid_def)
  note r = scenario_rows [OF assms(2,3) T, of env]
  from sc consider "scenario opts = ''S1''" | "scenario opts = ''S2''" | "scenario opts = ''S3''"
    | "scenario opts = ''S4''" | "scenario opts = ''S5''"
    by blast
  then show ?thesis
    by cases (simp_all add: dispatch_def r(1-4) r(5) [OF b])
qed

section \<open>The trace is in time order\<close>

text \<open>
  C9. The spec's trace property: every run with valid options and a registered TCP
  variant, from a state without topology where the output path may be created, ends with a
  \<open>cwnd.csv\<close> whose rows have non-decreasing timestamps, none earlier than the tracer's
  attach time of 0.1 s and none later than the simulation time; in every scenario,
  whatever window changes the transport models report and in whatever order.
\<close>

theorem main_cwnd_rows_ordered:
  assumes "options_valid (parse_cli args)" and "''ns3::'' @ tcpType (parse_cli args) \<in> tid_name ` set reg"
    and "no_topology w" and "dirs_creatable (parse_cli args) w"
  shows "\<exists>w' rows. main args reg env w = Inr w'
           \<and> w_files w' (cwnd_file (output_dir_name (parse_cli args))) = Some (CwndCsv rows)
           \<and> sorted (map fst rows) \<and> (\<forall>r \<in> set rows. 1 / 10 \<le> fst r \<and> fst r \<le> simulationTime (parse_cli args))"
proof -
  obtain W where m: "main args reg env w = dispatch (parse_cli args) env W"
    and n: "no_topology W" and c: "dirs_creatable (parse_cli args) W"
    using main_dispatches [OF assms(2-4)] .
  from dispatch_rows [OF assms(1) n c, of env] m show ?thesis
    by (auto simp: rows_ordered_def list_all_iff)
qed

lemma main_cwnd_rows_ordered_witness:
  "\<exists>w' rows. main [ArgScenario ''S4''] sample_registry [(0.05, 2, 10, 20), (2, 2, 20, 40), (1, 2, 40, 30)] (world0 {} {}) = Inr w'
     \<and> w_files w' (cwnd_file (output_dir_name (parse_cli [ArgScenario ''S4'']))) = Some (CwndCsv rows)
     \<and> sorted (map fst rows) \<and> (\<forall>r \<in> set rows. 1 / 10 \<le> fst r \<and> fst r \<le> simulationTime (parse_cli [ArgScenario ''S4'']))"
  using main_cwnd_rows_ordered [where args = "[ArgScenario ''S4'']" and reg = sample_registry and w = "world0 {} {}"
                                and env = "[(0.05, 2, 10, 20), (2, 2, 20, 40), (1, 2, 40, 30)]",
                                OF _ _ no_topology_world0 dirs_creatable_world0]
  by (simp add: parse_cli_def default_options_def options_valid_def sample_registry_def)

end
