(* ===== verification/Descriptors.thy ===== *)
theory Descriptors
  imports Orchestrator
begin

text \<open>
  The five builders of \<open>src/ns3/tcp_compare.cc\<close> (lines 166--438, 548--575) as
  instances of one scenario descriptor, the interface the spec's design notes propose: a
  topology builder, a traffic installer returning the handle of the flow to perturb, the
  node the window tracer is attached to, and the perturbation (none but for S4). Every
  builder is \<open>build\<close> of its descriptor, so a property of the shared tail (output
  directory, tracer, perturbation, flow monitor, stop, run, teardown) is proved once for
  all five.
\<close>

section \<open>Scenario descriptors\<close>

record ('h, 'p) scenario_desc =
  sd_topology :: "world \<Rightarrow> ('h \<times> world) outcome"
  sd_traffic :: "'h \<Rightarrow> world \<Rightarrow> 'p \<times> world"
  sd_traced :: "'h \<Rightarrow> node_id"
  sd_perturb :: "'p \<Rightarrow> world \<Rightarrow> world outcome"

text \<open>The builder of a descriptor, in the order every \<open>BuildScenario\<close> function follows.\<close>

definition build :: "('h, 'p) scenario_desc \<Rightarrow> runtime_options \<Rightarrow> cwnd_change list \<Rightarrow> world \<Rightarrow> world outcome" where
  "build sd opts env w =
     rbind (sd_topology sd w) (\<lambda>(h, w1).
     let (p, w2) = sd_traffic sd h w1
     in rbind (open_cwnd_trace opts (sd_traced sd h) w2) (\<lambda>(d, w3).
        rbind (sd_perturb sd p w3) (\<lambda>w4. monitor_and_run opts env d w4)))"

definition S1_desc :: "runtime_options \<Rightarrow> (dumbbell, unit) scenario_desc" where
  "S1_desc opts = \<lparr>sd_topology = S1_topology (queueSize opts),
     sd_traffic = \<lambda>db w. ((), InstallBulkTransfers db 0.0 (simulationTime opts) w),
     sd_traced = \<lambda>db. db_left db ! 0, sd_perturb = \<lambda>_ w. Inr w\<rparr>"

definition S2_desc :: "runtime_options \<Rightarrow> (s2_topo, unit) scenario_desc" where
  "S2_desc opts = \<lparr>sd_topology = S2_topology (queueSize opts),
     sd_traffic = \<lambda>t w. ((), S2_traffic t (simulationTime opts) w),
     sd_traced = \<lambda>t. s2_left t ! 0, sd_perturb = \<lambda>_ w. Inr w\<rparr>"

definition S3_desc :: "runtime_options \<Rightarrow> (s3_topo, unit) scenario_desc" where
  "S3_desc opts = \<lparr>sd_topology = S3_topology (queueSize opts) (lossRate opts),
     sd_traffic = \<lambda>t w. ((), S3_traffic t (simulationTime opts) w),
     sd_traced = \<lambda>t. s3_nodes t ! 0, sd_perturb = \<lambda>_ w. Inr w\<rparr>"

definition S4_desc :: "runtime_options \<Rightarrow> (s4_topo, nat option) scenario_desc" where
  "S4_desc opts = \<lparr>sd_topology = S4_topology,
     sd_traffic = \<lambda>t w. S4_traffic t (simulationTime opts) w,
     sd_traced = s4_remote, sd_perturb = \<lambda>v w. schedule_blockage v (blockageDuration opts) w\<rparr>"

definition S5_desc :: "runtime_options \<Rightarrow> (dumbbell, unit) scenario_desc" where
  "S5_desc opts = \<lparr>sd_topology = S5_topology (queueSize opts),
     sd_traffic = \<lambda>db w. ((), InstallBulkTransfers db 0.0 (simulationTime opts) w),
     sd_traced = \<lambda>db. db_left db ! 0, sd_perturb = \<lambda>_ w. Inr w\<rparr>"

section \<open>The five builders as descriptors\<close>

lemma monitor_and_run_start:
  "monitor_and_run opts env d w =
     rbind (Simulator_Stop (simulationTime opts) (if enableFlowMonitor opts then flowmon_install_all w else w)) (\<lambda>w1.
       Inr (Simulator_Destroy (if enableFlowMonitor opts then SerializeFlowMonitor (flowmon_file d) (run env w1) else run env w1)))"
  by (cases "enableFlowMonitor opts") (simp_all add: monitor_and_run_def Let_def)

lemma rbind_assoc: "rbind (rbind m f) g = rbind m (\<lambda>x. rbind (f x) g)"
  by (cases m) simp_all

lemma builders_desc:
  "BuildScenarioS1 opts env w = build (S1_desc opts) opts env w"
  "BuildScenarioS2 opts env w = build (S2_desc opts) opts env w"
  "BuildScenarioS3 opts env w = build (S3_desc opts) opts env w"
  "BuildScenarioS4 opts env w = build (S4_desc opts) opts env w"
  "BuildScenarioS5 opts env w = build (S5_desc opts) opts env w"
proof -
  show "BuildScenarioS4 opts env w = build (S4_desc opts) opts env w"
    by (simp add: BuildScenarioS4_def S4_setup_def build_def S4_desc_def rbind_assoc split_def Let_def)
qed (simp_all add: BuildScenarioS1_def BuildScenarioS2_def BuildScenarioS3_def BuildScenarioS5_def build_def
                   S1_desc_def S2_desc_def S3_desc_def S5_desc_def split_beta Let_def)

end
