(* ===== verification/Unvalidated.thy ===== *)
theory Unvalidated
  imports Descriptors
begin

text \<open>
  Options the spec calls invalid but the composer never checks. The spec's invariant on
  \<open>RuntimeOptions\<close> requires non-negative durations and says the composer fails otherwise;
  \<open>src/ns3/tcp_compare.cc\<close> has no such check, so a negative simulation time travels
  through every builder to \<open>Simulator::Stop\<close> (lines 196, 298, 389, 429, 566), which
  rejects it only after the output directory exists and \<open>cwnd.csv\<close> has been created
  empty, replacing the trace of an earlier run with the same options.
\<close>

section \<open>A negative simulation time\<close>

lemma Simulator_Stop_negative: "T < 0 \<Longrightarrow> Simulator_Stop T w = Inl (NegativeDelay, w)"
  by (simp add: Simulator_Stop_def Schedule_def)

text \<open>
  A descriptor whose topology succeeds, whose traffic leaves the host side alone and whose
  perturbation succeeds without touching files or directories aborts in
  \<open>Simulator::Stop\<close> when the simulation time is negative, with the output directory
  and an empty \<open>cwnd.csv\<close> in place and every other file as it was.
\<close>

lemma build_negative_time:
  assumes "sd_topology sd w = Inr (h, wt)" and "sd_traffic sd h wt = (p, wr)" and "host_io wr = host_io w"
    and "\<And>w3. \<exists>w4. sd_perturb sd p w3 = Inr w4 \<and> w_files w4 = w_files w3 \<and> w_dirs w4 = w_dirs w3"
    and "dirs_creatable opts w" and "simulationTime opts < 0"
  shows "\<exists>w'. build sd opts env w = Inl (NegativeDelay, w')
           \<and> w_files w' = (w_files w)(cwnd_file (output_dir_name opts) \<mapsto> CwndCsv [])
           \<and> set (path_prefixes (output_dir_name opts)) \<subseteq> w_dirs w'"
proof -
  let ?d = "output_dir_name opts"
  have "dirs_creatable opts wr"
    using assms(5) by (simp only: dirs_creatable_host_io [OF assms(3)])
  then obtain w3 where o: "open_cwnd_trace opts (sd_traced sd h) wr = Inr (?d, w3)"
    and f3: "w_files w3 = (w_files wr)(cwnd_file ?d \<mapsto> CwndCsv [])"
    and d3: "set (path_prefixes ?d) \<subseteq> w_dirs w3"
    by (simp add: open_cwnd_trace_ok)
  from assms(4) [of w3] obtain w4 where pt: "sd_perturb sd p w3 = Inr w4"
    and f4: "w_files w4 = w_files w3" and d4: "w_dirs w4 = w_dirs w3"
    by blast
  let ?W = "if enableFlowMonitor opts then flowmon_install_all w4 else w4"
  have "build sd opts env w = Inl (NegativeDelay, ?W)"
    using assms(1,2,6) o pt by (simp add: build_def monitor_and_run_start Simulator_Stop_negative)
  moreover have "w_files ?W = (w_files w)(cwnd_file ?d \<mapsto> CwndCsv [])" "w_dirs ?W = w_dirs w4"
    using assms(3) f3 f4 by (simp_all add: flowmon_install_all_def host_io_def)
  ultimately show ?thesis
    using d3 d4 by auto
qed

lemma schedule_blockage_ok:
  "0 \<le> blockStart + b \<Longrightarrow> \<exists>w4. schedule_blockage v b w3 = Inr w4 \<and> w_files w4 = w_files w3 \<and> w_dirs w4 = w_dirs w3"
  by (simp add: schedule_blockage_def Schedule_def blockStart_def)

lemma scenarios_negative_time:
  assumes "no_topology w" and "dirs_creatable opts w" and "simulationTime opts < 0"
  shows "\<exists>w'. BuildScenarioS1 opts env w = Inl (NegativeDelay, w')
           \<and> w_files w' = (w_files w)(cwnd_file (output_dir_name opts) \<mapsto> CwndCsv [])
           \<and> set (path_prefixes (output_dir_name opts)) \<subseteq> w_dirs w'"
    and "\<exists>w'. BuildScenarioS2 opts env w = Inl (NegativeDelay, w')
           \<and> w_files w' = (w_files w)(cwnd_file (output_dir_name opts) \<mapsto> CwndCsv [])
           \<and> set (path_prefixes (output_dir_name opts)) \<subseteq> w_dirs w'"
    and "\<exists>w'. BuildScenarioS3 opts env w = Inl (NegativeDelay, w')
           \<and> w_files w' = (w_files w)(cwnd_file (output_dir_name opts) \<mapsto> CwndCsv [])
           \<and> set (path_prefixes (output_dir_name opts)) \<subseteq> w_dirs w'"
    and "\<exists>w'. BuildScenarioS5 opts env w = Inl (NegativeDelay, w')
           \<and> w_files w' = (w_files w)(cwnd_file (output_dir_name opts) \<mapsto> CwndCsv [])
           \<and> set (path_prefixes (output_dir_name opts)) \<subseteq> w_dirs w'"
    and "0 \<le> blockStart + blockageDuration opts \<Longrightarrow> \<exists>w'. BuildScenarioS4 opts env w = Inl (NegativeDelay, w')
           \<and> w_files w' = (w_files w)(cwnd_file (output_dir_name opts) \<mapsto> CwndCsv [])
           \<and> set (path_prefixes (output_dir_name opts)) \<subseteq> w_dirs w'"
proof -
  have h5: "host_io (S5_state q w) = host_io w" for q
    by (simp add: host_io_def S5_state_def)
  show "\<exists>w'. BuildScenarioS1 opts env w = Inl (NegativeDelay, w')
           \<and> w_files w' = (w_files w)(cwnd_file (output_dir_name opts) \<mapsto> CwndCsv [])
           \<and> set (path_prefixes (output_dir_name opts)) \<subseteq> w_dirs w'"
    unfolding builders_desc
    by (rule build_negative_time [OF _ _ _ _ assms(2,3)]) (simp add: S1_desc_def S1_result [OF assms(1)] frame_simps)+
  show "\<exists>w'. BuildScenarioS2 opts env w = Inl (NegativeDelay, w')
           \<and> w_files w' = (w_files w)(cwnd_file (output_dir_name opts) \<mapsto> CwndCsv [])
           \<and> set (path_prefixes (output_dir_name opts)) \<subseteq> w_dirs w'"
    unfolding builders_desc
    by (rule build_negative_time [OF _ _ _ _ assms(2,3)]) (simp add: S2_desc_def S2_result [OF assms(1)] frame_simps)+
  show "\<exists>w'. BuildScenarioS3 opts env w = Inl (NegativeDelay, w')
           \<and> w_files w' = (w_files w)(cwnd_file (output_dir_name opts) \<mapsto> CwndCsv [])
           \<and> set (path_prefixes (output_dir_name opts)) \<subseteq> w_dirs w'"
    unfolding builders_desc
    by (rule build_negative_time [OF _ _ _ _ assms(2,3)]) (simp add: S3_desc_def S3_result [OF assms(1)] frame_simps)+
  show "\<exists>w'. BuildScenarioS5 opts env w = Inl (NegativeDelay, w')
           \<and> w_files w' = (w_files w)(cwnd_file (output_dir_name opts) \<mapsto> CwndCsv [])
           \<and> set (path_prefixes (output_dir_name opts)) \<subseteq> w_dirs w'"
    unfolding builders_desc
    by (rule build_negative_time [OF _ _ _ _ assms(2,3)]) (simp add: S5_desc_def S5_result [OF assms(1)] frame_simps h5)+
  assume b: "0 \<le> blockStart + blockageDuration opts"
  have a4: "w_apps (S4_state w) = []"
    using assms(1) by (simp add: no_topology_def S4_state_def)
  have h4: "host_io ((S4_state w)\<lparr>w_apps := x\<rparr>) = host_io w" for x
    by (simp add: host_io_def S4_state_def)
  show "\<exists>w'. BuildScenarioS4 opts env w = Inl (NegativeDelay, w')
           \<and> w_files w' = (w_files w)(cwnd_file (output_dir_name opts) \<mapsto> CwndCsv [])
           \<and> set (path_prefixes (output_dir_name opts)) \<subseteq> w_dirs w'"
    unfolding builders_desc
    by (rule build_negative_time [OF _ _ _ _ assms(2,3)])
       (simp add: S4_desc_def S4_result [OF assms(1)] S4_traffic_result [OF a4] h4 schedule_blockage_ok [OF b])+
qed

section \<open>The composer accepts what the spec calls invalid\<close>

text \<open>
  C12. A negative simulation time, which the spec's option invariant forbids and says
  makes the composer fail, is not rejected up front: every scenario builds its topology
  and traffic and creates the output directory and an empty \<open>cwnd.csv\<close> (replacing
  any trace an earlier run left there) before \<open>Simulator::Stop\<close> aborts with a negative
  delay; every other file is left as it was.
\<close>

theorem main_negative_time_aborts_late:
  assumes "scenario (parse_cli args) \<in> {''S1'', ''S2'', ''S3'', ''S4'', ''S5''}"
    and "''ns3::'' @ tcpType (parse_cli args) \<in> tid_name ` set reg"
    and "no_topology w" and "dirs_creatable (parse_cli args) w"
    and "simulationTime (parse_cli args) < 0" and "0 \<le> blockStart + blockageDuration (parse_cli args)"
  shows "\<exists>w'. main args reg env w = Inl (NegativeDelay, w')
           \<and> w_files w' = (w_files w)(cwnd_file (output_dir_name (parse_cli args)) \<mapsto> CwndCsv [])
           \<and> set (path_prefixes (output_dir_name (parse_cli args))) \<subseteq> w_dirs w'"
proof -
  let ?opts = "parse_cli args"
  obtain W where m: "main args reg env w = dispatch ?opts env W" and h: "host_io W = host_io w"
    and n: "no_topology W" and c: "dirs_creatable ?opts W"
    using main_dispatches [OF assms(2-4)] .
  have fw: "w_files W = w_files w"
    using h by (simp add: host_io_def)
  note r = scenarios_negative_time [OF n c assms(5), of env]
  from assms(1) consider "scenario ?opts = ''S1''" | "scenario ?opts = ''S2''" | "scenario ?opts = ''S3''"
    | "scenario ?opts = ''S4''" | "scenario ?opts = ''S5''"
    by blast
  then have "\<exists>w'. dispatch ?opts env W = Inl (NegativeDelay, w')
               \<and> w_files w' = (w_files W)(cwnd_file (output_dir_name ?opts) \<mapsto> CwndCsv [])
               \<and> set (path_prefixes (output_dir_name ?opts)) \<subseteq> w_dirs w'"
    by cases (simp_all add: dispatch_def r(1-4) r(5) [OF assms(6)])
  then show ?thesis
    by (simp only: m fw)
qed

lemma main_negative_time_aborts_late_witness:
  "\<exists>w'. main [ArgTime (-1)] sample_registry [] (world0 {} {}) = Inl (NegativeDelay, w')
     \<and> w_files w' = (w_files (world0 {} {}))(cwnd_file (output_dir_name (parse_cli [ArgTime (-1)])) \<mapsto> CwndCsv [])
     \<and> set (path_prefixes (output_dir_name (parse_cli [ArgTime (-1)]))) \<subseteq> w_dirs w'"
  using main_negative_time_aborts_late [where args = "[ArgTime (-1)]" and reg = sample_registry and w = "world0 {} {}"
                                        and env = "[]", OF _ _ no_topology_world0 dirs_creatable_world0]
  by (simp add: parse_cli_def default_options_def sample_registry_def blockStart_def)

end
