(* ===== verification/Spec2Isabelle.thy ===== *)
theory Spec2Isabelle
  imports Scenarios Dumbbell Perturbation Orchestrator Flows CwndTrace TraceOrder Unvalidated
begin

text \<open>
  A verification development of \<open>src/ns3/tcp_compare.cc\<close>, the ns-3 TCP comparison
  scenario composer: \<open>main\<close> reads the run options, seeds the random number generator,
  resolves the TCP variant, and runs one of five scenarios. Each scenario builds a
  topology, installs traffic, opens \<open>results/<scenario>/<tcp>/run-<seed>/cwnd.csv\<close>,
  schedules the congestion-window tracer, optionally installs the flow monitor, runs the
  simulator to the configured time and writes \<open>flowmon.xml\<close>.

  \<^bold>\<open>The model.\<close> The program is a sequence of calls into ns-3, so the state is one
  record \<^typ>\<open>world\<close> (theory \<open>Ns3World\<close>) of everything the composer creates or
  observes: nodes, IPv4 stacks, point-to-point devices and channels, interface addresses
  and the global address allocator, routes, attribute defaults, applications, scheduled
  events, the traced sockets, the file system, and the random number generator's seed
  and run. Every function of the source is a definition that takes and returns this
  state; a fatal error (\<open>NS_FATAL_ERROR\<close>, an abort of ns-3, a failed directory
  creation) is the value \<open>Inl (e, w)\<close> of the result type \<^typ>\<open>'a outcome\<close>, where
  \<open>w\<close> is the state at the abort, since directories and files written before persist.
  Real numbers model \<open>double\<close> and ns-3 \<open>Time\<close>; addresses are \<open>32 word\<close>, ports
  \<open>16 word\<close> (so \<open>port + i\<close> wraps), the seed \<open>32 word\<close>.

  \<^bold>\<open>Theories and the code they model.\<close>
  \<^item> \<open>Prelude\<close>: the abort datatype, the bind \<open>rbind\<close> of the result type, dotted
    quad addresses \<open>ip4\<close>, the \<open>frame_simps\<close> collection, and list lemmas shared by
    the components.
  \<^item> \<open>Ns3World\<close>: the state record and the ns-3 primitives the composer calls
    (\<open>NodeContainer::Create\<close>, \<open>InternetStackHelper::Install\<close> with its double-install
    abort, \<open>PointToPointHelper\<close>); the well-formedness invariant \<open>wf_world\<close> and its
    preservation by the primitives.
  \<^item> \<open>RuntimeOptions\<close>: \<open>struct RuntimeOptions\<close> (lines 29--40) and the option
    bindings of \<open>main\<close> (lines 577--595) as a fold over parsed arguments; the spec's
    invariant on options, \<open>options_valid\<close>, which the code never checks.
  \<^item> \<open>OutputPath\<close>: \<open>CreateOutputDir\<close> (lines 57--64) with \<open>SystemPath::MakeDirectories\<close> as
    a walk over the path prefixes that aborts on the first one that cannot be created;
    the decimal rendering of the seed and its parser; \<open>AsciiTraceHelper::CreateFileStream\<close>.
  \<^item> \<open>TcpConfig\<close>: \<open>ConfigureTcp\<close> (lines 66--79) over a registry of TypeIds.
  \<^item> \<open>Addressing\<close>: ns-3's \<open>Ipv4AddressHelper\<close> (\<open>SetBase\<close>, \<open>NewAddress\<close> with
    its overflow and collision aborts, \<open>NewNetwork\<close>, \<open>Assign\<close>) on 32-bit words, and
    the closed form \<open>assign_result\<close> of \<open>Assign\<close>.
  \<^item> \<open>Topology\<close>: the dumbbell helper and the composer's \<open>InstallStacks\<close>,
    \<open>AssignIpv4Addresses\<close> (lines 110--125), and the topology parts of the builders S1,
    S2, S3, S5 (lines 169--180, 210--258, 312--347, 403--414); the shape and routing
    predicates of the spec's topology invariant and the states the builders produce.
  \<^item> \<open>Dumbbell\<close>: the dumbbell with \<open>n\<close> leaves per side for every \<open>n\<close>: the /24
    networks of its address plan as numbers, and when the plan is free of collisions;
    S5's topology in closed form (\<open>S5_state\<close>).
  \<^item> \<open>Traffic\<close>: \<open>InstallBulkTransfers\<close>, \<open>InstallShortWebTraffic\<close> (lines 127--164)
    and the traffic of S2 and S3; predicates on the installed flows.
  \<^item> \<open>Simulator\<close>: \<open>Simulator::Schedule\<close>, \<open>Stop\<close>, \<open>Run\<close>, \<open>Destroy\<close>. \<open>Run\<close> is
    \<open>run_items exec notify\<close>, parameterised by the composer's callbacks, over the
    timeline of scheduled events (stable by time) merged with the congestion-window
    changes the transport models report, which are an input of the run.
  \<^item> \<open>Instrumentation\<close>: \<open>CwndTracer\<close>, \<open>InstallCwndTracer\<close>, \<open>SetOnOffRate\<close>,
    \<open>SerializeFlowMonitor\<close> (lines 81--108) and the tail the builders share; the run
    seen through the fields the callbacks read (\<open>run_conns_apps\<close>).
  \<^item> \<open>Cellular\<close>: S4 (lines 441--575): the LTE/EPC topology as node creation,
    device installation, UE addressing from 7.0.0.0/8, attachment and static routes; the
    video and bulk flows; the blockage scheduled with \<open>SetOnOffRate\<close>.
  \<^item> \<open>Scenarios\<close>: the five \<open>BuildScenario\<close> functions, \<open>dispatch\<close> and \<open>main\<close>.
  \<^item> \<open>Perturbation\<close>: S4 from setup to teardown, following the video source's rate
    through the run and the sockets the tracer is connected to; the abstract blockage
    schedule \<open>blocked_rate\<close> of the spec.
  \<^item> \<open>Orchestrator\<close>: the part of the state no topology or traffic operation touches
    (\<open>host_io\<close>: directories, files, and the engine's events, clock and tracer
    connections); the run keeps the shape of the file system; every scenario, and
    \<open>main\<close>, completes with the artefacts \<open>run_artefacts\<close> of the spec's output layout,
    or, when the output path may not be created, aborts with \<open>DirectoryNotCreated\<close>
    after building the topology and traffic, leaving the files as they were.
  \<^item> \<open>Flows\<close>: the applications S1 to S4 install, in order, against the spec's flow
    invariant \<open>flows_ok\<close> and the installer's sink-first order.
  \<^item> \<open>CwndTrace\<close>: the run's timeline split at the tracer and the stop event, the
    file followed through each part, and the rows \<open>cwnd.csv\<close> ends with
    (\<open>trace_rows\<close>).
  \<^item> \<open>TraceOrder\<close>: an invariant of the engine's run on one trace stream
    (\<open>stream_inv\<close>), preserved by every scheduled event and window change in time
    order, so that the stream's rows stay sorted and within the tracer's attach time and
    the stop time (\<open>rows_ordered\<close>), in every scenario, S4's blockage events included.
  \<^item> \<open>Descriptors\<close>: the scenario descriptor (\<open>scenario_desc\<close>: topology, traffic,
    traced node, perturbation) the spec's design notes propose; each of the five
    builders equals \<open>build\<close> of its descriptor \<open>S1_desc\<close> to \<open>S5_desc\<close>, so the
    shared tail is reasoned about once.
  \<^item> \<open>Unvalidated\<close>: options the spec's invariant forbids but the code never checks;
    a negative simulation time runs every builder up to \<open>Simulator::Stop\<close>.

  \<^bold>\<open>What is proved.\<close> \<open>main\<close>'s error paths (unknown TCP variant, unsupported
  scenario) and what exists at the abort; that every run with valid options and a
  registered variant terminates with its artefacts (a liveness property, proved as the
  existence of the final state, not assuming it); \<open>ConfigureTcp\<close>'s exact effect (it accepts
  every registered TypeId, also one that is not a congestion-control algorithm); the output path's round trip through its parser, its
  creation and failure; the shape of the topologies of S1, S2, S3 (a tree,
  one network per link, one stack per node, routes) computed from a state without
  topology, that S1 and S5 install no routes, S5's shape and its link classes, which
  differ from S1's, the exact bound (256 leaves) of the dumbbell's address plan, and S4's addresses and routes; the equivalence of \<open>Assign\<close> with its
  closed form and of the loop of \<open>InstallBulkTransfers\<close> with its list of flows;
  the flow invariant for S1 to S4 and its failure for S2 runs under 6 s;
  that S4's blockage refines the spec's window \<open>[blockStart, blockStart + b)\<close> for
  \<open>b \<ge> 0\<close>, while a negative \<open>b\<close> leaves the stream collapsed or aborts; that S4's tracer
  misses the video flow; the exact rows of \<open>cwnd.csv\<close> for S1 to S3, and for all five scenarios the spec's
  trace property (timestamps non-decreasing, none before 0.1 s or after the stop time);
  that a run whose output path may not be created aborts without touching any file; that a negative simulation time is
  rejected only by \<open>Simulator::Stop\<close>, after \<open>cwnd.csv\<close> has been emptied;
  and that a stale \<open>flowmon.xml\<close> survives a run without the monitor.

  \<^bold>\<open>Bounds and fuel.\<close> \<open>reach\<close> is breadth-first search with fuel (the number of
  nodes); it is used on concrete topologies only, where the evaluation shows every node
  reached. The engine's run is structural recursion over the finite timeline, so it always
  returns; the stop event at the configured time cuts it short.

  \<^bold>\<open>Not modelled.\<close> Packet-level behaviour of ns-3 (queues, links, the TCP
  congestion-control algorithms, LTE radio and EPC): the composer only configures them,
  and the spec excludes them; their effect on the run enters as the list of
  congestion-window changes. The formats of \<open>cwnd.csv\<close> and \<open>flowmon.xml\<close> (ns-3 writes
  them; the model keeps their rows and the monitored nodes). ns-3's \<open>CommandLine\<close>
  parser: arguments are taken as already converted values.
\<close>

lemma set_rng_frame [simp]:
  "w_dirs (set_rng opts w) = w_dirs w" "w_files (set_rng opts w) = w_files w"
  "w_nodes (set_rng opts w) = w_nodes w" "w_defaults (set_rng opts w) = w_defaults w"
  "w_devs (set_rng opts w) = w_devs w" "w_apps (set_rng opts w) = w_apps w"
  by (simp_all add: set_rng_def)

text \<open>
  C1. An unknown TCP variant aborts the run in \<open>ConfigureTcp\<close>, before any scenario
  code runs: whatever the scenario, no directory or file has been created, no node
  exists, and no attribute default has been written when the process dies.
\<close>

theorem main_unknown_tcp:
  assumes "''ns3::'' @ tcpType (parse_cli args) \<notin> tid_name ` set reg"
  shows "\<exists>w'. main args reg env w = Inl (UnknownTcpType (tcpType (parse_cli args)), w')
           \<and> w_dirs w' = w_dirs w \<and> w_files w' = w_files w \<and> w_nodes w' = w_nodes w
           \<and> w_defaults w' = w_defaults w"
proof -
  let ?opts = "parse_cli args"
  have "ConfigureTcp reg (tcpType ?opts) (set_rng ?opts w) = Inl (UnknownTcpType (tcpType ?opts), set_rng ?opts w)"
    using assms by (simp only: ConfigureTcp_eq if_False)
  then show ?thesis by (simp add: main_def Let_def)
qed

text \<open>
  C2. An unsupported scenario identifier aborts after the TCP defaults are written but
  before any topology exists: no node, device or application has been created and no
  directory or file written.
\<close>

theorem main_unsupported_scenario:
  assumes "''ns3::'' @ tcpType (parse_cli args) \<in> tid_name ` set reg"
    and "scenario (parse_cli args) \<notin> {''S1'', ''S2'', ''S3'', ''S4'', ''S5''}"
  shows "\<exists>w'. main args reg env w = Inl (UnsupportedScenario (scenario (parse_cli args)), w')
           \<and> w_nodes w' = w_nodes w \<and> w_devs w' = w_devs w \<and> w_apps w' = w_apps w
           \<and> w_dirs w' = w_dirs w \<and> w_files w' = w_files w"
proof -
  let ?opts = "parse_cli args"
  let ?w2 = "(set_rng ?opts w)\<lparr>w_defaults := w_defaults (set_rng ?opts w) ++ map_of (rev (tcp_defaults (''ns3::'' @ tcpType ?opts)))\<rparr>"
  have "ConfigureTcp reg (tcpType ?opts) (set_rng ?opts w) = Inr ?w2"
    using assms(1) by (simp only: ConfigureTcp_eq if_True)
  moreover have "dispatch ?opts env ?w2 = Inl (UnsupportedScenario (scenario ?opts), ?w2)"
    using assms(2) by (simp add: dispatch_def)
  ultimately show ?thesis by (simp add: main_def Let_def)
qed

theorem main_unknown_tcp_witness:
  "\<exists>w'. main [ArgScenario ''S9'', ArgTcp ''TcpBogus''] sample_registry [] (world0 {} {})
         = Inl (UnknownTcpType ''TcpBogus'', w') \<and> w_dirs w' = {} \<and> w_files w' = Map.empty
         \<and> w_nodes w' = 0 \<and> w_defaults w' = Map.empty"
proof -
  have "''ns3::'' @ tcpType (parse_cli [ArgScenario ''S9'', ArgTcp ''TcpBogus'']) \<notin> tid_name ` set sample_registry"
    by (simp add: parse_cli_def sample_registry_def)
  from main_unknown_tcp [OF this, of "[]" "world0 {} {}"] show ?thesis
    by (simp add: parse_cli_def world0_def)
qed

theorem main_unsupported_scenario_witness:
  "\<exists>w'. main [ArgScenario ''S9''] sample_registry [] (world0 {} {})
         = Inl (UnsupportedScenario ''S9'', w') \<and> w_nodes w' = 0 \<and> w_devs w' = [] \<and> w_apps w' = []
         \<and> w_dirs w' = {} \<and> w_files w' = Map.empty"
proof -
  have "''ns3::'' @ tcpType (parse_cli [ArgScenario ''S9'']) \<in> tid_name ` set sample_registry"
    by (simp add: parse_cli_def default_options_def sample_registry_def)
  moreover have "scenario (parse_cli [ArgScenario ''S9'']) \<notin> {''S1'', ''S2'', ''S3'', ''S4'', ''S5''}"
    by (simp add: parse_cli_def)
  ultimately show ?thesis
    using main_unsupported_scenario [of "[ArgScenario ''S9'']" sample_registry "[]" "world0 {} {}"]
    by (simp add: parse_cli_def world0_def)
qed

end
